theory Spec2Isabelle
  imports Main
begin

section \<open>Python values, dictionaries and errors\<close>

text \<open>
  The module \<^verbatim>\<open>mwaa/logging/config.py\<close> builds the dictionary \<^verbatim>\<open>LOGGING_CONFIG\<close>
  out of Airflow's \<^verbatim>\<open>DEFAULT_LOGGING_CONFIG\<close> and the process environment.

  The values that occur in a logging configuration are \<^verbatim>\<open>None\<close>, strings, booleans,
  integers, lists and dictionaries with string keys. A dictionary is an association
  list in insertion order with one pair per key, as a Python \<^verbatim>\<open>dict\<close> is.
  Strings are 8-bit character lists; case conversion is the ASCII one, which is
  what Python's \<^verbatim>\<open>str.upper\<close> and \<^verbatim>\<open>str.lower\<close> do on the ASCII names this module
  passes, and which decides \<^verbatim>\<open>s.lower() == "true"\<close> as Python does (no character
  outside ASCII has a lower-case form among the letters of \<^verbatim>\<open>true\<close>).
\<close>

datatype pyval =
    PyNone
  | PyStr string
  | PyBool bool
  | PyInt int
  | PyList "pyval list"
  | PyDict "(string \<times> pyval) list"

datatype py_error =
    KeyError string
  | TypeError
  | AttributeError

type_synonym 'a result = "py_error + 'a"

text \<open>Sequencing of statements that may raise: the first exception ends the run.\<close>

definition bind_result :: "'a result \<Rightarrow> ('a \<Rightarrow> 'b result) \<Rightarrow> 'b result" where
  "bind_result m f = (case m of Inl e \<Rightarrow> Inl e | Inr x \<Rightarrow> f x)"

text \<open>\<^verbatim>\<open>d[k] = v\<close> on a dictionary's items: an existing key keeps its place.\<close>

primrec dict_store :: "string \<Rightarrow> pyval \<Rightarrow> (string \<times> pyval) list \<Rightarrow> (string \<times> pyval) list" where
  "dict_store k v [] = [(k, v)]"
| "dict_store k v (p # ps) = (if fst p = k then (k, v) # ps else p # dict_store k v ps)"

text \<open>\<^verbatim>\<open>d[k]\<close>: subscripting anything but a dictionary with a string is a
  \<^verbatim>\<open>TypeError\<close>, a missing key a \<^verbatim>\<open>KeyError\<close>.\<close>

definition getitem :: "pyval \<Rightarrow> string \<Rightarrow> pyval result" where
  "getitem d k =
     (case d of
        PyDict items \<Rightarrow> (case map_of items k of None \<Rightarrow> Inl (KeyError k) | Some v \<Rightarrow> Inr v)
      | _ \<Rightarrow> Inl TypeError)"

text \<open>\<^verbatim>\<open>d[k] = v\<close>, returning the dictionary after the assignment.\<close>

definition setitem :: "pyval \<Rightarrow> string \<Rightarrow> pyval \<Rightarrow> pyval result" where
  "setitem d k v =
     (case d of
        PyDict items \<Rightarrow> Inr (PyDict (dict_store k v items))
      | _ \<Rightarrow> Inl TypeError)"

text \<open>\<^verbatim>\<open>d.update(other)\<close> for a dictionary \<^verbatim>\<open>other\<close> given by its items; only
  dictionaries have the method among the values of a logging configuration.\<close>

definition dict_update :: "pyval \<Rightarrow> (string \<times> pyval) list \<Rightarrow> pyval result" where
  "dict_update d other =
     (case d of
        PyDict items \<Rightarrow> Inr (PyDict (fold (\<lambda>(k, v). dict_store k v) other items))
      | _ \<Rightarrow> Inl AttributeError)"

subsection \<open>Strings\<close>

definition upper_char :: "char \<Rightarrow> char" where
  "upper_char c =
     (case map_of (zip ''abcdefghijklmnopqrstuvwxyz'' ''ABCDEFGHIJKLMNOPQRSTUVWXYZ'') c of
        Some u \<Rightarrow> u | None \<Rightarrow> c)"

definition lower_char :: "char \<Rightarrow> char" where
  "lower_char c =
     (case map_of (zip ''ABCDEFGHIJKLMNOPQRSTUVWXYZ'' ''abcdefghijklmnopqrstuvwxyz'') c of
        Some l \<Rightarrow> l | None \<Rightarrow> c)"

definition upper :: "string \<Rightarrow> string" where
  "upper s = map upper_char s"

definition lower :: "string \<Rightarrow> string" where
  "lower s = map lower_char s"

text \<open>\<^verbatim>\<open>s.replace(".", "_")\<close>: both strings have one character.\<close>

definition replace_dot :: "string \<Rightarrow> string" where
  "replace_dot s = map (\<lambda>c. if c = CHR ''.'' then CHR ''_'' else c) s"

text \<open>\<^verbatim>\<open>os.path.basename\<close> of \<^verbatim>\<open>posixpath\<close>: what follows the last slash.\<close>

definition basename :: "string \<Rightarrow> string" where
  "basename p = rev (takeWhile (\<lambda>c. c \<noteq> CHR ''/'') (rev p))"

section \<open>The environment and what the module imports\<close>

text \<open>\<^verbatim>\<open>os.environ\<close>, and \<^verbatim>\<open>os.environ.get(name, default)\<close> for a string default;
  \<^verbatim>\<open>os.environ.get(name, None)\<close> is the lookup itself.\<close>

type_synonym environ = "string \<rightharpoonup> string"

definition environ_get :: "environ \<Rightarrow> string \<Rightarrow> string \<Rightarrow> string" where
  "environ_get env name dflt = (case env name of None \<Rightarrow> dflt | Some v \<Rightarrow> v)"

text \<open>
  What the module imports and does not define: the four constants of
  \<^verbatim>\<open>airflow.config_templates.airflow_local_settings\<close> and the names
  \<^verbatim>\<open>qualified_name\<close> gives the handler classes of \<^verbatim>\<open>mwaa.logging.cloudwatch_handlers\<close>.
  They are parameters of the model, and so is the password database that
  \<^verbatim>\<open>os.path.expanduser\<close> falls back on: the home directory of the current user
  (\<^verbatim>\<open>pwd.getpwuid(os.getuid()).pw_dir\<close>) and that of a named user
  (\<^verbatim>\<open>pwd.getpwnam(name).pw_dir\<close>), each \<open>None\<close> where the lookup raises \<^verbatim>\<open>KeyError\<close>.
  \<^verbatim>\<open>DEFAULT_LOGGING_CONFIG\<close> (Airflow declares it a \<^verbatim>\<open>dict[str, Any]\<close>) is given by
  the items it has when the module is imported, a literal without shared parts.
  \<^verbatim>\<open>LOGGING_CONFIG = {**DEFAULT_LOGGING_CONFIG}\<close> copies its top level only, so the
  nested dictionaries the module writes to are Airflow's own objects; the model
  follows the value of \<^verbatim>\<open>LOGGING_CONFIG\<close>, and a nested assignment writes the changed
  inner dictionary back into the outer one.
\<close>

datatype handler_class =
    TaskLogHandler
  | DagProcessorManagerLogHandler
  | DagProcessingLogHandler
  | SubprocessLogHandler

record imported =
  BASE_LOG_FOLDER :: string
  DAG_PROCESSOR_MANAGER_LOG_LOCATION :: string
  DEFAULT_LOGGING_CONFIG :: "(string \<times> pyval) list"
  PROCESSOR_FILENAME_TEMPLATE :: string
  qualified_name :: "handler_class \<Rightarrow> string"
  getpwuid_dir :: "string option"
  getpwnam_dir :: "string \<Rightarrow> string option"

text \<open>
  \<^verbatim>\<open>os.path.expanduser\<close> of \<^verbatim>\<open>posixpath\<close>. A path that does not start with a tilde is
  returned as it is. Otherwise the user name is what stands between the tilde and
  the first slash: for an empty name the home directory is \<^verbatim>\<open>HOME\<close> when the
  environment has it and the current user's directory otherwise, for another name
  it is that user's directory; a failed lookup returns the path as it is. The home
  directory loses its trailing slashes and replaces the tilde and the name; an
  empty result is \<^verbatim>\<open>/\<close>.
\<close>

definition expanduser :: "imported \<Rightarrow> environ \<Rightarrow> string \<Rightarrow> string" where
  "expanduser imp env path =
     (case path of
        [] \<Rightarrow> path
      | c # after_tilde \<Rightarrow>
          if c \<noteq> CHR ''~'' then path
          else
            let name = takeWhile (\<lambda>c. c \<noteq> CHR ''/'') after_tilde;
                rest = dropWhile (\<lambda>c. c \<noteq> CHR ''/'') after_tilde;
                userhome =
                  (if name = [] then
                     (case env ''HOME'' of None \<Rightarrow> getpwuid_dir imp | Some home \<Rightarrow> Some home)
                   else getpwnam_dir imp name)
            in case userhome of
                 None \<Rightarrow> path
               | Some home \<Rightarrow>
                   let expanded = rev (dropWhile (\<lambda>c. c = CHR ''/'') (rev home)) @ rest
                   in if expanded = [] then ''/'' else expanded)"

section \<open>The module\<close>

text \<open>\<^verbatim>\<open>if x:\<close> for \<^verbatim>\<open>x\<close> a string or \<^verbatim>\<open>None\<close>, and the value of such an \<^verbatim>\<open>x\<close>.\<close>

definition truthy :: "string option \<Rightarrow> bool" where
  "truthy x = (case x of None \<Rightarrow> False | Some s \<Rightarrow> s \<noteq> [])"

definition str_or_none :: "string option \<Rightarrow> pyval" where
  "str_or_none x = (case x of None \<Rightarrow> PyNone | Some s \<Rightarrow> PyStr s)"

text \<open>\<^verbatim>\<open>cfg[k1][k2] = v\<close> and \<^verbatim>\<open>cfg[k1][k2].update(other)\<close>.\<close>

definition setitem2 :: "pyval \<Rightarrow> string \<Rightarrow> string \<Rightarrow> pyval \<Rightarrow> pyval result" where
  "setitem2 cfg k1 k2 v =
     bind_result (getitem cfg k1) (\<lambda>inner.
     bind_result (setitem inner k2 v) (\<lambda>inner'.
     setitem cfg k1 inner'))"

definition update2 :: "pyval \<Rightarrow> string \<Rightarrow> string \<Rightarrow> (string \<times> pyval) list \<Rightarrow> pyval result" where
  "update2 cfg k1 k2 other =
     bind_result (getitem cfg k1) (\<lambda>inner.
     bind_result (getitem inner k2) (\<lambda>entry.
     bind_result (dict_update entry other) (\<lambda>entry'.
     bind_result (setitem inner k2 entry') (\<lambda>inner'.
     setitem cfg k1 inner'))))"

definition LOGGING_CONFIG :: "imported \<Rightarrow> pyval" where
  "LOGGING_CONFIG imp = PyDict (DEFAULT_LOGGING_CONFIG imp)"

text \<open>Isabelle names cannot start with an underscore: \<^verbatim>\<open>_configure\<close> is \<open>configure\<close>,
  and so on.\<close>

definition get_kms_key_arn :: "environ \<Rightarrow> string option" where
  "get_kms_key_arn env = env ''MWAA__CORE__KMS_KEY_ARN''"

definition get_mwaa_logging_env_vars :: "environ \<Rightarrow> string \<Rightarrow> string option \<times> string \<times> bool" where
  "get_mwaa_logging_env_vars env source =
     (let log_group_arn = env (''MWAA__LOGGING__AIRFLOW_'' @ upper source @ ''_LOG_GROUP_ARN'');
          log_level = environ_get env
            (''MWAA__LOGGING__AIRFLOW_'' @ upper source @ ''_LOG_LEVEL'') ''INFO'';
          logging_enabled = environ_get env
            (''MWAA__LOGGING__AIRFLOW_'' @ upper source @ ''_LOGS_ENABLED'') ''false''
      in (log_group_arn, log_level, lower logging_enabled = ''true''))"

definition configure_task_logging :: "imported \<Rightarrow> environ \<Rightarrow> pyval \<Rightarrow> pyval result" where
  "configure_task_logging imp env cfg =
     (case get_mwaa_logging_env_vars env ''task'' of
        (log_group_arn, log_level, logging_enabled) \<Rightarrow>
          if truthy log_group_arn then
            bind_result
              (setitem2 cfg ''handlers'' ''task''
                 (PyDict
                    [(''class'', PyStr (qualified_name imp TaskLogHandler)),
                     (''formatter'', PyStr ''airflow''),
                     (''filters'', PyList [PyStr ''mask_secrets'']),
                     (''base_log_folder'', PyStr (expanduser imp env (BASE_LOG_FOLDER imp))),
                     (''log_group_arn'', str_or_none log_group_arn),
                     (''kms_key_arn'', str_or_none (get_kms_key_arn env)),
                     (''enabled'', PyBool logging_enabled)]))
              (\<lambda>cfg. update2 cfg ''loggers'' ''airflow.task'' [(''level'', PyStr log_level)])
          else Inr cfg)"

definition configure_dag_processing_logging :: "imported \<Rightarrow> environ \<Rightarrow> pyval \<Rightarrow> pyval result" where
  "configure_dag_processing_logging imp env cfg =
     (case get_mwaa_logging_env_vars env ''dagprocessor'' of
        (log_group_arn, log_level, logging_enabled) \<Rightarrow>
          if truthy log_group_arn then
            bind_result
              (setitem2 cfg ''handlers'' ''processor_manager''
                 (PyDict
                    [(''class'', PyStr (qualified_name imp DagProcessorManagerLogHandler)),
                     (''formatter'', PyStr ''airflow''),
                     (''log_group_arn'', str_or_none log_group_arn),
                     (''kms_key_arn'', str_or_none (get_kms_key_arn env)),
                     (''stream_name'', PyStr (basename (DAG_PROCESSOR_MANAGER_LOG_LOCATION imp))),
                     (''enabled'', PyBool logging_enabled)]))
              (\<lambda>cfg.
            bind_result
              (setitem2 cfg ''loggers'' ''airflow.processor_manager''
                 (PyDict
                    [(''handlers'', PyList [PyStr ''processor_manager'']),
                     (''level'', PyStr log_level),
                     (''propagate'', PyBool False)]))
              (\<lambda>cfg.
            bind_result
              (setitem2 cfg ''handlers'' ''processor''
                 (PyDict
                    [(''class'', PyStr (qualified_name imp DagProcessingLogHandler)),
                     (''formatter'', PyStr ''airflow''),
                     (''log_group_arn'', str_or_none log_group_arn),
                     (''kms_key_arn'', str_or_none (get_kms_key_arn env)),
                     (''stream_name_template'', PyStr (PROCESSOR_FILENAME_TEMPLATE imp)),
                     (''enabled'', PyBool logging_enabled)]))
              (\<lambda>cfg.
            setitem2 cfg ''loggers'' ''airflow.processor''
              (PyDict
                 [(''handlers'', PyList [PyStr ''processor'']),
                  (''level'', PyStr log_level),
                  (''propagate'', PyBool False)]))))
          else Inr cfg)"

definition SCHEDULER_LOGGER_NAME :: string where
  "SCHEDULER_LOGGER_NAME = ''mwaa.scheduler''"

definition SCHEDULER_REQUIREMENTS_LOGGER_NAME :: string where
  "SCHEDULER_REQUIREMENTS_LOGGER_NAME = ''mwaa.scheduler_requirements''"

definition TRIGGERER_LOGGER_NAME :: string where
  "TRIGGERER_LOGGER_NAME = ''mwaa.triggerer''"

definition TRIGGERER_REQUIREMENTS_LOGGER_NAME :: string where
  "TRIGGERER_REQUIREMENTS_LOGGER_NAME = ''mwaa.triggerer_requirements''"

definition WEBSERVER_LOGGER_NAME :: string where
  "WEBSERVER_LOGGER_NAME = ''mwaa.webserver''"

definition WEBSERVER_REQUIREMENTS_LOGGER_NAME :: string where
  "WEBSERVER_REQUIREMENTS_LOGGER_NAME = ''mwaa.webserver_requirements''"

definition WORKER_LOGGER_NAME :: string where
  "WORKER_LOGGER_NAME = ''mwaa.worker''"

definition WORKER_REQUIREMENTS_LOGGER_NAME :: string where
  "WORKER_REQUIREMENTS_LOGGER_NAME = ''mwaa.worker_requirements''"

definition MWAA_LOGGERS :: "(string \<times> string) list" where
  "MWAA_LOGGERS =
     [(''scheduler'', SCHEDULER_LOGGER_NAME),
      (''scheduler_requirements'', SCHEDULER_REQUIREMENTS_LOGGER_NAME),
      (''triggerer'', TRIGGERER_LOGGER_NAME),
      (''triggerer_requirements'', TRIGGERER_REQUIREMENTS_LOGGER_NAME),
      (''webserver'', WEBSERVER_LOGGER_NAME),
      (''webserver_requirements'', WEBSERVER_REQUIREMENTS_LOGGER_NAME),
      (''worker'', WORKER_LOGGER_NAME),
      (''worker_requirements'', WORKER_REQUIREMENTS_LOGGER_NAME)]"

text \<open>\<^verbatim>\<open>MWAA_LOGGERS[name]\<close>.\<close>

definition mwaa_loggers_getitem :: "string \<Rightarrow> string result" where
  "mwaa_loggers_getitem name =
     (case map_of MWAA_LOGGERS name of None \<Rightarrow> Inl (KeyError name) | Some v \<Rightarrow> Inr v)"

definition configure_subprocesses_logging ::
  "imported \<Rightarrow> environ \<Rightarrow> string \<Rightarrow> string option \<Rightarrow> string \<Rightarrow> bool \<Rightarrow> pyval \<Rightarrow> pyval result" where
  "configure_subprocesses_logging imp env subprocess_name log_group_arn log_level logging_enabled cfg =
     bind_result (mwaa_loggers_getitem (lower subprocess_name)) (\<lambda>logger_name.
       let handler_name = replace_dot logger_name in
       if truthy log_group_arn then
         bind_result
           (setitem2 cfg ''handlers'' handler_name
              (PyDict
                 [(''class'', PyStr (qualified_name imp SubprocessLogHandler)),
                  (''formatter'', PyStr ''airflow''),
                  (''filters'', PyList [PyStr ''mask_secrets'']),
                  (''log_group_arn'', str_or_none log_group_arn),
                  (''kms_key_arn'', str_or_none (get_kms_key_arn env)),
                  (''stream_name_prefix'', PyStr (lower subprocess_name)),
                  (''logs_source'', PyStr subprocess_name),
                  (''enabled'', PyBool logging_enabled)]))
           (\<lambda>cfg.
         setitem2 cfg ''loggers'' logger_name
           (PyDict
              [(''handlers'', PyList [PyStr handler_name]),
               (''level'', PyStr log_level),
               (''propagate'', PyBool False)]))
       else Inr cfg)"

text \<open>The loop of \<^verbatim>\<open>_configure\<close> over the component names.\<close>

fun configure_components :: "imported \<Rightarrow> environ \<Rightarrow> string list \<Rightarrow> pyval \<Rightarrow> pyval result" where
  "configure_components imp env [] cfg = Inr cfg"
| "configure_components imp env (component # comps) cfg =
     (case get_mwaa_logging_env_vars env component of
        (log_group_arn, log_level, logging_enabled) \<Rightarrow>
          bind_result
            (configure_subprocesses_logging imp env component
               log_group_arn log_level logging_enabled cfg)
            (\<lambda>cfg.
          bind_result
            (configure_subprocesses_logging imp env (component @ ''_requirements'')
               log_group_arn log_level logging_enabled cfg)
            (\<lambda>cfg.
          configure_components imp env comps cfg)))"

definition configure :: "imported \<Rightarrow> environ \<Rightarrow> pyval \<Rightarrow> pyval result" where
  "configure imp env cfg =
     bind_result (configure_task_logging imp env cfg) (\<lambda>cfg.
     bind_result (configure_dag_processing_logging imp env cfg) (\<lambda>cfg.
     configure_components imp env [''Worker'', ''Scheduler'', ''WebServer'', ''Triggerer''] cfg))"

text \<open>The module body: \<^verbatim>\<open>LOGGING_CONFIG\<close> is built, then \<^verbatim>\<open>_configure()\<close> runs on it.\<close>

definition run_module :: "imported \<Rightarrow> environ \<Rightarrow> pyval result" where
  "run_module imp env = configure imp env (LOGGING_CONFIG imp)"

section \<open>Reading a configuration\<close>

text \<open>The entries of a dictionary as a map (nothing for another value), and the
  dictionary under a top-level key as a map: \<^verbatim>\<open>cfg["handlers"]\<close>, \<^verbatim>\<open>cfg["loggers"]\<close>.\<close>

definition entries :: "pyval \<Rightarrow> string \<rightharpoonup> pyval" where
  "entries d = (case d of PyDict items \<Rightarrow> map_of items | _ \<Rightarrow> Map.empty)"

definition section_of :: "pyval \<Rightarrow> string \<Rightarrow> string \<rightharpoonup> pyval" where
  "section_of cfg k = (case entries cfg k of None \<Rightarrow> Map.empty | Some d \<Rightarrow> entries d)"

definition handlers_of :: "pyval \<Rightarrow> string \<rightharpoonup> pyval" where
  "handlers_of cfg = section_of cfg ''handlers''"

definition loggers_of :: "pyval \<Rightarrow> string \<rightharpoonup> pyval" where
  "loggers_of cfg = section_of cfg ''loggers''"

section \<open>What a run changes\<close>

text \<open>
  A run is described by what it does to the three parts of a configuration: the
  handlers, the loggers, and the other top-level entries. Each step of
  \<^verbatim>\<open>_configure\<close> that succeeds applies a function to the handlers and one to the
  loggers, and leaves the rest alone.
\<close>

text \<open>Whether a configuration has a dictionary under a top-level key, and its
  top-level entries apart from \<^verbatim>\<open>handlers\<close> and \<^verbatim>\<open>loggers\<close>.\<close>

definition has_dict :: "pyval \<Rightarrow> string \<Rightarrow> bool" where
  "has_dict cfg k = (case entries cfg k of Some (PyDict _) \<Rightarrow> True | _ \<Rightarrow> False)"

definition others_of :: "pyval \<Rightarrow> string \<rightharpoonup> pyval" where
  "others_of cfg = (\<lambda>k. if k = ''handlers'' \<or> k = ''loggers'' then None else entries cfg k)"

text \<open>A conditional assignment to a map, and \<^verbatim>\<open>m[k].update(other)\<close> on a map whose
  entry at \<open>k\<close> is a dictionary.\<close>

definition put_if :: "bool \<Rightarrow> string \<Rightarrow> pyval \<Rightarrow> (string \<rightharpoonup> pyval) \<Rightarrow> (string \<rightharpoonup> pyval)" where
  "put_if c k v m = (if c then m(k \<mapsto> v) else m)"

definition merge_into :: "string \<Rightarrow> (string \<times> pyval) list \<Rightarrow> (string \<rightharpoonup> pyval) \<Rightarrow> (string \<rightharpoonup> pyval)" where
  "merge_into k other m =
     (case m k of
        Some (PyDict e) \<Rightarrow> m(k \<mapsto> PyDict (fold (\<lambda>(k, v). dict_store k v) other e))
      | _ \<Rightarrow> m)"

text \<open>\<open>cfg'\<close> is \<open>cfg\<close> with \<open>fH\<close> applied to its handlers and \<open>fL\<close> to its loggers.\<close>

definition effect ::
  "pyval \<Rightarrow> pyval \<Rightarrow> ((string \<rightharpoonup> pyval) \<Rightarrow> (string \<rightharpoonup> pyval)) \<Rightarrow>
     ((string \<rightharpoonup> pyval) \<Rightarrow> (string \<rightharpoonup> pyval)) \<Rightarrow> bool" where
  "effect cfg cfg' fH fL \<longleftrightarrow>
     handlers_of cfg' = fH (handlers_of cfg) \<and>
     loggers_of cfg' = fL (loggers_of cfg) \<and>
     others_of cfg' = others_of cfg \<and>
     dom (entries cfg') = dom (entries cfg) \<and>
     has_dict cfg' = has_dict cfg"

text \<open>What each step does to the handlers (\<open>H\<close>) and to the loggers (\<open>L\<close>) when it
  succeeds, read off the step's definition; \<open>H_all\<close> and \<open>L_all\<close> compose them in the
  order of \<^verbatim>\<open>_configure\<close>.\<close>

definition H_task :: "imported \<Rightarrow> environ \<Rightarrow> (string \<rightharpoonup> pyval) \<Rightarrow> (string \<rightharpoonup> pyval)" where
  "H_task imp env =
     (case get_mwaa_logging_env_vars env ''task'' of
        (arn, lvl, en) \<Rightarrow>
          put_if (truthy arn) ''task''
            (PyDict
               [(''class'', PyStr (qualified_name imp TaskLogHandler)),
                (''formatter'', PyStr ''airflow''),
                (''filters'', PyList [PyStr ''mask_secrets'']),
                (''base_log_folder'', PyStr (expanduser imp env (BASE_LOG_FOLDER imp))),
                (''log_group_arn'', str_or_none arn),
                (''kms_key_arn'', str_or_none (get_kms_key_arn env)),
                (''enabled'', PyBool en)]))"

definition L_task :: "environ \<Rightarrow> (string \<rightharpoonup> pyval) \<Rightarrow> (string \<rightharpoonup> pyval)" where
  "L_task env =
     (case get_mwaa_logging_env_vars env ''task'' of
        (arn, lvl, en) \<Rightarrow>
          if truthy arn then merge_into ''airflow.task'' [(''level'', PyStr lvl)] else id)"

definition H_dag :: "imported \<Rightarrow> environ \<Rightarrow> (string \<rightharpoonup> pyval) \<Rightarrow> (string \<rightharpoonup> pyval)" where
  "H_dag imp env =
     (case get_mwaa_logging_env_vars env ''dagprocessor'' of
        (arn, lvl, en) \<Rightarrow>
          put_if (truthy arn) ''processor''
            (PyDict
               [(''class'', PyStr (qualified_name imp DagProcessingLogHandler)),
                (''formatter'', PyStr ''airflow''),
                (''log_group_arn'', str_or_none arn),
                (''kms_key_arn'', str_or_none (get_kms_key_arn env)),
                (''stream_name_template'', PyStr (PROCESSOR_FILENAME_TEMPLATE imp)),
                (''enabled'', PyBool en)]) \<circ>
          put_if (truthy arn) ''processor_manager''
            (PyDict
               [(''class'', PyStr (qualified_name imp DagProcessorManagerLogHandler)),
                (''formatter'', PyStr ''airflow''),
                (''log_group_arn'', str_or_none arn),
                (''kms_key_arn'', str_or_none (get_kms_key_arn env)),
                (''stream_name'', PyStr (basename (DAG_PROCESSOR_MANAGER_LOG_LOCATION imp))),
                (''enabled'', PyBool en)]))"

definition logger_entry :: "string \<Rightarrow> string \<Rightarrow> pyval" where
  "logger_entry handler_name lvl =
     PyDict [(''handlers'', PyList [PyStr handler_name]), (''level'', PyStr lvl),
             (''propagate'', PyBool False)]"

definition L_dag :: "environ \<Rightarrow> (string \<rightharpoonup> pyval) \<Rightarrow> (string \<rightharpoonup> pyval)" where
  "L_dag env =
     (case get_mwaa_logging_env_vars env ''dagprocessor'' of
        (arn, lvl, en) \<Rightarrow>
          put_if (truthy arn) ''airflow.processor'' (logger_entry ''processor'' lvl) \<circ>
          put_if (truthy arn) ''airflow.processor_manager'' (logger_entry ''processor_manager'' lvl))"

definition H_sub ::
  "imported \<Rightarrow> environ \<Rightarrow> string \<Rightarrow> string option \<Rightarrow> bool \<Rightarrow> (string \<rightharpoonup> pyval) \<Rightarrow> (string \<rightharpoonup> pyval)" where
  "H_sub imp env name arn en =
     (case map_of MWAA_LOGGERS (lower name) of
        None \<Rightarrow> id
      | Some logger_name \<Rightarrow>
          put_if (truthy arn) (replace_dot logger_name)
            (PyDict
               [(''class'', PyStr (qualified_name imp SubprocessLogHandler)),
                (''formatter'', PyStr ''airflow''),
                (''filters'', PyList [PyStr ''mask_secrets'']),
                (''log_group_arn'', str_or_none arn),
                (''kms_key_arn'', str_or_none (get_kms_key_arn env)),
                (''stream_name_prefix'', PyStr (lower name)),
                (''logs_source'', PyStr name),
                (''enabled'', PyBool en)]))"

definition L_sub ::
  "string \<Rightarrow> string option \<Rightarrow> string \<Rightarrow> (string \<rightharpoonup> pyval) \<Rightarrow> (string \<rightharpoonup> pyval)" where
  "L_sub name arn lvl =
     (case map_of MWAA_LOGGERS (lower name) of
        None \<Rightarrow> id
      | Some logger_name \<Rightarrow>
          put_if (truthy arn) logger_name (logger_entry (replace_dot logger_name) lvl))"

primrec H_components ::
  "imported \<Rightarrow> environ \<Rightarrow> string list \<Rightarrow> (string \<rightharpoonup> pyval) \<Rightarrow> (string \<rightharpoonup> pyval)" where
  "H_components imp env [] = id"
| "H_components imp env (c # cs) =
     (case get_mwaa_logging_env_vars env c of
        (arn, lvl, en) \<Rightarrow>
          H_components imp env cs \<circ> H_sub imp env (c @ ''_requirements'') arn en \<circ>
          H_sub imp env c arn en)"

primrec L_components :: "environ \<Rightarrow> string list \<Rightarrow> (string \<rightharpoonup> pyval) \<Rightarrow> (string \<rightharpoonup> pyval)" where
  "L_components env [] = id"
| "L_components env (c # cs) =
     (case get_mwaa_logging_env_vars env c of
        (arn, lvl, en) \<Rightarrow>
          L_components env cs \<circ> L_sub (c @ ''_requirements'') arn lvl \<circ> L_sub c arn lvl)"

definition H_all :: "imported \<Rightarrow> environ \<Rightarrow> (string \<rightharpoonup> pyval) \<Rightarrow> (string \<rightharpoonup> pyval)" where
  "H_all imp env =
     H_components imp env [''Worker'', ''Scheduler'', ''WebServer'', ''Triggerer''] \<circ>
     H_dag imp env \<circ> H_task imp env"

definition L_all :: "environ \<Rightarrow> (string \<rightharpoonup> pyval) \<Rightarrow> (string \<rightharpoonup> pyval)" where
  "L_all env =
     L_components env [''Worker'', ''Scheduler'', ''WebServer'', ''Triggerer''] \<circ>
     L_dag env \<circ> L_task env"

text \<open>A configuration with a \<^verbatim>\<open>handlers\<close> and a \<^verbatim>\<open>loggers\<close> dictionary.\<close>

definition shaped :: "pyval \<Rightarrow> bool" where
  "shaped cfg \<longleftrightarrow> has_dict cfg ''handlers'' \<and> has_dict cfg ''loggers''"

subsection \<open>The log sources and their entries\<close>

text \<open>The six names \<^verbatim>\<open>_configure\<close> passes to \<^verbatim>\<open>_get_mwaa_logging_env_vars\<close>, and the
  nineteen variables it reads for them.\<close>

definition log_sources :: "string list" where
  "log_sources = [''task'', ''dagprocessor'', ''Worker'', ''Scheduler'', ''WebServer'', ''Triggerer'']"

definition consulted_variables :: "string list" where
  "consulted_variables =
     ''MWAA__CORE__KMS_KEY_ARN'' #
     concat (map (\<lambda>S. [''MWAA__LOGGING__AIRFLOW_'' @ upper S @ ''_LOG_GROUP_ARN'',
                        ''MWAA__LOGGING__AIRFLOW_'' @ upper S @ ''_LOG_LEVEL'',
                        ''MWAA__LOGGING__AIRFLOW_'' @ upper S @ ''_LOGS_ENABLED'']) log_sources)"

text \<open>For each source, the handler keys and the logger keys its step writes.\<close>

definition source_entries :: "(string \<times> string list \<times> string list) list" where
  "source_entries =
     [(''task'', [''task''], [''airflow.task'']),
      (''dagprocessor'', [''processor_manager'', ''processor''],
         [''airflow.processor_manager'', ''airflow.processor'']),
      (''Worker'', [''mwaa_worker'', ''mwaa_worker_requirements''],
         [''mwaa.worker'', ''mwaa.worker_requirements'']),
      (''Scheduler'', [''mwaa_scheduler'', ''mwaa_scheduler_requirements''],
         [''mwaa.scheduler'', ''mwaa.scheduler_requirements'']),
      (''WebServer'', [''mwaa_webserver'', ''mwaa_webserver_requirements''],
         [''mwaa.webserver'', ''mwaa.webserver_requirements'']),
      (''Triggerer'', [''mwaa_triggerer'', ''mwaa_triggerer_requirements''],
         [''mwaa.triggerer'', ''mwaa.triggerer_requirements''])]"

subsection \<open>Example runs\<close>

text \<open>A small default configuration of Airflow's shape, and three environments with
  the configuration the module builds in each.\<close>

definition example_imported :: imported where
  "example_imported =
     \<lparr>BASE_LOG_FOLDER = ''/usr/local/airflow/logs'',
      DAG_PROCESSOR_MANAGER_LOG_LOCATION =
        ''/usr/local/airflow/logs/dag_processor_manager/dag_processor_manager.log'',
      DEFAULT_LOGGING_CONFIG =
        [(''version'', PyInt 1),
         (''handlers'', PyDict
            [(''console'', PyDict [(''class'', PyStr ''RedirectStdHandler'')]),
             (''task'', PyDict [(''class'', PyStr ''FileTaskHandler'')])]),
         (''loggers'', PyDict
            [(''airflow.task'', PyDict
               [(''handlers'', PyList [PyStr ''task'']),
                (''level'', PyStr ''WARNING''),
                (''propagate'', PyBool True)])])],
      PROCESSOR_FILENAME_TEMPLATE = ''{{ filename }}.log'',
      qualified_name = (\<lambda>c. case c of
          TaskLogHandler \<Rightarrow> ''TaskLogHandler''
        | DagProcessorManagerLogHandler \<Rightarrow> ''DagProcessorManagerLogHandler''
        | DagProcessingLogHandler \<Rightarrow> ''DagProcessingLogHandler''
        | SubprocessLogHandler \<Rightarrow> ''SubprocessLogHandler''),
      getpwuid_dir = Some ''/home/airflow'',
      getpwnam_dir = (\<lambda>name. if name = ''airflow'' then Some ''/home/airflow'' else None)\<rparr>"

definition task_environ :: environ where
  "task_environ = map_of
     [(''MWAA__LOGGING__AIRFLOW_TASK_LOG_GROUP_ARN'', ''arn:task''),
      (''MWAA__LOGGING__AIRFLOW_TASK_LOG_LEVEL'', ''DEBUG''),
      (''MWAA__LOGGING__AIRFLOW_TASK_LOGS_ENABLED'', ''True'')]"

definition task_config :: pyval where
  "task_config = PyDict
     [(''version'', PyInt 1),
      (''handlers'', PyDict
         [(''console'', PyDict [(''class'', PyStr ''RedirectStdHandler'')]),
          (''task'', PyDict
             [(''class'', PyStr ''TaskLogHandler''),
              (''formatter'', PyStr ''airflow''),
              (''filters'', PyList [PyStr ''mask_secrets'']),
              (''base_log_folder'', PyStr ''/usr/local/airflow/logs''),
              (''log_group_arn'', PyStr ''arn:task''),
              (''kms_key_arn'', PyNone),
              (''enabled'', PyBool True)])]),
      (''loggers'', PyDict
         [(''airflow.task'', PyDict
            [(''handlers'', PyList [PyStr ''task'']),
             (''level'', PyStr ''DEBUG''),
             (''propagate'', PyBool True)])])]"

definition dag_environ :: environ where
  "dag_environ = map_of
     [(''MWAA__LOGGING__AIRFLOW_DAGPROCESSOR_LOG_GROUP_ARN'', ''arn:dag''),
      (''MWAA__CORE__KMS_KEY_ARN'', ''arn:kms'')]"

definition dag_config :: pyval where
  "dag_config = PyDict
     [(''version'', PyInt 1),
      (''handlers'', PyDict
         [(''console'', PyDict [(''class'', PyStr ''RedirectStdHandler'')]),
          (''task'', PyDict [(''class'', PyStr ''FileTaskHandler'')]),
          (''processor_manager'', PyDict
             [(''class'', PyStr ''DagProcessorManagerLogHandler''),
              (''formatter'', PyStr ''airflow''),
              (''log_group_arn'', PyStr ''arn:dag''),
              (''kms_key_arn'', PyStr ''arn:kms''),
              (''stream_name'', PyStr ''dag_processor_manager.log''),
              (''enabled'', PyBool False)]),
          (''processor'', PyDict
             [(''class'', PyStr ''DagProcessingLogHandler''),
              (''formatter'', PyStr ''airflow''),
              (''log_group_arn'', PyStr ''arn:dag''),
              (''kms_key_arn'', PyStr ''arn:kms''),
              (''stream_name_template'', PyStr ''{{ filename }}.log''),
              (''enabled'', PyBool False)])]),
      (''loggers'', PyDict
         [(''airflow.task'', PyDict
            [(''handlers'', PyList [PyStr ''task'']),
             (''level'', PyStr ''WARNING''),
             (''propagate'', PyBool True)]),
          (''airflow.processor_manager'', PyDict
             [(''handlers'', PyList [PyStr ''processor_manager'']),
              (''level'', PyStr ''INFO''),
              (''propagate'', PyBool False)]),
          (''airflow.processor'', PyDict
             [(''handlers'', PyList [PyStr ''processor'']),
              (''level'', PyStr ''INFO''),
              (''propagate'', PyBool False)])])]"

definition worker_environ :: environ where
  "worker_environ = map_of
     [(''MWAA__LOGGING__AIRFLOW_WORKER_LOG_GROUP_ARN'', ''arn:worker''),
      (''MWAA__LOGGING__AIRFLOW_WORKER_LOG_LEVEL'', ''ERROR''),
      (''MWAA__LOGGING__AIRFLOW_WORKER_LOGS_ENABLED'', ''yes''),
      (''MWAA__LOGGING__AIRFLOW_SCHEDULER_LOGS_ENABLED'', ''true'')]"

definition worker_config :: pyval where
  "worker_config = PyDict
     [(''version'', PyInt 1),
      (''handlers'', PyDict
         [(''console'', PyDict [(''class'', PyStr ''RedirectStdHandler'')]),
          (''task'', PyDict [(''class'', PyStr ''FileTaskHandler'')]),
          (''mwaa_worker'', PyDict
             [(''class'', PyStr ''SubprocessLogHandler''),
              (''formatter'', PyStr ''airflow''),
              (''filters'', PyList [PyStr ''mask_secrets'']),
              (''log_group_arn'', PyStr ''arn:worker''),
              (''kms_key_arn'', PyNone),
              (''stream_name_prefix'', PyStr ''worker''),
              (''logs_source'', PyStr ''Worker''),
              (''enabled'', PyBool False)]),
          (''mwaa_worker_requirements'', PyDict
             [(''class'', PyStr ''SubprocessLogHandler''),
              (''formatter'', PyStr ''airflow''),
              (''filters'', PyList [PyStr ''mask_secrets'']),
              (''log_group_arn'', PyStr ''arn:worker''),
              (''kms_key_arn'', PyNone),
              (''stream_name_prefix'', PyStr ''worker_requirements''),
              (''logs_source'', PyStr ''Worker_requirements''),
              (''enabled'', PyBool False)])]),
      (''loggers'', PyDict
         [(''airflow.task'', PyDict
            [(''handlers'', PyList [PyStr ''task'']),
             (''level'', PyStr ''WARNING''),
             (''propagate'', PyBool True)]),
          (''mwaa.worker'', PyDict
             [(''handlers'', PyList [PyStr ''mwaa_worker'']),
              (''level'', PyStr ''ERROR''),
              (''propagate'', PyBool False)]),
          (''mwaa.worker_requirements'', PyDict
             [(''handlers'', PyList [PyStr ''mwaa_worker_requirements'']),
              (''level'', PyStr ''ERROR''),
              (''propagate'', PyBool False)])])]"

definition dag_level_environ :: environ where
  "dag_level_environ = map_of
     [(''MWAA__LOGGING__AIRFLOW_DAGPROCESSOR_LOG_GROUP_ARN'', ''arn:dag''),
      (''MWAA__LOGGING__AIRFLOW_DAGPROCESSOR_LOG_LEVEL'', ''DEBUG''),
      (''MWAA__LOGGING__AIRFLOW_DAGPROCESSOR_LOGS_ENABLED'', ''TRUE'')]"

definition dag_level_config :: pyval where
  "dag_level_config = PyDict
     [(''version'', PyInt 1),
      (''handlers'', PyDict
         [(''console'', PyDict [(''class'', PyStr ''RedirectStdHandler'')]),
          (''task'', PyDict [(''class'', PyStr ''FileTaskHandler'')]),
          (''processor_manager'', PyDict
             [(''class'', PyStr ''DagProcessorManagerLogHandler''),
              (''formatter'', PyStr ''airflow''),
              (''log_group_arn'', PyStr ''arn:dag''),
              (''kms_key_arn'', PyNone),
              (''stream_name'', PyStr ''dag_processor_manager.log''),
              (''enabled'', PyBool True)]),
          (''processor'', PyDict
             [(''class'', PyStr ''DagProcessingLogHandler''),
              (''formatter'', PyStr ''airflow''),
              (''log_group_arn'', PyStr ''arn:dag''),
              (''kms_key_arn'', PyNone),
              (''stream_name_template'', PyStr ''{{ filename }}.log''),
              (''enabled'', PyBool True)])]),
      (''loggers'', PyDict
         [(''airflow.task'', PyDict
            [(''handlers'', PyList [PyStr ''task'']),
             (''level'', PyStr ''WARNING''),
             (''propagate'', PyBool True)]),
          (''airflow.processor_manager'', PyDict
             [(''handlers'', PyList [PyStr ''processor_manager'']),
              (''level'', PyStr ''DEBUG''),
              (''propagate'', PyBool False)]),
          (''airflow.processor'', PyDict
             [(''handlers'', PyList [PyStr ''processor'']),
              (''level'', PyStr ''DEBUG''),
              (''propagate'', PyBool False)])])]"

text \<open>The same imports with a base log folder under the home directory, and the task
  environment with two values of \<^verbatim>\<open>HOME\<close>.\<close>

definition tilde_imported :: imported where
  "tilde_imported = example_imported\<lparr>BASE_LOG_FOLDER := ''~/logs''\<rparr>"

definition home_a_environ :: environ where
  "home_a_environ = task_environ(''HOME'' \<mapsto> ''/home/a/'')"

definition home_b_environ :: environ where
  "home_b_environ = task_environ(''HOME'' \<mapsto> ''/home/b'')"

definition home_config :: "string \<Rightarrow> pyval" where
  "home_config folder = PyDict
     [(''version'', PyInt 1),
      (''handlers'', PyDict
         [(''console'', PyDict [(''class'', PyStr ''RedirectStdHandler'')]),
          (''task'', PyDict
             [(''class'', PyStr ''TaskLogHandler''),
              (''formatter'', PyStr ''airflow''),
              (''filters'', PyList [PyStr ''mask_secrets'']),
              (''base_log_folder'', PyStr folder),
              (''log_group_arn'', PyStr ''arn:task''),
              (''kms_key_arn'', PyNone),
              (''enabled'', PyBool True)])]),
      (''loggers'', PyDict
         [(''airflow.task'', PyDict
            [(''handlers'', PyList [PyStr ''task'']),
             (''level'', PyStr ''DEBUG''),
             (''propagate'', PyBool True)])])]"

subsection \<open>The entries of a subprocess component\<close>

text \<open>The handler and the logger that \<^verbatim>\<open>_configure_subprocesses_logging\<close> writes for the
  subprocess \<open>name\<close> (a component or its \<^verbatim>\<open>_requirements\<close> companion), when the
  settings are those of \<open>component\<close> in the environment.\<close>

definition subprocess_handler :: "imported \<Rightarrow> environ \<Rightarrow> string \<Rightarrow> string \<Rightarrow> pyval" where
  "subprocess_handler imp env component name =
     PyDict
       [(''class'', PyStr (qualified_name imp SubprocessLogHandler)),
        (''formatter'', PyStr ''airflow''),
        (''filters'', PyList [PyStr ''mask_secrets'']),
        (''log_group_arn'',
           str_or_none (env (''MWAA__LOGGING__AIRFLOW_'' @ upper component @ ''_LOG_GROUP_ARN''))),
        (''kms_key_arn'', str_or_none (env ''MWAA__CORE__KMS_KEY_ARN'')),
        (''stream_name_prefix'', PyStr (lower name)),
        (''logs_source'', PyStr name),
        (''enabled'', PyBool (lower (environ_get env
            (''MWAA__LOGGING__AIRFLOW_'' @ upper component @ ''_LOGS_ENABLED'') ''false'') = ''true''))]"

definition subprocess_logger :: "environ \<Rightarrow> string \<Rightarrow> string \<Rightarrow> pyval" where
  "subprocess_logger env component handler_name =
     PyDict
       [(''handlers'', PyList [PyStr handler_name]),
        (''level'', PyStr (environ_get env
            (''MWAA__LOGGING__AIRFLOW_'' @ upper component @ ''_LOG_LEVEL'') ''INFO'')),
        (''propagate'', PyBool False)]"

text \<open>The handlers that \<^verbatim>\<open>_configure_task_logging\<close> and
  \<^verbatim>\<open>_configure_dag_processing_logging\<close> write.\<close>

definition task_handler :: "imported \<Rightarrow> environ \<Rightarrow> pyval" where
  "task_handler imp env =
     PyDict
       [(''class'', PyStr (qualified_name imp TaskLogHandler)),
        (''formatter'', PyStr ''airflow''),
        (''filters'', PyList [PyStr ''mask_secrets'']),
        (''base_log_folder'', PyStr (expanduser imp env (BASE_LOG_FOLDER imp))),
        (''log_group_arn'', str_or_none (env ''MWAA__LOGGING__AIRFLOW_TASK_LOG_GROUP_ARN'')),
        (''kms_key_arn'', str_or_none (env ''MWAA__CORE__KMS_KEY_ARN'')),
        (''enabled'', PyBool (lower (environ_get env
            ''MWAA__LOGGING__AIRFLOW_TASK_LOGS_ENABLED'' ''false'') = ''true''))]"

definition processor_manager_handler :: "imported \<Rightarrow> environ \<Rightarrow> pyval" where
  "processor_manager_handler imp env =
     PyDict
       [(''class'', PyStr (qualified_name imp DagProcessorManagerLogHandler)),
        (''formatter'', PyStr ''airflow''),
        (''log_group_arn'',
           str_or_none (env ''MWAA__LOGGING__AIRFLOW_DAGPROCESSOR_LOG_GROUP_ARN'')),
        (''kms_key_arn'', str_or_none (env ''MWAA__CORE__KMS_KEY_ARN'')),
        (''stream_name'', PyStr (basename (DAG_PROCESSOR_MANAGER_LOG_LOCATION imp))),
        (''enabled'', PyBool (lower (environ_get env
            ''MWAA__LOGGING__AIRFLOW_DAGPROCESSOR_LOGS_ENABLED'' ''false'') = ''true''))]"

definition processor_handler :: "imported \<Rightarrow> environ \<Rightarrow> pyval" where
  "processor_handler imp env =
     PyDict
       [(''class'', PyStr (qualified_name imp DagProcessingLogHandler)),
        (''formatter'', PyStr ''airflow''),
        (''log_group_arn'',
           str_or_none (env ''MWAA__LOGGING__AIRFLOW_DAGPROCESSOR_LOG_GROUP_ARN'')),
        (''kms_key_arn'', str_or_none (env ''MWAA__CORE__KMS_KEY_ARN'')),
        (''stream_name_template'', PyStr (PROCESSOR_FILENAME_TEMPLATE imp)),
        (''enabled'', PyBool (lower (environ_get env
            ''MWAA__LOGGING__AIRFLOW_DAGPROCESSOR_LOGS_ENABLED'' ''false'') = ''true''))]"

section \<open>Dictionaries, strings and names\<close>

lemma lower_char_cases:
  "lower_char c = CHR ''t'' \<longleftrightarrow> c = CHR ''t'' \<or> c = CHR ''T''"
  "lower_char c = CHR ''r'' \<longleftrightarrow> c = CHR ''r'' \<or> c = CHR ''R''"
  "lower_char c = CHR ''u'' \<longleftrightarrow> c = CHR ''u'' \<or> c = CHR ''U''"
  "lower_char c = CHR ''e'' \<longleftrightarrow> c = CHR ''e'' \<or> c = CHR ''E''"
  by (auto simp: lower_char_def split: if_splits)

lemma lower_eq_true:
  "lower v = ''true'' \<longleftrightarrow>
     (\<exists>a b c d. v = [a, b, c, d] \<and> a \<in> {CHR ''t'', CHR ''T''} \<and> b \<in> {CHR ''r'', CHR ''R''} \<and>
        c \<in> {CHR ''u'', CHR ''U''} \<and> d \<in> {CHR ''e'', CHR ''E''})"
proof
  assume "lower v = ''true''"
  then obtain a b c d where v: "v = [a, b, c, d]" and
    "lower_char a = CHR ''t''" "lower_char b = CHR ''r''"
    "lower_char c = CHR ''u''" "lower_char d = CHR ''e''"
    unfolding lower_def by (auto simp: map_eq_Cons_conv)
  then show "\<exists>a b c d. v = [a, b, c, d] \<and> a \<in> {CHR ''t'', CHR ''T''} \<and> b \<in> {CHR ''r'', CHR ''R''} \<and>
        c \<in> {CHR ''u'', CHR ''U''} \<and> d \<in> {CHR ''e'', CHR ''E''}"
    by (simp add: lower_char_cases)
next
  assume "\<exists>a b c d. v = [a, b, c, d] \<and> a \<in> {CHR ''t'', CHR ''T''} \<and> b \<in> {CHR ''r'', CHR ''R''} \<and>
        c \<in> {CHR ''u'', CHR ''U''} \<and> d \<in> {CHR ''e'', CHR ''E''}"
  then obtain a b c d where v: "v = [a, b, c, d]" and
    "lower_char a = CHR ''t''" "lower_char b = CHR ''r''"
    "lower_char c = CHR ''u''" "lower_char d = CHR ''e''"
    by (auto simp: lower_char_cases)
  then show "lower v = ''true''" by (simp add: lower_def)
qed

lemma upper_literals:
  "upper ''task'' = ''TASK''" "upper ''dagprocessor'' = ''DAGPROCESSOR''"
  "upper ''Worker'' = ''WORKER''" "upper ''Scheduler'' = ''SCHEDULER''"
  "upper ''WebServer'' = ''WEBSERVER''" "upper ''Triggerer'' = ''TRIGGERER''"
  by (simp_all add: upper_def upper_char_def)

subsection \<open>Sequencing and dictionary updates\<close>

lemma bind_result_Inr_iff: "bind_result m f = Inr y \<longleftrightarrow> (\<exists>x. m = Inr x \<and> f x = Inr y)"
  by (cases m) (simp_all add: bind_result_def)

lemma bind_result_Inr [simp]: "bind_result (Inr x) f = f x"
  by (simp add: bind_result_def)

lemma bind_result_Inl [simp]: "bind_result (Inl e) f = Inl e"
  by (simp add: bind_result_def)

lemma map_of_dict_store: "map_of (dict_store k v d) = (map_of d)(k \<mapsto> v)"
  by (induction d) (auto simp: fun_eq_iff)

lemma setitem2_Inr_iff:
  "setitem2 cfg k1 k2 v = Inr cfg' \<longleftrightarrow>
     (\<exists>top d. cfg = PyDict top \<and> map_of top k1 = Some (PyDict d) \<and>
        cfg' = PyDict (dict_store k1 (PyDict (dict_store k2 v d)) top))"
  by (auto simp: setitem2_def getitem_def setitem_def bind_result_def
      split: pyval.splits option.splits sum.splits)

lemma update2_Inr_iff:
  "update2 cfg k1 k2 other = Inr cfg' \<longleftrightarrow>
     (\<exists>top d e. cfg = PyDict top \<and> map_of top k1 = Some (PyDict d) \<and> map_of d k2 = Some (PyDict e) \<and>
        cfg' = PyDict (dict_store k1 (PyDict (dict_store k2
                 (PyDict (fold (\<lambda>(k, v). dict_store k v) other e)) d)) top))"
  by (auto simp: update2_def getitem_def setitem_def dict_update_def bind_result_def
      split: pyval.splits option.splits sum.splits)

subsection \<open>The effect of one assignment\<close>

text \<open>An assignment under \<^verbatim>\<open>handlers\<close> or \<^verbatim>\<open>loggers\<close> that succeeds updates that map
  at one key and leaves the other parts of the configuration as they were.\<close>

lemma entries_PyDict [simp]: "entries (PyDict items) = map_of items"
  by (simp add: entries_def)

lemma put_if_apply: "put_if c k v m x = (if c \<and> x = k then Some v else m x)"
  by (simp add: put_if_def)

lemma effect_trans:
  "effect c c' f g \<Longrightarrow> effect c' c'' f' g' \<Longrightarrow> effect c c'' (f' \<circ> f) (g' \<circ> g)"
  by (simp add: effect_def)

lemma setitem2_handlers_effect:
  assumes "setitem2 cfg ''handlers'' k v = Inr cfg'"
  shows "effect cfg cfg' (\<lambda>H. H(k \<mapsto> v)) id"
proof -
  from assms obtain top d where
    c: "cfg = PyDict top" and d: "map_of top ''handlers'' = Some (PyDict d)" and
    c': "cfg' = PyDict (dict_store ''handlers'' (PyDict (dict_store k v d)) top)"
    unfolding setitem2_Inr_iff by blast
  show ?thesis
    using d unfolding effect_def c c'
    by (auto simp: handlers_of_def loggers_of_def section_of_def others_of_def has_dict_def
        map_of_dict_store fun_eq_iff)
qed

lemma setitem2_loggers_effect:
  assumes "setitem2 cfg ''loggers'' k v = Inr cfg'"
  shows "effect cfg cfg' id (\<lambda>L. L(k \<mapsto> v))"
proof -
  from assms obtain top d where
    c: "cfg = PyDict top" and d: "map_of top ''loggers'' = Some (PyDict d)" and
    c': "cfg' = PyDict (dict_store ''loggers'' (PyDict (dict_store k v d)) top)"
    unfolding setitem2_Inr_iff by blast
  show ?thesis
    using d unfolding effect_def c c'
    by (auto simp: handlers_of_def loggers_of_def section_of_def others_of_def has_dict_def
        map_of_dict_store fun_eq_iff)
qed

lemma update2_loggers_effect:
  assumes "update2 cfg ''loggers'' k other = Inr cfg'"
  shows "effect cfg cfg' id (merge_into k other) \<and> (\<exists>e. loggers_of cfg k = Some (PyDict e))"
proof -
  from assms obtain top d e where
    c: "cfg = PyDict top" and d: "map_of top ''loggers'' = Some (PyDict d)" and
    e: "map_of d k = Some (PyDict e)" and
    c': "cfg' = PyDict (dict_store ''loggers'' (PyDict (dict_store k
                 (PyDict (fold (\<lambda>(k, v). dict_store k v) other e)) d)) top)"
    unfolding update2_Inr_iff by blast
  show ?thesis
    using d e unfolding effect_def c c'
    by (auto simp: handlers_of_def loggers_of_def section_of_def others_of_def has_dict_def
        map_of_dict_store fun_eq_iff merge_into_def)
qed

lemma update2_ok:
  "section_of cfg k1 k2 = Some (PyDict e) \<Longrightarrow> \<exists>cfg'. update2 cfg k1 k2 other = Inr cfg'"
  unfolding update2_Inr_iff
  by (cases cfg) (auto simp: section_of_def entries_def split: option.splits pyval.splits)

subsection \<open>The effect of each step and of the whole run\<close>

lemma configure_task_logging_effect:
  assumes "configure_task_logging imp env cfg = Inr cfg'"
  shows "effect cfg cfg' (H_task imp env) (L_task env) \<and>
         (truthy (fst (get_mwaa_logging_env_vars env ''task'')) \<longrightarrow>
            (\<exists>e. loggers_of cfg ''airflow.task'' = Some (PyDict e)))"
proof -
  obtain arn lvl en where g: "get_mwaa_logging_env_vars env ''task'' = (arn, lvl, en)"
    by (cases "get_mwaa_logging_env_vars env ''task''")
  show ?thesis
  proof (cases "truthy arn")
    case False
    with assms g show ?thesis
      by (simp add: configure_task_logging_def H_task_def L_task_def put_if_def effect_def)
  next
    case True
    with assms g obtain c1 where
      s1: "setitem2 cfg ''handlers'' ''task''
             (PyDict
               [(''class'', PyStr (qualified_name imp TaskLogHandler)),
                (''formatter'', PyStr ''airflow''),
                (''filters'', PyList [PyStr ''mask_secrets'']),
                (''base_log_folder'', PyStr (expanduser imp env (BASE_LOG_FOLDER imp))),
                (''log_group_arn'', str_or_none arn),
                (''kms_key_arn'', str_or_none (get_kms_key_arn env)),
                (''enabled'', PyBool en)]) = Inr c1" and
      s2: "update2 c1 ''loggers'' ''airflow.task'' [(''level'', PyStr lvl)] = Inr cfg'"
      by (auto simp: configure_task_logging_def bind_result_Inr_iff)
    note e1 = setitem2_handlers_effect [OF s1]
    note e2 = update2_loggers_effect [OF s2]
    from e1 e2 True g show ?thesis
      by (simp add: effect_def H_task_def L_task_def put_if_def)
  qed
qed

lemma bind_result_InrE:
  assumes "bind_result m f = Inr y"
  obtains x where "m = Inr x" and "f x = Inr y"
  using assms by (auto simp: bind_result_Inr_iff)

lemma configure_dag_processing_logging_effect:
  assumes "configure_dag_processing_logging imp env cfg = Inr cfg'"
  shows "effect cfg cfg' (H_dag imp env) (L_dag env)"
proof -
  obtain arn lvl en where g: "get_mwaa_logging_env_vars env ''dagprocessor'' = (arn, lvl, en)"
    by (cases "get_mwaa_logging_env_vars env ''dagprocessor''")
  show ?thesis
  proof (cases "truthy arn")
    case False
    with assms g show ?thesis
      by (simp add: configure_dag_processing_logging_def H_dag_def L_dag_def put_if_def effect_def)
  next
    case True
    with assms g show ?thesis
      unfolding configure_dag_processing_logging_def
      apply simp
      apply (elim bind_result_InrE)
      apply ((drule setitem2_handlers_effect | drule setitem2_loggers_effect)+)
      apply (simp add: effect_def H_dag_def L_dag_def put_if_def logger_entry_def)
      done
  qed
qed

lemma configure_subprocesses_logging_effect:
  assumes "configure_subprocesses_logging imp env name arn lvl en cfg = Inr cfg'"
  shows "effect cfg cfg' (H_sub imp env name arn en) (L_sub name arn lvl)"
proof -
  from assms obtain ln where ln: "map_of MWAA_LOGGERS (lower name) = Some ln"
    by (auto simp: configure_subprocesses_logging_def mwaa_loggers_getitem_def
        split: option.splits)
  show ?thesis
  proof (cases "truthy arn")
    case False
    with assms ln show ?thesis
      by (simp add: configure_subprocesses_logging_def mwaa_loggers_getitem_def
          H_sub_def L_sub_def put_if_def effect_def)
  next
    case True
    with assms ln show ?thesis
      unfolding configure_subprocesses_logging_def mwaa_loggers_getitem_def
      apply (simp add: Let_def)
      apply (elim bind_result_InrE)
      apply ((drule setitem2_handlers_effect | drule setitem2_loggers_effect)+)
      apply (simp add: effect_def H_sub_def L_sub_def put_if_def logger_entry_def)
      done
  qed
qed

lemma configure_components_effect:
  "configure_components imp env cs cfg = Inr cfg' \<Longrightarrow>
     effect cfg cfg' (H_components imp env cs) (L_components env cs)"
proof (induction cs arbitrary: cfg)
  case Nil
  then show ?case by (simp add: effect_def)
next
  case (Cons c cs)
  obtain arn lvl en where g: "get_mwaa_logging_env_vars env c = (arn, lvl, en)"
    by (cases "get_mwaa_logging_env_vars env c")
  from Cons.prems g obtain c1 c2 where
    s1: "configure_subprocesses_logging imp env c arn lvl en cfg = Inr c1" and
    s2: "configure_subprocesses_logging imp env (c @ ''_requirements'') arn lvl en c1 = Inr c2" and
    s3: "configure_components imp env cs c2 = Inr cfg'"
    by (auto elim!: bind_result_InrE)
  from effect_trans [OF effect_trans [OF configure_subprocesses_logging_effect [OF s1]
        configure_subprocesses_logging_effect [OF s2]] Cons.IH [OF s3]] g
  show ?case by (simp add: o_def)
qed

lemma configure_effect:
  assumes "configure imp env cfg = Inr cfg'"
  shows "effect cfg cfg' (H_all imp env) (L_all env)"
proof -
  from assms obtain c1 c2 where
    s1: "configure_task_logging imp env cfg = Inr c1" and
    s2: "configure_dag_processing_logging imp env c1 = Inr c2" and
    s3: "configure_components imp env [''Worker'', ''Scheduler'', ''WebServer'', ''Triggerer''] c2
           = Inr cfg'"
    unfolding configure_def by (auto elim!: bind_result_InrE)
  from effect_trans [OF effect_trans [OF conjunct1 [OF configure_task_logging_effect [OF s1]]
        configure_dag_processing_logging_effect [OF s2]] configure_components_effect [OF s3]]
  show ?thesis by (simp add: H_all_def L_all_def o_def)
qed

subsection \<open>When the steps succeed\<close>

lemma setitem2_total:
  assumes "has_dict cfg k1"
  shows "\<exists>c1. setitem2 cfg k1 k2 v = Inr c1 \<and> has_dict c1 = has_dict cfg \<and>
              (\<forall>k. k \<noteq> k1 \<longrightarrow> section_of c1 k = section_of cfg k)"
proof -
  from assms obtain top d where c: "cfg = PyDict top" and d: "map_of top k1 = Some (PyDict d)"
    by (cases cfg) (auto simp: has_dict_def entries_def split: option.splits pyval.splits)
  let ?c1 = "PyDict (dict_store k1 (PyDict (dict_store k2 v d)) top)"
  have "setitem2 cfg k1 k2 v = Inr ?c1"
    unfolding setitem2_Inr_iff using c d by simp
  moreover have "has_dict ?c1 = has_dict cfg"
    using c d by (auto simp: has_dict_def map_of_dict_store fun_eq_iff)
  moreover have "\<forall>k. k \<noteq> k1 \<longrightarrow> section_of ?c1 k = section_of cfg k"
    using c by (simp add: section_of_def map_of_dict_store)
  ultimately show ?thesis by blast
qed

lemma configure_task_logging_total:
  assumes "has_dict cfg ''handlers''" and "loggers_of cfg ''airflow.task'' = Some (PyDict e)"
  shows "\<exists>cfg'. configure_task_logging imp env cfg = Inr cfg'"
proof -
  obtain arn lvl en where g: "get_mwaa_logging_env_vars env ''task'' = (arn, lvl, en)"
    by (cases "get_mwaa_logging_env_vars env ''task''")
  show ?thesis
  proof (cases "truthy arn")
    case False
    with g show ?thesis by (simp add: configure_task_logging_def)
  next
    case True
    let ?v = "PyDict
               [(''class'', PyStr (qualified_name imp TaskLogHandler)),
                (''formatter'', PyStr ''airflow''),
                (''filters'', PyList [PyStr ''mask_secrets'']),
                (''base_log_folder'', PyStr (expanduser imp env (BASE_LOG_FOLDER imp))),
                (''log_group_arn'', str_or_none arn),
                (''kms_key_arn'', str_or_none (get_kms_key_arn env)),
                (''enabled'', PyBool en)]"
    from setitem2_total [OF assms(1), of "''task''" ?v] obtain c1 where
      s1: "setitem2 cfg ''handlers'' ''task'' ?v = Inr c1" and
      l1: "section_of c1 ''loggers'' = section_of cfg ''loggers''"
      by auto
    from l1 assms(2) have "section_of c1 ''loggers'' ''airflow.task'' = Some (PyDict e)"
      by (simp add: loggers_of_def)
    from update2_ok [OF this] obtain cfg' where
      "update2 c1 ''loggers'' ''airflow.task'' [(''level'', PyStr lvl)] = Inr cfg'"
      by blast
    with s1 g True show ?thesis by (simp add: configure_task_logging_def)
  qed
qed

lemma setitem2_shaped:
  assumes "shaped c" and "k1 = ''handlers'' \<or> k1 = ''loggers''"
  shows "\<exists>c1. setitem2 c k1 k2 v = Inr c1 \<and> shaped c1"
proof -
  from assms have "has_dict c k1" by (auto simp: shaped_def)
  from setitem2_total [OF this, of k2 v] assms(1) show ?thesis
    by (auto simp: shaped_def)
qed

lemma setitem2_bind_shaped:
  assumes "shaped c" and "k1 = ''handlers'' \<or> k1 = ''loggers''"
    and "\<And>c1. shaped c1 \<Longrightarrow> \<exists>cfg'. f c1 = Inr cfg' \<and> shaped cfg'"
  shows "\<exists>cfg'. bind_result (setitem2 c k1 k2 v) f = Inr cfg' \<and> shaped cfg'"
proof -
  from setitem2_shaped [OF assms(1,2), of k2 v] obtain c1 where
    "setitem2 c k1 k2 v = Inr c1" and "shaped c1" by blast
  with assms(3) [of c1] show ?thesis by simp
qed

lemma configure_dag_processing_logging_total:
  assumes "shaped cfg"
  shows "\<exists>cfg'. configure_dag_processing_logging imp env cfg = Inr cfg' \<and> shaped cfg'"
proof -
  obtain arn lvl en where g: "get_mwaa_logging_env_vars env ''dagprocessor'' = (arn, lvl, en)"
    by (cases "get_mwaa_logging_env_vars env ''dagprocessor''")
  show ?thesis
    using g assms unfolding configure_dag_processing_logging_def
    by (auto intro!: setitem2_bind_shaped setitem2_shaped)
qed

lemma configure_subprocesses_logging_total:
  assumes "shaped cfg" and "map_of MWAA_LOGGERS (lower name) = Some ln"
  shows "\<exists>cfg'. configure_subprocesses_logging imp env name arn lvl en cfg = Inr cfg' \<and> shaped cfg'"
  using assms unfolding configure_subprocesses_logging_def mwaa_loggers_getitem_def
  by (auto simp: Let_def intro!: setitem2_bind_shaped setitem2_shaped)

lemma configure_components_total:
  assumes "shaped cfg"
    and "\<forall>c \<in> set cs. lower c \<in> dom (map_of MWAA_LOGGERS) \<and>
           lower (c @ ''_requirements'') \<in> dom (map_of MWAA_LOGGERS)"
  shows "\<exists>cfg'. configure_components imp env cs cfg = Inr cfg' \<and> shaped cfg'"
  using assms
proof (induction cs arbitrary: cfg)
  case Nil
  then show ?case by simp
next
  case (Cons c cs)
  obtain arn lvl en where g: "get_mwaa_logging_env_vars env c = (arn, lvl, en)"
    by (cases "get_mwaa_logging_env_vars env c")
  from Cons.prems(2) obtain l1 l2 where
    l1: "map_of MWAA_LOGGERS (lower c) = Some l1" and
    l2: "map_of MWAA_LOGGERS (lower (c @ ''_requirements'')) = Some l2"
    by auto
  from configure_subprocesses_logging_total [OF Cons.prems(1) l1] obtain c1 where
    s1: "configure_subprocesses_logging imp env c arn lvl en cfg = Inr c1" and h1: "shaped c1"
    by blast
  from configure_subprocesses_logging_total [OF h1 l2] obtain c2 where
    s2: "configure_subprocesses_logging imp env (c @ ''_requirements'') arn lvl en c1 = Inr c2"
    and h2: "shaped c2"
    by blast
  from Cons.IH [OF h2] Cons.prems(2) obtain cfg' where
    "configure_components imp env cs c2 = Inr cfg'" and "shaped cfg'"
    by auto
  with g s1 s2 show ?case by simp
qed

subsection \<open>The names of the components\<close>

lemma lower_components:
  "lower ''Worker'' = ''worker''" "lower ''Scheduler'' = ''scheduler''"
  "lower ''WebServer'' = ''webserver''" "lower ''Triggerer'' = ''triggerer''"
  "lower ''Worker_requirements'' = ''worker_requirements''"
  "lower ''Scheduler_requirements'' = ''scheduler_requirements''"
  "lower ''WebServer_requirements'' = ''webserver_requirements''"
  "lower ''Triggerer_requirements'' = ''triggerer_requirements''"
  by (simp_all add: lower_def lower_char_def)

lemma mwaa_loggers_lookup:
  "map_of MWAA_LOGGERS ''worker'' = Some ''mwaa.worker''"
  "map_of MWAA_LOGGERS ''worker_requirements'' = Some ''mwaa.worker_requirements''"
  "map_of MWAA_LOGGERS ''scheduler'' = Some ''mwaa.scheduler''"
  "map_of MWAA_LOGGERS ''scheduler_requirements'' = Some ''mwaa.scheduler_requirements''"
  "map_of MWAA_LOGGERS ''webserver'' = Some ''mwaa.webserver''"
  "map_of MWAA_LOGGERS ''webserver_requirements'' = Some ''mwaa.webserver_requirements''"
  "map_of MWAA_LOGGERS ''triggerer'' = Some ''mwaa.triggerer''"
  "map_of MWAA_LOGGERS ''triggerer_requirements'' = Some ''mwaa.triggerer_requirements''"
  by (simp_all add: MWAA_LOGGERS_def SCHEDULER_LOGGER_NAME_def
      SCHEDULER_REQUIREMENTS_LOGGER_NAME_def TRIGGERER_LOGGER_NAME_def
      TRIGGERER_REQUIREMENTS_LOGGER_NAME_def WEBSERVER_LOGGER_NAME_def
      WEBSERVER_REQUIREMENTS_LOGGER_NAME_def WORKER_LOGGER_NAME_def
      WORKER_REQUIREMENTS_LOGGER_NAME_def)

lemma replace_dot_names:
  "replace_dot ''mwaa.worker'' = ''mwaa_worker''"
  "replace_dot ''mwaa.worker_requirements'' = ''mwaa_worker_requirements''"
  "replace_dot ''mwaa.scheduler'' = ''mwaa_scheduler''"
  "replace_dot ''mwaa.scheduler_requirements'' = ''mwaa_scheduler_requirements''"
  "replace_dot ''mwaa.webserver'' = ''mwaa_webserver''"
  "replace_dot ''mwaa.webserver_requirements'' = ''mwaa_webserver_requirements''"
  "replace_dot ''mwaa.triggerer'' = ''mwaa_triggerer''"
  "replace_dot ''mwaa.triggerer_requirements'' = ''mwaa_triggerer_requirements''"
  by (simp_all add: replace_dot_def)

lemma configure_total:
  assumes "has_dict cfg ''handlers''" and "loggers_of cfg ''airflow.task'' = Some (PyDict e)"
  shows "\<exists>cfg'. configure imp env cfg = Inr cfg'"
proof -
  from assms(2) have hl: "has_dict cfg ''loggers''"
    by (auto simp: loggers_of_def section_of_def has_dict_def entries_def
        split: option.splits pyval.splits)
  from configure_task_logging_total [OF assms] obtain c1 where
    s1: "configure_task_logging imp env cfg = Inr c1" by blast
  from configure_task_logging_effect [OF s1] assms(1) hl have "shaped c1"
    by (simp add: effect_def shaped_def)
  from configure_dag_processing_logging_total [OF this] obtain c2 where
    s2: "configure_dag_processing_logging imp env c1 = Inr c2" and h2: "shaped c2" by blast
  have "\<exists>cfg'. configure_components imp env
      [''Worker'', ''Scheduler'', ''WebServer'', ''Triggerer''] c2 = Inr cfg' \<and> shaped cfg'"
    by (rule configure_components_total [OF h2])
      (simp add: lower_components mwaa_loggers_lookup domIff)
  with s1 s2 show ?thesis by (auto simp: configure_def)
qed

lemmas name_simps = lower_components mwaa_loggers_lookup replace_dot_names upper_literals

lemma run_module_effect:
  "run_module imp env = Inr cfg \<Longrightarrow> effect (LOGGING_CONFIG imp) cfg (H_all imp env) (L_all env)"
  unfolding run_module_def by (rule configure_effect)


subsection \<open>The run of the module\<close>

lemma run_module_task_logger:
  assumes "run_module imp env = Inr cfg"
    and "truthy (fst (get_mwaa_logging_env_vars env ''task''))"
  shows "\<exists>e. loggers_of (PyDict (DEFAULT_LOGGING_CONFIG imp)) ''airflow.task'' = Some (PyDict e)"
proof -
  from assms(1) obtain c1 where
    "configure_task_logging imp env (PyDict (DEFAULT_LOGGING_CONFIG imp)) = Inr c1"
    unfolding run_module_def configure_def LOGGING_CONFIG_def by (auto elim!: bind_result_InrE)
  from configure_task_logging_effect [OF this] assms(2) show ?thesis by blast
qed

lemma run_module_handlers:
  "run_module imp env = Inr cfg \<Longrightarrow>
     handlers_of cfg k = H_all imp env (handlers_of (PyDict (DEFAULT_LOGGING_CONFIG imp))) k"
  using run_module_effect [of imp env cfg] by (simp add: effect_def LOGGING_CONFIG_def)

lemma run_module_loggers:
  "run_module imp env = Inr cfg \<Longrightarrow>
     loggers_of cfg k = L_all env (loggers_of (PyDict (DEFAULT_LOGGING_CONFIG imp))) k"
  using run_module_effect [of imp env cfg] by (simp add: effect_def LOGGING_CONFIG_def)

lemma run_module_others:
  assumes "run_module imp env = Inr cfg" and "k \<noteq> ''handlers''" and "k \<noteq> ''loggers''"
  shows "entries cfg k = map_of (DEFAULT_LOGGING_CONFIG imp) k"
proof -
  from run_module_effect [OF assms(1)]
  have "others_of cfg k = others_of (PyDict (DEFAULT_LOGGING_CONFIG imp)) k"
    by (simp add: effect_def LOGGING_CONFIG_def)
  with assms(2,3) show ?thesis by (simp add: others_of_def)
qed

lemma run_module_top_keys:
  "run_module imp env = Inr cfg \<Longrightarrow> dom (entries cfg) = fst ` set (DEFAULT_LOGGING_CONFIG imp)"
  using run_module_effect [of imp env cfg]
  by (simp add: effect_def LOGGING_CONFIG_def dom_map_of_conv_image_fst)

lemmas env_simps = get_mwaa_logging_env_vars_def get_kms_key_arn_def truthy_def str_or_none_def

lemma example_runs:
  "run_module example_imported task_environ = Inr task_config"
  "run_module example_imported dag_environ = Inr dag_config"
  "run_module example_imported worker_environ = Inr worker_config"
  by (simp_all add: run_module_def configure_def LOGGING_CONFIG_def example_imported_def
      task_environ_def dag_environ_def worker_environ_def task_config_def dag_config_def
      worker_config_def configure_task_logging_def configure_dag_processing_logging_def
      configure_subprocesses_logging_def mwaa_loggers_getitem_def name_simps env_simps
      environ_get_def setitem2_def update2_def getitem_def setitem_def dict_update_def
      lower_def lower_char_def basename_def expanduser_def Let_def)

lemma more_example_runs:
  "run_module example_imported dag_level_environ = Inr dag_level_config"
  "run_module tilde_imported home_a_environ = Inr (home_config ''/home/a/logs'')"
  "run_module tilde_imported home_b_environ = Inr (home_config ''/home/b/logs'')"
  "run_module tilde_imported task_environ = Inr (home_config ''/home/airflow/logs'')"
  by (simp_all add: run_module_def configure_def LOGGING_CONFIG_def example_imported_def
      tilde_imported_def home_a_environ_def home_b_environ_def task_environ_def
      dag_level_environ_def dag_level_config_def home_config_def
      configure_task_logging_def configure_dag_processing_logging_def
      configure_subprocesses_logging_def mwaa_loggers_getitem_def name_simps env_simps
      environ_get_def setitem2_def update2_def getitem_def setitem_def dict_update_def
      lower_def lower_char_def basename_def expanduser_def Let_def)

subsection \<open>How the run depends on the environment\<close>

lemma configure_subprocesses_logging_cong:
  assumes "get_kms_key_arn env = get_kms_key_arn env'"
  shows "configure_subprocesses_logging imp env name arn lvl en cfg =
         configure_subprocesses_logging imp env' name arn lvl en cfg"
  unfolding configure_subprocesses_logging_def assms ..

lemma configure_components_cong:
  assumes "get_kms_key_arn env = get_kms_key_arn env'"
    and "\<forall>c \<in> set cs. get_mwaa_logging_env_vars env c = get_mwaa_logging_env_vars env' c"
  shows "configure_components imp env cs cfg = configure_components imp env' cs cfg"
  using assms(2)
proof (induction cs arbitrary: cfg)
  case Nil
  show ?case by simp
next
  case (Cons c cs)
  from Cons.prems have c: "get_mwaa_logging_env_vars env c = get_mwaa_logging_env_vars env' c"
    and cs: "\<forall>c \<in> set cs. get_mwaa_logging_env_vars env c = get_mwaa_logging_env_vars env' c"
    by simp_all
  have "configure_components imp env cs = configure_components imp env' cs"
    using Cons.IH [OF cs] by (simp add: fun_eq_iff)
  then show ?case
    by (simp add: c configure_subprocesses_logging_cong [OF assms(1)] split_beta)
qed

lemma expanduser_cong:
  assumes "path = ''~'' \<or> take 2 path = ''~/'' \<longrightarrow> env ''HOME'' = env' ''HOME''"
  shows "expanduser imp env path = expanduser imp env' path"
proof (cases path)
  case Nil
  then show ?thesis by (simp add: expanduser_def)
next
  case (Cons c after_tilde)
  show ?thesis
  proof (cases "c = CHR ''~'' \<and> takeWhile (\<lambda>c. c \<noteq> CHR ''/'') after_tilde = []")
    case False
    then show ?thesis unfolding expanduser_def Cons by (auto simp: Let_def)
  next
    case True
    then have "path = ''~'' \<or> take 2 path = ''~/''"
      unfolding Cons by (cases after_tilde) (auto split: if_splits)
    with assms have h: "env ''HOME'' = env' ''HOME''" by blast
    show ?thesis unfolding expanduser_def h ..
  qed
qed

lemma configure_cong:
  assumes "get_kms_key_arn env = get_kms_key_arn env'"
    and "\<forall>S \<in> set log_sources. get_mwaa_logging_env_vars env S = get_mwaa_logging_env_vars env' S"
    and "truthy (fst (get_mwaa_logging_env_vars env ''task'')) \<longrightarrow>
           expanduser imp env (BASE_LOG_FOLDER imp) = expanduser imp env' (BASE_LOG_FOLDER imp)"
  shows "configure imp env cfg = configure imp env' cfg"
proof -
  from assms(2) have
    t: "get_mwaa_logging_env_vars env ''task'' = get_mwaa_logging_env_vars env' ''task''" and
    d: "get_mwaa_logging_env_vars env ''dagprocessor'' =
        get_mwaa_logging_env_vars env' ''dagprocessor''" and
    s: "\<forall>c \<in> set [''Worker'', ''Scheduler'', ''WebServer'', ''Triggerer''].
          get_mwaa_logging_env_vars env c = get_mwaa_logging_env_vars env' c"
    by (simp_all add: log_sources_def)
  have "configure_task_logging imp env c = configure_task_logging imp env' c" for c
  proof -
    obtain arn lvl en where g: "get_mwaa_logging_env_vars env ''task'' = (arn, lvl, en)"
      by (cases "get_mwaa_logging_env_vars env ''task''")
    with t have g': "get_mwaa_logging_env_vars env' ''task'' = (arn, lvl, en)"
      by simp
    show ?thesis
    proof (cases "truthy arn")
      case True
      with assms(3) g have e:
        "expanduser imp env (BASE_LOG_FOLDER imp) = expanduser imp env' (BASE_LOG_FOLDER imp)"
        by simp
      show ?thesis
        unfolding configure_task_logging_def g g' assms(1) e ..
    next
      case False
      then show ?thesis
        by (simp add: configure_task_logging_def g g')
    qed
  qed
  then have 1: "configure_task_logging imp env = configure_task_logging imp env'"
    by (simp add: fun_eq_iff)
  have "configure_dag_processing_logging imp env c =
      configure_dag_processing_logging imp env' c" for c
    unfolding configure_dag_processing_logging_def d assms(1) ..
  then have 2: "configure_dag_processing_logging imp env =
      configure_dag_processing_logging imp env'"
    by (simp add: fun_eq_iff)
  have 3: "configure_components imp env [''Worker'', ''Scheduler'', ''WebServer'', ''Triggerer'']
      = configure_components imp env' [''Worker'', ''Scheduler'', ''WebServer'', ''Triggerer'']"
    using configure_components_cong [OF assms(1) s] by (simp add: fun_eq_iff)
  show ?thesis
    unfolding configure_def 1 2 3 ..
qed

lemma env_vars_cong:
  assumes "\<forall>v \<in> set consulted_variables. env v = env' v"
  shows "get_kms_key_arn env = get_kms_key_arn env'"
    and "\<forall>S \<in> set log_sources. get_mwaa_logging_env_vars env S = get_mwaa_logging_env_vars env' S"
proof -
  from assms show "get_kms_key_arn env = get_kms_key_arn env'"
    by (simp add: consulted_variables_def get_kms_key_arn_def)
  from assms have "\<forall>S \<in> set log_sources.
      env (''MWAA__LOGGING__AIRFLOW_'' @ upper S @ ''_LOG_GROUP_ARN'') =
        env' (''MWAA__LOGGING__AIRFLOW_'' @ upper S @ ''_LOG_GROUP_ARN'') \<and>
      env (''MWAA__LOGGING__AIRFLOW_'' @ upper S @ ''_LOG_LEVEL'') =
        env' (''MWAA__LOGGING__AIRFLOW_'' @ upper S @ ''_LOG_LEVEL'') \<and>
      env (''MWAA__LOGGING__AIRFLOW_'' @ upper S @ ''_LOGS_ENABLED'') =
        env' (''MWAA__LOGGING__AIRFLOW_'' @ upper S @ ''_LOGS_ENABLED'')"
    unfolding consulted_variables_def by auto
  then show "\<forall>S \<in> set log_sources.
      get_mwaa_logging_env_vars env S = get_mwaa_logging_env_vars env' S"
    by (simp add: get_mwaa_logging_env_vars_def environ_get_def)
qed

lemma run_module_cong:
  assumes "\<forall>v \<in> set consulted_variables. env v = env' v"
    and "(\<exists>arn. env ''MWAA__LOGGING__AIRFLOW_TASK_LOG_GROUP_ARN'' = Some arn \<and> arn \<noteq> []) \<and>
         (BASE_LOG_FOLDER imp = ''~'' \<or> take 2 (BASE_LOG_FOLDER imp) = ''~/'') \<longrightarrow>
           env ''HOME'' = env' ''HOME''"
  shows "run_module imp env = run_module imp env'"
proof -
  have e: "truthy (fst (get_mwaa_logging_env_vars env ''task'')) \<longrightarrow>
      expanduser imp env (BASE_LOG_FOLDER imp) = expanduser imp env' (BASE_LOG_FOLDER imp)"
  proof
    assume "truthy (fst (get_mwaa_logging_env_vars env ''task''))"
    then have "\<exists>arn. env ''MWAA__LOGGING__AIRFLOW_TASK_LOG_GROUP_ARN'' = Some arn \<and> arn \<noteq> []"
      by (simp add: name_simps env_simps truthy_def split: option.splits)
    with assms(2) have "BASE_LOG_FOLDER imp = ''~'' \<or> take 2 (BASE_LOG_FOLDER imp) = ''~/'' \<longrightarrow>
        env ''HOME'' = env' ''HOME''"
      by blast
    then show "expanduser imp env (BASE_LOG_FOLDER imp) =
        expanduser imp env' (BASE_LOG_FOLDER imp)"
      by (rule expanduser_cong)
  qed
  show ?thesis
    unfolding run_module_def by (rule configure_cong [OF env_vars_cong [OF assms(1)] e])
qed

lemma consulted_variables_literal:
  "consulted_variables =
     [''MWAA__CORE__KMS_KEY_ARN'',
      ''MWAA__LOGGING__AIRFLOW_TASK_LOG_GROUP_ARN'',
      ''MWAA__LOGGING__AIRFLOW_TASK_LOG_LEVEL'',
      ''MWAA__LOGGING__AIRFLOW_TASK_LOGS_ENABLED'',
      ''MWAA__LOGGING__AIRFLOW_DAGPROCESSOR_LOG_GROUP_ARN'',
      ''MWAA__LOGGING__AIRFLOW_DAGPROCESSOR_LOG_LEVEL'',
      ''MWAA__LOGGING__AIRFLOW_DAGPROCESSOR_LOGS_ENABLED'',
      ''MWAA__LOGGING__AIRFLOW_WORKER_LOG_GROUP_ARN'',
      ''MWAA__LOGGING__AIRFLOW_WORKER_LOG_LEVEL'',
      ''MWAA__LOGGING__AIRFLOW_WORKER_LOGS_ENABLED'',
      ''MWAA__LOGGING__AIRFLOW_SCHEDULER_LOG_GROUP_ARN'',
      ''MWAA__LOGGING__AIRFLOW_SCHEDULER_LOG_LEVEL'',
      ''MWAA__LOGGING__AIRFLOW_SCHEDULER_LOGS_ENABLED'',
      ''MWAA__LOGGING__AIRFLOW_WEBSERVER_LOG_GROUP_ARN'',
      ''MWAA__LOGGING__AIRFLOW_WEBSERVER_LOG_LEVEL'',
      ''MWAA__LOGGING__AIRFLOW_WEBSERVER_LOGS_ENABLED'',
      ''MWAA__LOGGING__AIRFLOW_TRIGGERER_LOG_GROUP_ARN'',
      ''MWAA__LOGGING__AIRFLOW_TRIGGERER_LOG_LEVEL'',
      ''MWAA__LOGGING__AIRFLOW_TRIGGERER_LOGS_ENABLED'']"
  by (simp add: consulted_variables_def log_sources_def name_simps)

subsection \<open>Handlers and loggers after a run, key by key\<close>

text \<open>The layers are listed from the last step of \<^verbatim>\<open>_configure\<close> to the first; their keys
  are different, so at most one applies to a key.\<close>

lemmas entry_defs = subprocess_handler_def subprocess_logger_def task_handler_def
  processor_manager_handler_def processor_handler_def

lemma H_all_apply:
  "H_all imp env H k =
     (if truthy (env ''MWAA__LOGGING__AIRFLOW_TRIGGERER_LOG_GROUP_ARN'') \<and> k = ''mwaa_triggerer_requirements''
        then Some (subprocess_handler imp env ''Triggerer'' ''Triggerer_requirements'')
      else if truthy (env ''MWAA__LOGGING__AIRFLOW_TRIGGERER_LOG_GROUP_ARN'') \<and> k = ''mwaa_triggerer''
        then Some (subprocess_handler imp env ''Triggerer'' ''Triggerer'')
      else if truthy (env ''MWAA__LOGGING__AIRFLOW_WEBSERVER_LOG_GROUP_ARN'') \<and> k = ''mwaa_webserver_requirements''
        then Some (subprocess_handler imp env ''WebServer'' ''WebServer_requirements'')
      else if truthy (env ''MWAA__LOGGING__AIRFLOW_WEBSERVER_LOG_GROUP_ARN'') \<and> k = ''mwaa_webserver''
        then Some (subprocess_handler imp env ''WebServer'' ''WebServer'')
      else if truthy (env ''MWAA__LOGGING__AIRFLOW_SCHEDULER_LOG_GROUP_ARN'') \<and> k = ''mwaa_scheduler_requirements''
        then Some (subprocess_handler imp env ''Scheduler'' ''Scheduler_requirements'')
      else if truthy (env ''MWAA__LOGGING__AIRFLOW_SCHEDULER_LOG_GROUP_ARN'') \<and> k = ''mwaa_scheduler''
        then Some (subprocess_handler imp env ''Scheduler'' ''Scheduler'')
      else if truthy (env ''MWAA__LOGGING__AIRFLOW_WORKER_LOG_GROUP_ARN'') \<and> k = ''mwaa_worker_requirements''
        then Some (subprocess_handler imp env ''Worker'' ''Worker_requirements'')
      else if truthy (env ''MWAA__LOGGING__AIRFLOW_WORKER_LOG_GROUP_ARN'') \<and> k = ''mwaa_worker''
        then Some (subprocess_handler imp env ''Worker'' ''Worker'')
      else if truthy (env ''MWAA__LOGGING__AIRFLOW_DAGPROCESSOR_LOG_GROUP_ARN'') \<and> k = ''processor''
        then Some (processor_handler imp env)
      else if truthy (env ''MWAA__LOGGING__AIRFLOW_DAGPROCESSOR_LOG_GROUP_ARN'') \<and> k = ''processor_manager''
        then Some (processor_manager_handler imp env)
      else if truthy (env ''MWAA__LOGGING__AIRFLOW_TASK_LOG_GROUP_ARN'') \<and> k = ''task''
        then Some (task_handler imp env)
      else H k)"
  by (simp add: H_all_def H_task_def H_dag_def H_sub_def split_beta put_if_apply name_simps
      get_mwaa_logging_env_vars_def get_kms_key_arn_def entry_defs
      split del: if_split cong: if_cong)

lemma L_task_env_apply:
  "L_task env L k =
     (if truthy (env ''MWAA__LOGGING__AIRFLOW_TASK_LOG_GROUP_ARN'') \<and> k = ''airflow.task''
        then (case L ''airflow.task'' of
                Some (PyDict e) \<Rightarrow> Some (PyDict (dict_store ''level''
                  (PyStr (environ_get env ''MWAA__LOGGING__AIRFLOW_TASK_LOG_LEVEL'' ''INFO'')) e))
              | r \<Rightarrow> r)
        else L k)"
  by (simp add: L_task_def get_mwaa_logging_env_vars_def name_simps merge_into_def
      split: option.splits pyval.splits)

lemma L_all_apply:
  "L_all env L k =
     (if truthy (env ''MWAA__LOGGING__AIRFLOW_TRIGGERER_LOG_GROUP_ARN'') \<and> k = ''mwaa.triggerer_requirements''
        then Some (subprocess_logger env ''Triggerer'' ''mwaa_triggerer_requirements'')
      else if truthy (env ''MWAA__LOGGING__AIRFLOW_TRIGGERER_LOG_GROUP_ARN'') \<and> k = ''mwaa.triggerer''
        then Some (subprocess_logger env ''Triggerer'' ''mwaa_triggerer'')
      else if truthy (env ''MWAA__LOGGING__AIRFLOW_WEBSERVER_LOG_GROUP_ARN'') \<and> k = ''mwaa.webserver_requirements''
        then Some (subprocess_logger env ''WebServer'' ''mwaa_webserver_requirements'')
      else if truthy (env ''MWAA__LOGGING__AIRFLOW_WEBSERVER_LOG_GROUP_ARN'') \<and> k = ''mwaa.webserver''
        then Some (subprocess_logger env ''WebServer'' ''mwaa_webserver'')
      else if truthy (env ''MWAA__LOGGING__AIRFLOW_SCHEDULER_LOG_GROUP_ARN'') \<and> k = ''mwaa.scheduler_requirements''
        then Some (subprocess_logger env ''Scheduler'' ''mwaa_scheduler_requirements'')
      else if truthy (env ''MWAA__LOGGING__AIRFLOW_SCHEDULER_LOG_GROUP_ARN'') \<and> k = ''mwaa.scheduler''
        then Some (subprocess_logger env ''Scheduler'' ''mwaa_scheduler'')
      else if truthy (env ''MWAA__LOGGING__AIRFLOW_WORKER_LOG_GROUP_ARN'') \<and> k = ''mwaa.worker_requirements''
        then Some (subprocess_logger env ''Worker'' ''mwaa_worker_requirements'')
      else if truthy (env ''MWAA__LOGGING__AIRFLOW_WORKER_LOG_GROUP_ARN'') \<and> k = ''mwaa.worker''
        then Some (subprocess_logger env ''Worker'' ''mwaa_worker'')
      else if truthy (env ''MWAA__LOGGING__AIRFLOW_DAGPROCESSOR_LOG_GROUP_ARN'') \<and> k = ''airflow.processor''
        then Some (subprocess_logger env ''dagprocessor'' ''processor'')
      else if truthy (env ''MWAA__LOGGING__AIRFLOW_DAGPROCESSOR_LOG_GROUP_ARN'') \<and> k = ''airflow.processor_manager''
        then Some (subprocess_logger env ''dagprocessor'' ''processor_manager'')
      else 
       (if truthy (env ''MWAA__LOGGING__AIRFLOW_TASK_LOG_GROUP_ARN'') \<and> k = ''airflow.task''
        then (case L ''airflow.task'' of
                Some (PyDict e) \<Rightarrow> Some (PyDict (dict_store ''level''
                  (PyStr (environ_get env ''MWAA__LOGGING__AIRFLOW_TASK_LOG_LEVEL'' ''INFO'')) e))
              | r \<Rightarrow> r)
        else L k))"
  by (simp add: L_all_def L_task_env_apply L_dag_def L_sub_def logger_entry_def
      split_beta put_if_apply name_simps get_mwaa_logging_env_vars_def entry_defs
      split del: if_split cong: if_cong)

lemma H_all_mono: "H k = Some y \<Longrightarrow> \<exists>z. H_all imp env H k = Some z"
  by (simp add: H_all_apply)

lemma L_all_mono: "L k = Some y \<Longrightarrow> \<exists>z. L_all env L k = Some z"
  by (auto simp: L_all_apply split: pyval.splits)

subsection \<open>The sources one by one\<close>

lemma source_entries_cases:
  assumes "(S, hs, ls) \<in> set source_entries"
  obtains
      (task) "S = ''task''" "hs = [''task'']" "ls = [''airflow.task'']"
    | (dag) "S = ''dagprocessor''" "hs = [''processor_manager'', ''processor'']"
        "ls = [''airflow.processor_manager'', ''airflow.processor'']"
    | (worker) "S = ''Worker''" "hs = [''mwaa_worker'', ''mwaa_worker_requirements'']"
        "ls = [''mwaa.worker'', ''mwaa.worker_requirements'']"
    | (scheduler) "S = ''Scheduler''" "hs = [''mwaa_scheduler'', ''mwaa_scheduler_requirements'']"
        "ls = [''mwaa.scheduler'', ''mwaa.scheduler_requirements'']"
    | (webserver) "S = ''WebServer''" "hs = [''mwaa_webserver'', ''mwaa_webserver_requirements'']"
        "ls = [''mwaa.webserver'', ''mwaa.webserver_requirements'']"
    | (triggerer) "S = ''Triggerer''" "hs = [''mwaa_triggerer'', ''mwaa_triggerer_requirements'']"
        "ls = [''mwaa.triggerer'', ''mwaa.triggerer_requirements'']"
proof -
  from assms have
    "(S, hs, ls) = (''task'', [''task''], [''airflow.task'']) \<or>
     (S, hs, ls) = (''dagprocessor'', [''processor_manager'', ''processor''],
         [''airflow.processor_manager'', ''airflow.processor'']) \<or>
     (S, hs, ls) = (''Worker'', [''mwaa_worker'', ''mwaa_worker_requirements''],
         [''mwaa.worker'', ''mwaa.worker_requirements'']) \<or>
     (S, hs, ls) = (''Scheduler'', [''mwaa_scheduler'', ''mwaa_scheduler_requirements''],
         [''mwaa.scheduler'', ''mwaa.scheduler_requirements'']) \<or>
     (S, hs, ls) = (''WebServer'', [''mwaa_webserver'', ''mwaa_webserver_requirements''],
         [''mwaa.webserver'', ''mwaa.webserver_requirements'']) \<or>
     (S, hs, ls) = (''Triggerer'', [''mwaa_triggerer'', ''mwaa_triggerer_requirements''],
         [''mwaa.triggerer'', ''mwaa.triggerer_requirements''])"
    unfolding source_entries_def set_simps insert_iff empty_iff by (simp only: simp_thms)
  then show thesis
  proof (elim disjE)
    assume a: "(S, hs, ls) = (''task'', [''task''], [''airflow.task''])"
    show thesis by (rule task) (use a in simp_all)
  next
    assume a: "(S, hs, ls) = (''dagprocessor'', [''processor_manager'', ''processor''],
         [''airflow.processor_manager'', ''airflow.processor''])"
    show thesis by (rule dag) (use a in simp_all)
  next
    assume a: "(S, hs, ls) = (''Worker'', [''mwaa_worker'', ''mwaa_worker_requirements''],
         [''mwaa.worker'', ''mwaa.worker_requirements''])"
    show thesis by (rule worker) (use a in simp_all)
  next
    assume a: "(S, hs, ls) = (''Scheduler'', [''mwaa_scheduler'', ''mwaa_scheduler_requirements''],
         [''mwaa.scheduler'', ''mwaa.scheduler_requirements''])"
    show thesis by (rule scheduler) (use a in simp_all)
  next
    assume a: "(S, hs, ls) = (''WebServer'', [''mwaa_webserver'', ''mwaa_webserver_requirements''],
         [''mwaa.webserver'', ''mwaa.webserver_requirements''])"
    show thesis by (rule webserver) (use a in simp_all)
  next
    assume a: "(S, hs, ls) = (''Triggerer'', [''mwaa_triggerer'', ''mwaa_triggerer_requirements''],
         [''mwaa.triggerer'', ''mwaa.triggerer_requirements''])"
    show thesis by (rule triggerer) (use a in simp_all)
  qed
qed

lemma component_entries:
  assumes "run_module imp env = Inr cfg"
    and "component \<in> set [''Worker'', ''Scheduler'', ''WebServer'', ''Triggerer'']"
  shows "handlers_of cfg (''mwaa_'' @ lower component) =
           (if truthy (env (''MWAA__LOGGING__AIRFLOW_'' @ upper component @ ''_LOG_GROUP_ARN''))
            then Some (subprocess_handler imp env component component)
            else handlers_of (PyDict (DEFAULT_LOGGING_CONFIG imp)) (''mwaa_'' @ lower component))\<and>
         handlers_of cfg (''mwaa_'' @ lower component @ ''_requirements'') =
           (if truthy (env (''MWAA__LOGGING__AIRFLOW_'' @ upper component @ ''_LOG_GROUP_ARN''))
            then Some (subprocess_handler imp env component (component @ ''_requirements''))
            else handlers_of (PyDict (DEFAULT_LOGGING_CONFIG imp))
                   (''mwaa_'' @ lower component @ ''_requirements''))\<and>
         loggers_of cfg (''mwaa.'' @ lower component) =
           (if truthy (env (''MWAA__LOGGING__AIRFLOW_'' @ upper component @ ''_LOG_GROUP_ARN''))
            then Some (subprocess_logger env component (''mwaa_'' @ lower component))
            else loggers_of (PyDict (DEFAULT_LOGGING_CONFIG imp)) (''mwaa.'' @ lower component))\<and>
         loggers_of cfg (''mwaa.'' @ lower component @ ''_requirements'') =
           (if truthy (env (''MWAA__LOGGING__AIRFLOW_'' @ upper component @ ''_LOG_GROUP_ARN''))
            then Some (subprocess_logger env component
                         (''mwaa_'' @ lower component @ ''_requirements''))
            else loggers_of (PyDict (DEFAULT_LOGGING_CONFIG imp))
                   (''mwaa.'' @ lower component @ ''_requirements''))"
proof -
  from assms(2) consider "component = ''Worker''" | "component = ''Scheduler''"
    | "component = ''WebServer''" | "component = ''Triggerer''"
    by auto
  then show ?thesis
    by cases
      (simp_all add: run_module_handlers [OF assms(1)] run_module_loggers [OF assms(1)]
        H_all_apply L_all_apply name_simps)
qed

section \<open>The run completes\<close>

text \<open>
  Claim C1. Whatever the environment holds, \<^verbatim>\<open>_configure\<close> completes without raising
  an error, on a default configuration that has what the module's docstring says
  Airflow provides: a \<^verbatim>\<open>handlers\<close> dictionary and a \<^verbatim>\<open>loggers\<close> dictionary with an
  \<^verbatim>\<open>airflow.task\<close> logger. A source whose log group variable is absent has its step
  skipped: the step returns the configuration it was given, whatever that is. With
  all six absent the run returns the default configuration itself.
\<close>

theorem configure_completes:
  "(\<forall>hs ls t.
      map_of (DEFAULT_LOGGING_CONFIG imp) ''handlers'' = Some (PyDict hs) \<and>
      map_of (DEFAULT_LOGGING_CONFIG imp) ''loggers'' = Some (PyDict ls) \<and>
      map_of ls ''airflow.task'' = Some (PyDict t) \<longrightarrow>
      (\<exists>cfg. run_module imp env = Inr cfg)) \<and>
   (env ''MWAA__LOGGING__AIRFLOW_TASK_LOG_GROUP_ARN'' = None \<longrightarrow>
      configure_task_logging imp env c = Inr c) \<and>
   (env ''MWAA__LOGGING__AIRFLOW_DAGPROCESSOR_LOG_GROUP_ARN'' = None \<longrightarrow>
      configure_dag_processing_logging imp env c = Inr c) \<and>
   (\<forall>component \<in> set [''Worker'', ''Scheduler'', ''WebServer'', ''Triggerer''].
      env (''MWAA__LOGGING__AIRFLOW_'' @ upper component @ ''_LOG_GROUP_ARN'') = None \<longrightarrow>
      configure_components imp env [component] c = Inr c) \<and>
   ((\<forall>S \<in> set log_sources.
       env (''MWAA__LOGGING__AIRFLOW_'' @ upper S @ ''_LOG_GROUP_ARN'') = None) \<longrightarrow>
      run_module imp env = Inr (PyDict (DEFAULT_LOGGING_CONFIG imp)))"
proof -
  have total: "\<exists>cfg. run_module imp env = Inr cfg"
    if "map_of (DEFAULT_LOGGING_CONFIG imp) ''handlers'' = Some (PyDict hs)"
      and "map_of (DEFAULT_LOGGING_CONFIG imp) ''loggers'' = Some (PyDict ls)"
      and "map_of ls ''airflow.task'' = Some (PyDict t)" for hs ls t
  proof -
    from that(1) have "has_dict (LOGGING_CONFIG imp) ''handlers''"
      by (simp add: has_dict_def LOGGING_CONFIG_def)
    moreover from that(2,3)
    have "loggers_of (LOGGING_CONFIG imp) ''airflow.task'' = Some (PyDict t)"
      by (simp add: loggers_of_def section_of_def LOGGING_CONFIG_def)
    ultimately show ?thesis
      unfolding run_module_def by (rule configure_total)
  qed
  have task: "configure_task_logging imp env c = Inr c"
    if "env ''MWAA__LOGGING__AIRFLOW_TASK_LOG_GROUP_ARN'' = None" for c
    using that by (simp add: configure_task_logging_def name_simps env_simps)
  have dag: "configure_dag_processing_logging imp env c = Inr c"
    if "env ''MWAA__LOGGING__AIRFLOW_DAGPROCESSOR_LOG_GROUP_ARN'' = None" for c
    using that by (simp add: configure_dag_processing_logging_def name_simps env_simps)
  have sub: "configure_components imp env [component] c = Inr c"
    if "component \<in> set [''Worker'', ''Scheduler'', ''WebServer'', ''Triggerer'']"
      and "env (''MWAA__LOGGING__AIRFLOW_'' @ upper component @ ''_LOG_GROUP_ARN'') = None"
    for component c
  proof -
    from that(1) have
      "lower component \<in> dom (map_of MWAA_LOGGERS) \<and>
       lower (component @ ''_requirements'') \<in> dom (map_of MWAA_LOGGERS)"
      by (auto simp: name_simps)
    then obtain l1 l2 where
      "map_of MWAA_LOGGERS (lower component) = Some l1"
      "map_of MWAA_LOGGERS (lower (component @ ''_requirements'')) = Some l2"
      by auto
    with that(2) show ?thesis
      by (simp add: configure_subprocesses_logging_def mwaa_loggers_getitem_def env_simps Let_def)
  qed
  have none: "run_module imp env = Inr (PyDict (DEFAULT_LOGGING_CONFIG imp))"
    if "\<forall>S \<in> set log_sources.
          env (''MWAA__LOGGING__AIRFLOW_'' @ upper S @ ''_LOG_GROUP_ARN'') = None"
  proof -
    from that have
      t: "env ''MWAA__LOGGING__AIRFLOW_TASK_LOG_GROUP_ARN'' = None" and
      d: "env ''MWAA__LOGGING__AIRFLOW_DAGPROCESSOR_LOG_GROUP_ARN'' = None"
      by (simp_all add: log_sources_def name_simps)
    from that have
      s: "env (''MWAA__LOGGING__AIRFLOW_'' @ upper component @ ''_LOG_GROUP_ARN'') = None"
      if "component \<in> set [''Worker'', ''Scheduler'', ''WebServer'', ''Triggerer'']"
      for component
      using that by (auto simp: log_sources_def)
    have split: "configure_components imp env (x # xs) c =
        bind_result (configure_components imp env [x] c) (configure_components imp env xs)"
      for x xs c
      by (cases "configure_subprocesses_logging imp env x
            (fst (get_mwaa_logging_env_vars env x)) (fst (snd (get_mwaa_logging_env_vars env x)))
            (snd (snd (get_mwaa_logging_env_vars env x))) c")
        (auto simp: split_beta bind_result_def split: sum.splits)
    have "configure_components imp env [''Worker'', ''Scheduler'', ''WebServer'', ''Triggerer''] c
        = Inr c" for c
      apply (subst split, subst sub, simp, rule s, simp, simp only: bind_result_Inr)
      apply (subst split, subst sub, simp, rule s, simp, simp only: bind_result_Inr)
      apply (subst split, subst sub, simp, rule s, simp, simp only: bind_result_Inr)
      apply (rule sub, simp, rule s, simp)
      done
    with task [OF t] dag [OF d] show ?thesis
      by (simp add: run_module_def configure_def LOGGING_CONFIG_def)
  qed
  from total task dag sub none show ?thesis by blast
qed

theorem configure_completes_witness:
  "(\<exists>cfg. run_module example_imported worker_environ = Inr cfg) \<and>
   configure_task_logging example_imported worker_environ PyNone = Inr PyNone \<and>
   configure_components example_imported dag_environ [''Scheduler''] PyNone = Inr PyNone \<and>
   run_module example_imported Map.empty = Inr (PyDict (DEFAULT_LOGGING_CONFIG example_imported))"
proof -
  note c = configure_completes [of example_imported worker_environ PyNone]
  note d = configure_completes [of example_imported dag_environ PyNone]
  note e = configure_completes [of example_imported Map.empty PyNone]
  have shape:
    "map_of (DEFAULT_LOGGING_CONFIG example_imported) ''handlers'' = Some (PyDict
       [(''console'', PyDict [(''class'', PyStr ''RedirectStdHandler'')]),
        (''task'', PyDict [(''class'', PyStr ''FileTaskHandler'')])]) \<and>
     map_of (DEFAULT_LOGGING_CONFIG example_imported) ''loggers'' = Some (PyDict
       [(''airflow.task'', PyDict [(''handlers'', PyList [PyStr ''task'']),
           (''level'', PyStr ''WARNING''), (''propagate'', PyBool True)])]) \<and>
     map_of [(''airflow.task'', PyDict [(''handlers'', PyList [PyStr ''task'']),
           (''level'', PyStr ''WARNING''), (''propagate'', PyBool True)])] ''airflow.task'' =
       Some (PyDict [(''handlers'', PyList [PyStr ''task'']),
           (''level'', PyStr ''WARNING''), (''propagate'', PyBool True)])"
    by (simp add: example_imported_def)
  from c shape have 1: "\<exists>cfg. run_module example_imported worker_environ = Inr cfg"
    by blast
  have "worker_environ ''MWAA__LOGGING__AIRFLOW_TASK_LOG_GROUP_ARN'' = None"
    by (simp add: worker_environ_def)
  with c have 2: "configure_task_logging example_imported worker_environ PyNone = Inr PyNone"
    by blast
  have "''Scheduler'' \<in> set [''Worker'', ''Scheduler'', ''WebServer'', ''Triggerer'']"
    "dag_environ (''MWAA__LOGGING__AIRFLOW_'' @ upper ''Scheduler'' @ ''_LOG_GROUP_ARN'') = None"
    by (simp_all add: dag_environ_def name_simps)
  with d have 3:
    "configure_components example_imported dag_environ [''Scheduler''] PyNone = Inr PyNone"
    by blast
  have "\<forall>S \<in> set log_sources.
      Map.empty (''MWAA__LOGGING__AIRFLOW_'' @ upper S @ ''_LOG_GROUP_ARN'') = None"
    by simp
  with e have 4:
    "run_module example_imported Map.empty = Inr (PyDict (DEFAULT_LOGGING_CONFIG example_imported))"
    by blast
  from 1 2 3 4 show ?thesis by blast
qed

section \<open>The environment variables consulted\<close>

text \<open>
  Claim C2. For a log source name \<open>S\<close>, \<^verbatim>\<open>_get_mwaa_logging_env_vars\<close> returns the
  triple of: the value of \<^verbatim>\<open>MWAA__LOGGING__AIRFLOW_<uppercase S>_LOG_GROUP_ARN\<close> or
  \<^verbatim>\<open>None\<close>; the value of \<^verbatim>\<open>..._LOG_LEVEL\<close> or \<^verbatim>\<open>"INFO"\<close>; and a boolean that is false
  when \<^verbatim>\<open>..._LOGS_ENABLED\<close> is absent and otherwise true exactly when the value is
  one of the sixteen spellings of \<^verbatim>\<open>true\<close> in upper and lower case. Nothing but
  these three variables is read: the environment restricted to them gives the same
  triple. \<^verbatim>\<open>_get_kms_key_arn\<close> is the value of \<^verbatim>\<open>MWAA__CORE__KMS_KEY_ARN\<close> or
  \<^verbatim>\<open>None\<close> and reads nothing else. For the source \<^verbatim>\<open>WebServer\<close> the names are
  those with \<^verbatim>\<open>WEBSERVER\<close>.
\<close>

theorem logging_env_vars_consulted:
  "get_mwaa_logging_env_vars env S =
     (env (''MWAA__LOGGING__AIRFLOW_'' @ upper S @ ''_LOG_GROUP_ARN''),
      (case env (''MWAA__LOGGING__AIRFLOW_'' @ upper S @ ''_LOG_LEVEL'') of
         None \<Rightarrow> ''INFO'' | Some v \<Rightarrow> v),
      (case env (''MWAA__LOGGING__AIRFLOW_'' @ upper S @ ''_LOGS_ENABLED'') of
         None \<Rightarrow> False
       | Some v \<Rightarrow> v \<in> {[a, b, c, d] | a b c d.
           a \<in> {CHR ''t'', CHR ''T''} \<and> b \<in> {CHR ''r'', CHR ''R''} \<and>
           c \<in> {CHR ''u'', CHR ''U''} \<and> d \<in> {CHR ''e'', CHR ''E''}})) \<and>
   get_mwaa_logging_env_vars
     (env |` {''MWAA__LOGGING__AIRFLOW_'' @ upper S @ ''_LOG_GROUP_ARN'',
              ''MWAA__LOGGING__AIRFLOW_'' @ upper S @ ''_LOG_LEVEL'',
              ''MWAA__LOGGING__AIRFLOW_'' @ upper S @ ''_LOGS_ENABLED''}) S =
     get_mwaa_logging_env_vars env S \<and>
   get_kms_key_arn env = env ''MWAA__CORE__KMS_KEY_ARN'' \<and>
   get_kms_key_arn (env |` {''MWAA__CORE__KMS_KEY_ARN''}) = get_kms_key_arn env \<and>
   get_mwaa_logging_env_vars env ''WebServer'' =
     (env ''MWAA__LOGGING__AIRFLOW_WEBSERVER_LOG_GROUP_ARN'',
      environ_get env ''MWAA__LOGGING__AIRFLOW_WEBSERVER_LOG_LEVEL'' ''INFO'',
      lower (environ_get env ''MWAA__LOGGING__AIRFLOW_WEBSERVER_LOGS_ENABLED'' ''false'') = ''true'')"
proof -
  have 1: "get_mwaa_logging_env_vars env S =
     (env (''MWAA__LOGGING__AIRFLOW_'' @ upper S @ ''_LOG_GROUP_ARN''),
      (case env (''MWAA__LOGGING__AIRFLOW_'' @ upper S @ ''_LOG_LEVEL'') of
         None \<Rightarrow> ''INFO'' | Some v \<Rightarrow> v),
      (case env (''MWAA__LOGGING__AIRFLOW_'' @ upper S @ ''_LOGS_ENABLED'') of
         None \<Rightarrow> False
       | Some v \<Rightarrow> v \<in> {[a, b, c, d] | a b c d.
           a \<in> {CHR ''t'', CHR ''T''} \<and> b \<in> {CHR ''r'', CHR ''R''} \<and>
           c \<in> {CHR ''u'', CHR ''U''} \<and> d \<in> {CHR ''e'', CHR ''E''}}))"
    by (simp add: get_mwaa_logging_env_vars_def environ_get_def lower_eq_true
        split: option.splits)
  have 2: "get_mwaa_logging_env_vars
     (env |` {''MWAA__LOGGING__AIRFLOW_'' @ upper S @ ''_LOG_GROUP_ARN'',
              ''MWAA__LOGGING__AIRFLOW_'' @ upper S @ ''_LOG_LEVEL'',
              ''MWAA__LOGGING__AIRFLOW_'' @ upper S @ ''_LOGS_ENABLED''}) S =
     get_mwaa_logging_env_vars env S"
    by (simp add: get_mwaa_logging_env_vars_def environ_get_def)
  have 3: "get_kms_key_arn env = env ''MWAA__CORE__KMS_KEY_ARN''"
    by (simp add: get_kms_key_arn_def)
  have 4: "get_kms_key_arn (env |` {''MWAA__CORE__KMS_KEY_ARN''}) = get_kms_key_arn env"
    by (simp add: get_kms_key_arn_def)
  have 5: "get_mwaa_logging_env_vars env ''WebServer'' =
     (env ''MWAA__LOGGING__AIRFLOW_WEBSERVER_LOG_GROUP_ARN'',
      environ_get env ''MWAA__LOGGING__AIRFLOW_WEBSERVER_LOG_LEVEL'' ''INFO'',
      lower (environ_get env ''MWAA__LOGGING__AIRFLOW_WEBSERVER_LOGS_ENABLED'' ''false'') = ''true'')"
    by (simp add: get_mwaa_logging_env_vars_def upper_literals)
  from 1 2 3 4 5 show ?thesis by blast
qed

section \<open>DAG processing\<close>

text \<open>
  Claim C3. After a run of the module that completes: if
  \<^verbatim>\<open>MWAA__LOGGING__AIRFLOW_DAGPROCESSOR_LOG_GROUP_ARN\<close> is set to a non-empty value, the
  handlers \<^verbatim>\<open>processor_manager\<close> and \<^verbatim>\<open>processor\<close> are the CloudWatch entries built
  from that value, with the KMS key of \<^verbatim>\<open>MWAA__CORE__KMS_KEY_ARN\<close> (\<^verbatim>\<open>None\<close> when it
  is absent) and \<^verbatim>\<open>enabled\<close> true exactly when the DAGPROCESSOR \<^verbatim>\<open>LOGS_ENABLED\<close>
  variable is set to a spelling of \<^verbatim>\<open>true\<close>; the loggers \<^verbatim>\<open>airflow.processor_manager\<close>
  and \<^verbatim>\<open>airflow.processor\<close> have as level the value of the DAGPROCESSOR
  \<^verbatim>\<open>LOG_LEVEL\<close> variable (\<^verbatim>\<open>INFO\<close> when it is absent), \<^verbatim>\<open>propagate\<close> false and a
  handlers list naming their handler. If the ARN variable is unset, the four keys
  hold what the default configuration holds for them, or nothing.
\<close>

theorem dag_processing_entries:
  assumes "run_module imp env = Inr cfg"
  shows "(\<forall>arn. env ''MWAA__LOGGING__AIRFLOW_DAGPROCESSOR_LOG_GROUP_ARN'' = Some arn \<and> arn \<noteq> [] \<longrightarrow>
            handlers_of cfg ''processor_manager'' = Some (PyDict
               [(''class'', PyStr (qualified_name imp DagProcessorManagerLogHandler)),
                (''formatter'', PyStr ''airflow''),
                (''log_group_arn'', PyStr arn),
                (''kms_key_arn'', (case env ''MWAA__CORE__KMS_KEY_ARN'' of
                    None \<Rightarrow> PyNone | Some k \<Rightarrow> PyStr k)),
                (''stream_name'', PyStr (basename (DAG_PROCESSOR_MANAGER_LOG_LOCATION imp))),
                (''enabled'', PyBool (case env ''MWAA__LOGGING__AIRFLOW_DAGPROCESSOR_LOGS_ENABLED'' of
                    None \<Rightarrow> False
                  | Some v \<Rightarrow> v \<in> {[a, b, c, d] | a b c d.
                      a \<in> {CHR ''t'', CHR ''T''} \<and> b \<in> {CHR ''r'', CHR ''R''} \<and>
                      c \<in> {CHR ''u'', CHR ''U''} \<and> d \<in> {CHR ''e'', CHR ''E''}}))]) \<and>
            handlers_of cfg ''processor'' = Some (PyDict
               [(''class'', PyStr (qualified_name imp DagProcessingLogHandler)),
                (''formatter'', PyStr ''airflow''),
                (''log_group_arn'', PyStr arn),
                (''kms_key_arn'', (case env ''MWAA__CORE__KMS_KEY_ARN'' of
                    None \<Rightarrow> PyNone | Some k \<Rightarrow> PyStr k)),
                (''stream_name_template'', PyStr (PROCESSOR_FILENAME_TEMPLATE imp)),
                (''enabled'', PyBool (case env ''MWAA__LOGGING__AIRFLOW_DAGPROCESSOR_LOGS_ENABLED'' of
                    None \<Rightarrow> False
                  | Some v \<Rightarrow> v \<in> {[a, b, c, d] | a b c d.
                      a \<in> {CHR ''t'', CHR ''T''} \<and> b \<in> {CHR ''r'', CHR ''R''} \<and>
                      c \<in> {CHR ''u'', CHR ''U''} \<and> d \<in> {CHR ''e'', CHR ''E''}}))]) \<and>
            loggers_of cfg ''airflow.processor_manager'' = Some (PyDict
               [(''handlers'', PyList [PyStr ''processor_manager'']),
                (''level'', PyStr (case env ''MWAA__LOGGING__AIRFLOW_DAGPROCESSOR_LOG_LEVEL'' of
                    None \<Rightarrow> ''INFO'' | Some v \<Rightarrow> v)),
                (''propagate'', PyBool False)]) \<and>
            loggers_of cfg ''airflow.processor'' = Some (PyDict
               [(''handlers'', PyList [PyStr ''processor'']),
                (''level'', PyStr (case env ''MWAA__LOGGING__AIRFLOW_DAGPROCESSOR_LOG_LEVEL'' of
                    None \<Rightarrow> ''INFO'' | Some v \<Rightarrow> v)),
                (''propagate'', PyBool False)])) \<and>
         (env ''MWAA__LOGGING__AIRFLOW_DAGPROCESSOR_LOG_GROUP_ARN'' = None \<longrightarrow>
            handlers_of cfg ''processor_manager'' =
              handlers_of (PyDict (DEFAULT_LOGGING_CONFIG imp)) ''processor_manager'' \<and>
            handlers_of cfg ''processor'' =
              handlers_of (PyDict (DEFAULT_LOGGING_CONFIG imp)) ''processor'' \<and>
            loggers_of cfg ''airflow.processor_manager'' =
              loggers_of (PyDict (DEFAULT_LOGGING_CONFIG imp)) ''airflow.processor_manager'' \<and>
            loggers_of cfg ''airflow.processor'' =
              loggers_of (PyDict (DEFAULT_LOGGING_CONFIG imp)) ''airflow.processor'')"
proof -
  have en: "(lower (case env n of None \<Rightarrow> ''false'' | Some v \<Rightarrow> v) = ''true'') =
      (case env n of None \<Rightarrow> False
       | Some v \<Rightarrow> v \<in> {[a, b, c, d] | a b c d.
                      a \<in> {CHR ''t'', CHR ''T''} \<and> b \<in> {CHR ''r'', CHR ''R''} \<and>
                      c \<in> {CHR ''u'', CHR ''U''} \<and> d \<in> {CHR ''e'', CHR ''E''}})" for n
    by (simp add: lower_eq_true split: option.splits)
  have "(\<forall>arn. env ''MWAA__LOGGING__AIRFLOW_DAGPROCESSOR_LOG_GROUP_ARN'' = Some arn \<and> arn \<noteq> [] \<longrightarrow>
            handlers_of cfg ''processor_manager'' = Some (processor_manager_handler imp env) \<and>
            handlers_of cfg ''processor'' = Some (processor_handler imp env) \<and>
            loggers_of cfg ''airflow.processor_manager'' =
              Some (subprocess_logger env ''dagprocessor'' ''processor_manager'') \<and>
            loggers_of cfg ''airflow.processor'' =
              Some (subprocess_logger env ''dagprocessor'' ''processor'')) \<and>
         (env ''MWAA__LOGGING__AIRFLOW_DAGPROCESSOR_LOG_GROUP_ARN'' = None \<longrightarrow>
            handlers_of cfg ''processor_manager'' =
              handlers_of (PyDict (DEFAULT_LOGGING_CONFIG imp)) ''processor_manager'' \<and>
            handlers_of cfg ''processor'' =
              handlers_of (PyDict (DEFAULT_LOGGING_CONFIG imp)) ''processor'' \<and>
            loggers_of cfg ''airflow.processor_manager'' =
              loggers_of (PyDict (DEFAULT_LOGGING_CONFIG imp)) ''airflow.processor_manager'' \<and>
            loggers_of cfg ''airflow.processor'' =
              loggers_of (PyDict (DEFAULT_LOGGING_CONFIG imp)) ''airflow.processor'')"
    by (simp add: run_module_handlers [OF assms] run_module_loggers [OF assms]
        H_all_apply L_all_apply truthy_def)
  note closed = this
  from closed have set: "env ''MWAA__LOGGING__AIRFLOW_DAGPROCESSOR_LOG_GROUP_ARN'' = Some arn \<and> arn \<noteq> [] \<Longrightarrow>
            handlers_of cfg ''processor_manager'' = Some (processor_manager_handler imp env) \<and>
            handlers_of cfg ''processor'' = Some (processor_handler imp env) \<and>
            loggers_of cfg ''airflow.processor_manager'' =
              Some (subprocess_logger env ''dagprocessor'' ''processor_manager'') \<and>
            loggers_of cfg ''airflow.processor'' =
              Some (subprocess_logger env ''dagprocessor'' ''processor'')" for arn
    by simp
  from closed have unset: "env ''MWAA__LOGGING__AIRFLOW_DAGPROCESSOR_LOG_GROUP_ARN'' = None \<Longrightarrow>
            handlers_of cfg ''processor_manager'' =
              handlers_of (PyDict (DEFAULT_LOGGING_CONFIG imp)) ''processor_manager'' \<and>
            handlers_of cfg ''processor'' =
              handlers_of (PyDict (DEFAULT_LOGGING_CONFIG imp)) ''processor'' \<and>
            loggers_of cfg ''airflow.processor_manager'' =
              loggers_of (PyDict (DEFAULT_LOGGING_CONFIG imp)) ''airflow.processor_manager'' \<and>
            loggers_of cfg ''airflow.processor'' =
              loggers_of (PyDict (DEFAULT_LOGGING_CONFIG imp)) ''airflow.processor''"
    by simp
  show ?thesis
  proof (intro conjI allI impI)
    fix arn
    assume a: "env ''MWAA__LOGGING__AIRFLOW_DAGPROCESSOR_LOG_GROUP_ARN'' = Some arn \<and> arn \<noteq> []"
    note h = set [OF a]
    show "handlers_of cfg ''processor_manager'' = Some (PyDict
               [(''class'', PyStr (qualified_name imp DagProcessorManagerLogHandler)),
                (''formatter'', PyStr ''airflow''),
                (''log_group_arn'', PyStr arn),
                (''kms_key_arn'', (case env ''MWAA__CORE__KMS_KEY_ARN'' of
                    None \<Rightarrow> PyNone | Some k \<Rightarrow> PyStr k)),
                (''stream_name'', PyStr (basename (DAG_PROCESSOR_MANAGER_LOG_LOCATION imp))),
                (''enabled'', PyBool (case env ''MWAA__LOGGING__AIRFLOW_DAGPROCESSOR_LOGS_ENABLED'' of
                    None \<Rightarrow> False
                  | Some v \<Rightarrow> v \<in> {[a, b, c, d] | a b c d.
                      a \<in> {CHR ''t'', CHR ''T''} \<and> b \<in> {CHR ''r'', CHR ''R''} \<and>
                      c \<in> {CHR ''u'', CHR ''U''} \<and> d \<in> {CHR ''e'', CHR ''E''}}))])"
      using a unfolding h [THEN conjunct1]
      by (simp add: entry_defs str_or_none_def environ_get_def en del: mem_Collect_eq)
    show "handlers_of cfg ''processor'' = Some (PyDict
               [(''class'', PyStr (qualified_name imp DagProcessingLogHandler)),
                (''formatter'', PyStr ''airflow''),
                (''log_group_arn'', PyStr arn),
                (''kms_key_arn'', (case env ''MWAA__CORE__KMS_KEY_ARN'' of
                    None \<Rightarrow> PyNone | Some k \<Rightarrow> PyStr k)),
                (''stream_name_template'', PyStr (PROCESSOR_FILENAME_TEMPLATE imp)),
                (''enabled'', PyBool (case env ''MWAA__LOGGING__AIRFLOW_DAGPROCESSOR_LOGS_ENABLED'' of
                    None \<Rightarrow> False
                  | Some v \<Rightarrow> v \<in> {[a, b, c, d] | a b c d.
                      a \<in> {CHR ''t'', CHR ''T''} \<and> b \<in> {CHR ''r'', CHR ''R''} \<and>
                      c \<in> {CHR ''u'', CHR ''U''} \<and> d \<in> {CHR ''e'', CHR ''E''}}))])"
      using a unfolding h [THEN conjunct2, THEN conjunct1]
      by (simp add: entry_defs str_or_none_def environ_get_def en del: mem_Collect_eq)
    show "loggers_of cfg ''airflow.processor_manager'' = Some (PyDict
               [(''handlers'', PyList [PyStr ''processor_manager'']),
                (''level'', PyStr (case env ''MWAA__LOGGING__AIRFLOW_DAGPROCESSOR_LOG_LEVEL'' of
                    None \<Rightarrow> ''INFO'' | Some v \<Rightarrow> v)),
                (''propagate'', PyBool False)])"
      unfolding h [THEN conjunct2, THEN conjunct2, THEN conjunct1]
      by (simp add: entry_defs name_simps environ_get_def)
    show "loggers_of cfg ''airflow.processor'' = Some (PyDict
               [(''handlers'', PyList [PyStr ''processor'']),
                (''level'', PyStr (case env ''MWAA__LOGGING__AIRFLOW_DAGPROCESSOR_LOG_LEVEL'' of
                    None \<Rightarrow> ''INFO'' | Some v \<Rightarrow> v)),
                (''propagate'', PyBool False)])"
      unfolding h [THEN conjunct2, THEN conjunct2, THEN conjunct2]
      by (simp add: entry_defs name_simps environ_get_def)
  next
    assume u: "env ''MWAA__LOGGING__AIRFLOW_DAGPROCESSOR_LOG_GROUP_ARN'' = None"
    note h = unset [OF u]
    show "handlers_of cfg ''processor_manager'' =
              handlers_of (PyDict (DEFAULT_LOGGING_CONFIG imp)) ''processor_manager''"
      by (rule h [THEN conjunct1])
    show "handlers_of cfg ''processor'' =
              handlers_of (PyDict (DEFAULT_LOGGING_CONFIG imp)) ''processor''"
      by (rule h [THEN conjunct2, THEN conjunct1])
    show "loggers_of cfg ''airflow.processor_manager'' =
              loggers_of (PyDict (DEFAULT_LOGGING_CONFIG imp)) ''airflow.processor_manager''"
      by (rule h [THEN conjunct2, THEN conjunct2, THEN conjunct1])
    show "loggers_of cfg ''airflow.processor'' =
              loggers_of (PyDict (DEFAULT_LOGGING_CONFIG imp)) ''airflow.processor''"
      by (rule h [THEN conjunct2, THEN conjunct2, THEN conjunct2])
  qed
qed

theorem dag_processing_entries_witness:
  "run_module example_imported dag_level_environ = Inr dag_level_config \<and>
   dag_level_environ ''MWAA__LOGGING__AIRFLOW_DAGPROCESSOR_LOG_LEVEL'' = Some ''DEBUG'' \<and>
   dag_level_environ ''MWAA__LOGGING__AIRFLOW_DAGPROCESSOR_LOGS_ENABLED'' = Some ''TRUE'' \<and>
   handlers_of dag_level_config ''processor_manager'' = Some (PyDict
     [(''class'', PyStr ''DagProcessorManagerLogHandler''),
      (''formatter'', PyStr ''airflow''),
      (''log_group_arn'', PyStr ''arn:dag''),
      (''kms_key_arn'', PyNone),
      (''stream_name'', PyStr ''dag_processor_manager.log''),
      (''enabled'', PyBool True)]) \<and>
   loggers_of dag_level_config ''airflow.processor_manager'' = Some (PyDict
     [(''handlers'', PyList [PyStr ''processor_manager'']),
      (''level'', PyStr ''DEBUG''),
      (''propagate'', PyBool False)]) \<and>
   loggers_of dag_level_config ''airflow.processor'' = Some (PyDict
     [(''handlers'', PyList [PyStr ''processor'']),
      (''level'', PyStr ''DEBUG''),
      (''propagate'', PyBool False)]) \<and>
   run_module example_imported dag_environ = Inr dag_config \<and>
   dag_environ ''MWAA__LOGGING__AIRFLOW_DAGPROCESSOR_LOG_LEVEL'' = None \<and>
   handlers_of dag_config ''processor'' = Some (PyDict
     [(''class'', PyStr ''DagProcessingLogHandler''),
      (''formatter'', PyStr ''airflow''),
      (''log_group_arn'', PyStr ''arn:dag''),
      (''kms_key_arn'', PyStr ''arn:kms''),
      (''stream_name_template'', PyStr ''{{ filename }}.log''),
      (''enabled'', PyBool False)]) \<and>
   loggers_of dag_config ''airflow.processor'' = Some (PyDict
     [(''handlers'', PyList [PyStr ''processor'']),
      (''level'', PyStr ''INFO''),
      (''propagate'', PyBool False)]) \<and>
   run_module example_imported task_environ = Inr task_config \<and>
   handlers_of task_config ''processor'' = None \<and>
   loggers_of task_config ''airflow.processor_manager'' = None"
proof -
  have lset: "dag_level_environ ''MWAA__LOGGING__AIRFLOW_DAGPROCESSOR_LOG_GROUP_ARN'' = Some ''arn:dag''
      \<and> ''arn:dag'' \<noteq> []"
    and set: "dag_environ ''MWAA__LOGGING__AIRFLOW_DAGPROCESSOR_LOG_GROUP_ARN'' = Some ''arn:dag''
      \<and> ''arn:dag'' \<noteq> []"
    and unset: "task_environ ''MWAA__LOGGING__AIRFLOW_DAGPROCESSOR_LOG_GROUP_ARN'' = None"
    by (simp_all add: dag_level_environ_def dag_environ_def task_environ_def)
  have vars:
    "dag_level_environ ''MWAA__LOGGING__AIRFLOW_DAGPROCESSOR_LOG_LEVEL'' = Some ''DEBUG''"
    "dag_level_environ ''MWAA__LOGGING__AIRFLOW_DAGPROCESSOR_LOGS_ENABLED'' = Some ''TRUE''"
    "dag_level_environ ''MWAA__CORE__KMS_KEY_ARN'' = None"
    "dag_environ ''MWAA__LOGGING__AIRFLOW_DAGPROCESSOR_LOG_LEVEL'' = None"
    "dag_environ ''MWAA__LOGGING__AIRFLOW_DAGPROCESSOR_LOGS_ENABLED'' = None"
    "dag_environ ''MWAA__CORE__KMS_KEY_ARN'' = Some ''arn:kms''"
    by (simp_all add: dag_level_environ_def dag_environ_def)
  have imps:
    "qualified_name example_imported DagProcessorManagerLogHandler = ''DagProcessorManagerLogHandler''"
    "qualified_name example_imported DagProcessingLogHandler = ''DagProcessingLogHandler''"
    "basename (DAG_PROCESSOR_MANAGER_LOG_LOCATION example_imported) = ''dag_processor_manager.log''"
    "PROCESSOR_FILENAME_TEMPLATE example_imported = ''{{ filename }}.log''"
    by (simp_all add: example_imported_def basename_def)
  have none: "handlers_of (PyDict (DEFAULT_LOGGING_CONFIG example_imported)) ''processor'' = None"
    "loggers_of (PyDict (DEFAULT_LOGGING_CONFIG example_imported)) ''airflow.processor_manager''
       = None"
    by (simp_all add: example_imported_def handlers_of_def loggers_of_def section_of_def)
  note l = dag_processing_entries [OF more_example_runs(1), THEN conjunct1, rule_format, OF lset]
  note d = dag_processing_entries [OF example_runs(2), THEN conjunct1, rule_format, OF set]
  note t = dag_processing_entries [OF example_runs(1), THEN conjunct2, rule_format, OF unset]
  from l have 1: "handlers_of dag_level_config ''processor_manager'' = Some (PyDict
     [(''class'', PyStr ''DagProcessorManagerLogHandler''),
      (''formatter'', PyStr ''airflow''),
      (''log_group_arn'', PyStr ''arn:dag''),
      (''kms_key_arn'', PyNone),
      (''stream_name'', PyStr ''dag_processor_manager.log''),
      (''enabled'', PyBool True)])"
    and 2: "loggers_of dag_level_config ''airflow.processor_manager'' = Some (PyDict
     [(''handlers'', PyList [PyStr ''processor_manager'']),
      (''level'', PyStr ''DEBUG''),
      (''propagate'', PyBool False)])"
    and 3: "loggers_of dag_level_config ''airflow.processor'' = Some (PyDict
     [(''handlers'', PyList [PyStr ''processor'']),
      (''level'', PyStr ''DEBUG''),
      (''propagate'', PyBool False)])"
    by (simp_all add: vars imps)
  from d have 4: "handlers_of dag_config ''processor'' = Some (PyDict
     [(''class'', PyStr ''DagProcessingLogHandler''),
      (''formatter'', PyStr ''airflow''),
      (''log_group_arn'', PyStr ''arn:dag''),
      (''kms_key_arn'', PyStr ''arn:kms''),
      (''stream_name_template'', PyStr ''{{ filename }}.log''),
      (''enabled'', PyBool False)])"
    and 5: "loggers_of dag_config ''airflow.processor'' = Some (PyDict
     [(''handlers'', PyList [PyStr ''processor'']),
      (''level'', PyStr ''INFO''),
      (''propagate'', PyBool False)])"
    by (simp_all add: vars imps)
  from t none have 6: "handlers_of task_config ''processor'' = None"
    and 7: "loggers_of task_config ''airflow.processor_manager'' = None"
    by simp_all
  from more_example_runs(1) vars(1,2) 1 2 3 example_runs(2) vars(4) 4 5 example_runs(1) 6 7
  show ?thesis by (intro conjI)
qed

section \<open>Task logging\<close>

text \<open>
  Claim C4. After a run of the module that completes, with
  \<^verbatim>\<open>MWAA__LOGGING__AIRFLOW_TASK_LOG_GROUP_ARN\<close> set to a non-empty value: the handler
  \<^verbatim>\<open>task\<close> is the CloudWatch \<^verbatim>\<open>TaskLogHandler\<close> entry, with formatter
  \<^verbatim>\<open>airflow\<close>, filters \<^verbatim>\<open>["mask_secrets"]\<close>, the base log folder with a leading \<^verbatim>\<open>~\<close> expanded, the log
  group ARN, the KMS key ARN and the enabled flag; and the logger \<^verbatim>\<open>airflow.task\<close>
  that the default configuration has is there with its \<^verbatim>\<open>level\<close> set to the TASK
  log-level variable (\<^verbatim>\<open>INFO\<close> when absent), every other field as before, and its
  keys in their old order (with \<^verbatim>\<open>level\<close> last if it was not there).
\<close>

theorem task_entries:
  assumes "run_module imp env = Inr cfg"
    and "env ''MWAA__LOGGING__AIRFLOW_TASK_LOG_GROUP_ARN'' = Some arn" and "arn \<noteq> []"
  shows "handlers_of cfg ''task'' = Some (PyDict
           [(''class'', PyStr (qualified_name imp TaskLogHandler)),
            (''formatter'', PyStr ''airflow''),
            (''filters'', PyList [PyStr ''mask_secrets'']),
            (''base_log_folder'', PyStr (expanduser imp env (BASE_LOG_FOLDER imp))),
            (''log_group_arn'', PyStr arn),
            (''kms_key_arn'', str_or_none (env ''MWAA__CORE__KMS_KEY_ARN'')),
            (''enabled'', PyBool (lower (environ_get env
                ''MWAA__LOGGING__AIRFLOW_TASK_LOGS_ENABLED'' ''false'') = ''true''))]) \<and>
         (\<exists>before after.
            loggers_of (PyDict (DEFAULT_LOGGING_CONFIG imp)) ''airflow.task'' = Some (PyDict before) \<and>
            loggers_of cfg ''airflow.task'' = Some (PyDict after) \<and>
            map_of after ''level'' =
              Some (PyStr (environ_get env ''MWAA__LOGGING__AIRFLOW_TASK_LOG_LEVEL'' ''INFO'')) \<and>
            (\<forall>field. field \<noteq> ''level'' \<longrightarrow> map_of after field = map_of before field) \<and>
            map fst after = (if ''level'' \<in> set (map fst before) then map fst before
                             else map fst before @ [''level'']))"
proof -
  have tr: "truthy (fst (get_mwaa_logging_env_vars env ''task''))"
    using assms(2,3) by (simp add: name_simps env_simps)
  from run_module_task_logger [OF assms(1) tr] obtain before where
    b: "loggers_of (PyDict (DEFAULT_LOGGING_CONFIG imp)) ''airflow.task'' = Some (PyDict before)"
    by blast
  have h: "handlers_of cfg ''task'' = Some (PyDict
           [(''class'', PyStr (qualified_name imp TaskLogHandler)),
            (''formatter'', PyStr ''airflow''),
            (''filters'', PyList [PyStr ''mask_secrets'']),
            (''base_log_folder'', PyStr (expanduser imp env (BASE_LOG_FOLDER imp))),
            (''log_group_arn'', PyStr arn),
            (''kms_key_arn'', str_or_none (env ''MWAA__CORE__KMS_KEY_ARN'')),
            (''enabled'', PyBool (lower (environ_get env
                ''MWAA__LOGGING__AIRFLOW_TASK_LOGS_ENABLED'' ''false'') = ''true''))])"
    using assms(2,3)
    by (simp add: run_module_handlers [OF assms(1)] H_all_apply L_all_apply entry_defs name_simps truthy_def str_or_none_def)
  let ?lvl = "PyStr (environ_get env ''MWAA__LOGGING__AIRFLOW_TASK_LOG_LEVEL'' ''INFO'')"
  have l: "loggers_of cfg ''airflow.task'' = Some (PyDict (dict_store ''level'' ?lvl before))"
    using assms(2,3) b
    by (simp add: run_module_loggers [OF assms(1)] H_all_apply L_all_apply entry_defs name_simps truthy_def str_or_none_def)
  have keys: "map fst (dict_store ''level'' ?lvl before) =
      (if ''level'' \<in> set (map fst before) then map fst before else map fst before @ [''level''])"
    by (induction before) auto
  from h b l keys show ?thesis
    by (simp add: map_of_dict_store)
qed

theorem task_entries_witness:
  "run_module example_imported task_environ = Inr task_config \<and>
   task_environ ''MWAA__LOGGING__AIRFLOW_TASK_LOG_GROUP_ARN'' = Some ''arn:task'' \<and>
   ''arn:task'' \<noteq> [] \<and>
   (handlers_of task_config ''task'' = Some (PyDict
           [(''class'', PyStr (qualified_name example_imported TaskLogHandler)),
            (''formatter'', PyStr ''airflow''),
            (''filters'', PyList [PyStr ''mask_secrets'']),
            (''base_log_folder'', PyStr (expanduser example_imported task_environ (BASE_LOG_FOLDER example_imported))),
            (''log_group_arn'', PyStr ''arn:task''),
            (''kms_key_arn'', str_or_none (task_environ ''MWAA__CORE__KMS_KEY_ARN'')),
            (''enabled'', PyBool (lower (environ_get task_environ
                ''MWAA__LOGGING__AIRFLOW_TASK_LOGS_ENABLED'' ''false'') = ''true''))]) \<and>
         (\<exists>before after.
            loggers_of (PyDict (DEFAULT_LOGGING_CONFIG example_imported)) ''airflow.task'' = Some (PyDict before) \<and>
            loggers_of task_config ''airflow.task'' = Some (PyDict after) \<and>
            map_of after ''level'' =
              Some (PyStr (environ_get task_environ ''MWAA__LOGGING__AIRFLOW_TASK_LOG_LEVEL'' ''INFO'')) \<and>
            (\<forall>field. field \<noteq> ''level'' \<longrightarrow> map_of after field = map_of before field) \<and>
            map fst after = (if ''level'' \<in> set (map fst before) then map fst before
                             else map fst before @ [''level'']))) \<and>
   run_module tilde_imported home_a_environ = Inr (home_config ''/home/a/logs'') \<and>
   BASE_LOG_FOLDER tilde_imported = ''~/logs'' \<and>
   home_a_environ ''HOME'' = Some ''/home/a/'' \<and>
   handlers_of (home_config ''/home/a/logs'') ''task'' = Some (PyDict
           [(''class'', PyStr ''TaskLogHandler''),
            (''formatter'', PyStr ''airflow''),
            (''filters'', PyList [PyStr ''mask_secrets'']),
            (''base_log_folder'', PyStr ''/home/a/logs''),
            (''log_group_arn'', PyStr ''arn:task''),
            (''kms_key_arn'', PyNone),
            (''enabled'', PyBool True)])"
proof -
  have arn: "task_environ ''MWAA__LOGGING__AIRFLOW_TASK_LOG_GROUP_ARN'' = Some ''arn:task''"
    by (simp add: task_environ_def)
  have ne: "''arn:task'' \<noteq> []" by simp
  note c = task_entries [OF example_runs(1) arn ne]
  have arn_a: "home_a_environ ''MWAA__LOGGING__AIRFLOW_TASK_LOG_GROUP_ARN'' = Some ''arn:task''"
    by (simp add: home_a_environ_def task_environ_def)
  have folder: "BASE_LOG_FOLDER tilde_imported = ''~/logs''"
    by (simp add: tilde_imported_def)
  have home: "home_a_environ ''HOME'' = Some ''/home/a/''"
    by (simp add: home_a_environ_def)
  have vals:
    "qualified_name tilde_imported TaskLogHandler = ''TaskLogHandler''"
    "expanduser tilde_imported home_a_environ (BASE_LOG_FOLDER tilde_imported) = ''/home/a/logs''"
    "str_or_none (home_a_environ ''MWAA__CORE__KMS_KEY_ARN'') = PyNone"
    "lower (environ_get home_a_environ ''MWAA__LOGGING__AIRFLOW_TASK_LOGS_ENABLED'' ''false'')
       = ''true''"
    by (simp_all add: tilde_imported_def example_imported_def home_a_environ_def
        task_environ_def expanduser_def str_or_none_def environ_get_def lower_def lower_char_def)
  from task_entries [OF more_example_runs(2) arn_a ne, THEN conjunct1]
  have a: "handlers_of (home_config ''/home/a/logs'') ''task'' = Some (PyDict
           [(''class'', PyStr ''TaskLogHandler''),
            (''formatter'', PyStr ''airflow''),
            (''filters'', PyList [PyStr ''mask_secrets'']),
            (''base_log_folder'', PyStr ''/home/a/logs''),
            (''log_group_arn'', PyStr ''arn:task''),
            (''kms_key_arn'', PyNone),
            (''enabled'', PyBool True)])"
    unfolding vals by simp
  show ?thesis
    by (rule conjI [OF example_runs(1) conjI [OF arn conjI [OF ne conjI [OF c
        conjI [OF more_example_runs(2) conjI [OF folder conjI [OF home a]]]]]]])
qed

section \<open>What the run leaves alone\<close>

text \<open>
  Claim C5. After a run of the module that completes, every handler other than
  \<^verbatim>\<open>task\<close>, \<^verbatim>\<open>processor_manager\<close>, \<^verbatim>\<open>processor\<close> and the eight handlers
  \<^verbatim>\<open>mwaa_<component>\<close> and \<^verbatim>\<open>mwaa_<component>_requirements\<close>, every logger other
  than \<^verbatim>\<open>airflow.task\<close>, \<^verbatim>\<open>airflow.processor_manager\<close>, \<^verbatim>\<open>airflow.processor\<close> and the
  eight loggers \<^verbatim>\<open>mwaa.<component>\<close> and \<^verbatim>\<open>mwaa.<component>_requirements\<close>, and every
  top-level entry other than \<^verbatim>\<open>handlers\<close> and \<^verbatim>\<open>loggers\<close> is what the default
  configuration has under that key (or absent, if it is absent there), for the
  components Worker, Scheduler, WebServer and Triggerer and every environment.
\<close>

theorem untouched_entries_are_the_defaults:
  assumes "run_module imp env = Inr cfg"
  shows "(\<forall>k. k \<notin> {''task'', ''processor_manager'', ''processor'',
                  ''mwaa_worker'', ''mwaa_worker_requirements'',
                  ''mwaa_scheduler'', ''mwaa_scheduler_requirements'',
                  ''mwaa_webserver'', ''mwaa_webserver_requirements'',
                  ''mwaa_triggerer'', ''mwaa_triggerer_requirements''} \<longrightarrow>
            handlers_of cfg k = handlers_of (PyDict (DEFAULT_LOGGING_CONFIG imp)) k) \<and>
         (\<forall>k. k \<notin> {''airflow.task'', ''airflow.processor_manager'', ''airflow.processor'',
                  ''mwaa.worker'', ''mwaa.worker_requirements'',
                  ''mwaa.scheduler'', ''mwaa.scheduler_requirements'',
                  ''mwaa.webserver'', ''mwaa.webserver_requirements'',
                  ''mwaa.triggerer'', ''mwaa.triggerer_requirements''} \<longrightarrow>
            loggers_of cfg k = loggers_of (PyDict (DEFAULT_LOGGING_CONFIG imp)) k) \<and>
         (\<forall>k. k \<notin> {''handlers'', ''loggers''} \<longrightarrow>
            entries cfg k = map_of (DEFAULT_LOGGING_CONFIG imp) k)"
proof -
  have h: "handlers_of cfg k = handlers_of (PyDict (DEFAULT_LOGGING_CONFIG imp)) k"
    if "k \<notin> {''task'', ''processor_manager'', ''processor'',
              ''mwaa_worker'', ''mwaa_worker_requirements'',
              ''mwaa_scheduler'', ''mwaa_scheduler_requirements'',
              ''mwaa_webserver'', ''mwaa_webserver_requirements'',
              ''mwaa_triggerer'', ''mwaa_triggerer_requirements''}" for k
    using that by (simp add: run_module_handlers [OF assms] H_all_apply L_all_apply)
  have l: "loggers_of cfg k = loggers_of (PyDict (DEFAULT_LOGGING_CONFIG imp)) k"
    if "k \<notin> {''airflow.task'', ''airflow.processor_manager'', ''airflow.processor'',
              ''mwaa.worker'', ''mwaa.worker_requirements'',
              ''mwaa.scheduler'', ''mwaa.scheduler_requirements'',
              ''mwaa.webserver'', ''mwaa.webserver_requirements'',
              ''mwaa.triggerer'', ''mwaa.triggerer_requirements''}" for k
    using that by (simp add: run_module_loggers [OF assms] H_all_apply L_all_apply)
  have t: "entries cfg k = map_of (DEFAULT_LOGGING_CONFIG imp) k"
    if "k \<notin> {''handlers'', ''loggers''}" for k
    using that run_module_others [OF assms, of k] by simp
  from h l t show ?thesis by blast
qed

theorem untouched_entries_are_the_defaults_witness:
  "run_module example_imported worker_environ = Inr worker_config \<and>
   handlers_of worker_config ''console'' = Some (PyDict [(''class'', PyStr ''RedirectStdHandler'')]) \<and>
   loggers_of worker_config ''flask_appbuilder'' = None \<and>
   entries worker_config ''version'' = Some (PyInt 1)"
proof -
  note c = untouched_entries_are_the_defaults [OF example_runs(3)]
  from c have "handlers_of worker_config ''console'' =
      handlers_of (PyDict (DEFAULT_LOGGING_CONFIG example_imported)) ''console''"
    by simp
  moreover from c have "loggers_of worker_config ''flask_appbuilder'' =
      loggers_of (PyDict (DEFAULT_LOGGING_CONFIG example_imported)) ''flask_appbuilder''"
    by simp
  moreover from c have "entries worker_config ''version'' =
      map_of (DEFAULT_LOGGING_CONFIG example_imported) ''version''"
    by simp
  ultimately show ?thesis
    using example_runs(3)
    by (simp add: example_imported_def handlers_of_def loggers_of_def section_of_def)
qed

section \<open>What the configuration depends on\<close>

text \<open>
  Claim C6, as stated: the outcome of the module is a function of the nineteen
  consulted variables alone, so two environments that agree on
  \<^verbatim>\<open>MWAA__CORE__KMS_KEY_ARN\<close> and on the \<^verbatim>\<open>LOG_GROUP_ARN\<close>, \<^verbatim>\<open>LOG_LEVEL\<close> and
  \<^verbatim>\<open>LOGS_ENABLED\<close> variables of the six sources give equal configurations. This
  fails: \<^verbatim>\<open>_configure_task_logging\<close> passes \<^verbatim>\<open>BASE_LOG_FOLDER\<close> to
  \<^verbatim>\<open>os.path.expanduser\<close>, which reads \<^verbatim>\<open>HOME\<close> when the folder begins with \<^verbatim>\<open>~/\<close>.
  With \<^verbatim>\<open>BASE_LOG_FOLDER = "~/logs"\<close> and the task log group set, the environments
  with \<^verbatim>\<open>HOME=/home/a/\<close> and \<^verbatim>\<open>HOME=/home/b\<close> agree on every consulted variable, and
  the \<^verbatim>\<open>task\<close> handlers have \<^verbatim>\<open>base_log_folder\<close> \<^verbatim>\<open>/home/a/logs\<close> and
  \<^verbatim>\<open>/home/b/logs\<close>.
\<close>

theorem home_changes_the_task_handler:
  "map home_a_environ consulted_variables = map home_b_environ consulted_variables \<and>
   run_module tilde_imported home_a_environ = Inr (home_config ''/home/a/logs'') \<and>
   run_module tilde_imported home_b_environ = Inr (home_config ''/home/b/logs'') \<and>
   handlers_of (home_config ''/home/a/logs'') ''task'' \<noteq>
     handlers_of (home_config ''/home/b/logs'') ''task'' \<and>
   run_module tilde_imported home_a_environ \<noteq> run_module tilde_imported home_b_environ"
proof -
  have agree: "map home_a_environ consulted_variables = map home_b_environ consulted_variables"
    by (simp add: consulted_variables_literal home_a_environ_def home_b_environ_def)
  have differ: "handlers_of (home_config ''/home/a/logs'') ''task'' \<noteq>
      handlers_of (home_config ''/home/b/logs'') ''task''"
    by (simp add: home_config_def handlers_of_def section_of_def)
  then have "home_config ''/home/a/logs'' \<noteq> home_config ''/home/b/logs''"
    by auto
  then have "run_module tilde_imported home_a_environ \<noteq> run_module tilde_imported home_b_environ"
    by (simp add: more_example_runs(2,3))
  with agree differ more_example_runs(2,3) show ?thesis
    by (intro conjI)
qed

text \<open>
  Claim C6, amended. The outcome of the module (the configuration built, or the
  error) is determined by the imports and by the values of the nineteen consulted
  variables, together with \<^verbatim>\<open>HOME\<close> in the one case where the code reads it: the task
  log group is set to a non-empty value and \<^verbatim>\<open>BASE_LOG_FOLDER\<close> is \<^verbatim>\<open>~\<close> or begins
  with \<^verbatim>\<open>~/\<close>. Two environments that agree on the consulted variables, and on
  \<^verbatim>\<open>HOME\<close> in that case, give the same outcome, whatever else they hold. So the run
  in the environment restricted to the consulted variables and \<^verbatim>\<open>HOME\<close> is the run
  in the whole environment, and when \<^verbatim>\<open>BASE_LOG_FOLDER\<close> has no such prefix the
  consulted variables alone suffice.
\<close>

theorem configuration_determined_by_consulted_variables_and_home:
  "((\<forall>v \<in> set consulted_variables. env v = env' v) \<and>
    ((\<exists>arn. env ''MWAA__LOGGING__AIRFLOW_TASK_LOG_GROUP_ARN'' = Some arn \<and> arn \<noteq> []) \<and>
     (BASE_LOG_FOLDER imp = ''~'' \<or> take 2 (BASE_LOG_FOLDER imp) = ''~/'') \<longrightarrow>
       env ''HOME'' = env' ''HOME'') \<longrightarrow>
      run_module imp env = run_module imp env') \<and>
   run_module imp (env |` (set consulted_variables \<union> {''HOME''})) = run_module imp env \<and>
   (\<not> (BASE_LOG_FOLDER imp = ''~'' \<or> take 2 (BASE_LOG_FOLDER imp) = ''~/'') \<longrightarrow>
      run_module imp (env |` set consulted_variables) = run_module imp env) \<and>
   consulted_variables =
     [''MWAA__CORE__KMS_KEY_ARN'',
      ''MWAA__LOGGING__AIRFLOW_TASK_LOG_GROUP_ARN'',
      ''MWAA__LOGGING__AIRFLOW_TASK_LOG_LEVEL'',
      ''MWAA__LOGGING__AIRFLOW_TASK_LOGS_ENABLED'',
      ''MWAA__LOGGING__AIRFLOW_DAGPROCESSOR_LOG_GROUP_ARN'',
      ''MWAA__LOGGING__AIRFLOW_DAGPROCESSOR_LOG_LEVEL'',
      ''MWAA__LOGGING__AIRFLOW_DAGPROCESSOR_LOGS_ENABLED'',
      ''MWAA__LOGGING__AIRFLOW_WORKER_LOG_GROUP_ARN'',
      ''MWAA__LOGGING__AIRFLOW_WORKER_LOG_LEVEL'',
      ''MWAA__LOGGING__AIRFLOW_WORKER_LOGS_ENABLED'',
      ''MWAA__LOGGING__AIRFLOW_SCHEDULER_LOG_GROUP_ARN'',
      ''MWAA__LOGGING__AIRFLOW_SCHEDULER_LOG_LEVEL'',
      ''MWAA__LOGGING__AIRFLOW_SCHEDULER_LOGS_ENABLED'',
      ''MWAA__LOGGING__AIRFLOW_WEBSERVER_LOG_GROUP_ARN'',
      ''MWAA__LOGGING__AIRFLOW_WEBSERVER_LOG_LEVEL'',
      ''MWAA__LOGGING__AIRFLOW_WEBSERVER_LOGS_ENABLED'',
      ''MWAA__LOGGING__AIRFLOW_TRIGGERER_LOG_GROUP_ARN'',
      ''MWAA__LOGGING__AIRFLOW_TRIGGERER_LOG_LEVEL'',
      ''MWAA__LOGGING__AIRFLOW_TRIGGERER_LOGS_ENABLED'']"
proof (intro conjI impI)
  assume "(\<forall>v \<in> set consulted_variables. env v = env' v) \<and>
    ((\<exists>arn. env ''MWAA__LOGGING__AIRFLOW_TASK_LOG_GROUP_ARN'' = Some arn \<and> arn \<noteq> []) \<and>
     (BASE_LOG_FOLDER imp = ''~'' \<or> take 2 (BASE_LOG_FOLDER imp) = ''~/'') \<longrightarrow>
       env ''HOME'' = env' ''HOME'')"
  then show "run_module imp env = run_module imp env'"
    by (intro run_module_cong) simp_all
next
  let ?r = "env |` (set consulted_variables \<union> {''HOME''})"
  have a: "\<forall>v \<in> set consulted_variables. ?r v = env v"
    by simp
  have h: "?r ''HOME'' = env ''HOME''"
    by simp
  show "run_module imp ?r = run_module imp env"
    by (rule run_module_cong [OF a]) (simp only: h simp_thms)
next
  assume n: "\<not> (BASE_LOG_FOLDER imp = ''~'' \<or> take 2 (BASE_LOG_FOLDER imp) = ''~/'')"
  have a: "\<forall>v \<in> set consulted_variables. (env |` set consulted_variables) v = env v"
    by simp
  show "run_module imp (env |` set consulted_variables) = run_module imp env"
    by (rule run_module_cong [OF a]) (simp only: n simp_thms)
next
  show "consulted_variables =
     [''MWAA__CORE__KMS_KEY_ARN'',
      ''MWAA__LOGGING__AIRFLOW_TASK_LOG_GROUP_ARN'',
      ''MWAA__LOGGING__AIRFLOW_TASK_LOG_LEVEL'',
      ''MWAA__LOGGING__AIRFLOW_TASK_LOGS_ENABLED'',
      ''MWAA__LOGGING__AIRFLOW_DAGPROCESSOR_LOG_GROUP_ARN'',
      ''MWAA__LOGGING__AIRFLOW_DAGPROCESSOR_LOG_LEVEL'',
      ''MWAA__LOGGING__AIRFLOW_DAGPROCESSOR_LOGS_ENABLED'',
      ''MWAA__LOGGING__AIRFLOW_WORKER_LOG_GROUP_ARN'',
      ''MWAA__LOGGING__AIRFLOW_WORKER_LOG_LEVEL'',
      ''MWAA__LOGGING__AIRFLOW_WORKER_LOGS_ENABLED'',
      ''MWAA__LOGGING__AIRFLOW_SCHEDULER_LOG_GROUP_ARN'',
      ''MWAA__LOGGING__AIRFLOW_SCHEDULER_LOG_LEVEL'',
      ''MWAA__LOGGING__AIRFLOW_SCHEDULER_LOGS_ENABLED'',
      ''MWAA__LOGGING__AIRFLOW_WEBSERVER_LOG_GROUP_ARN'',
      ''MWAA__LOGGING__AIRFLOW_WEBSERVER_LOG_LEVEL'',
      ''MWAA__LOGGING__AIRFLOW_WEBSERVER_LOGS_ENABLED'',
      ''MWAA__LOGGING__AIRFLOW_TRIGGERER_LOG_GROUP_ARN'',
      ''MWAA__LOGGING__AIRFLOW_TRIGGERER_LOG_LEVEL'',
      ''MWAA__LOGGING__AIRFLOW_TRIGGERER_LOGS_ENABLED'']"
    by (rule consulted_variables_literal)
qed

theorem configuration_determined_by_consulted_variables_and_home_witness:
  "list_all (\<lambda>v. home_a_environ v = (home_a_environ(''PATH'' \<mapsto> ''/usr/bin'')) v)
     consulted_variables \<and>
   home_a_environ ''MWAA__LOGGING__AIRFLOW_TASK_LOG_GROUP_ARN'' = Some ''arn:task'' \<and>
   BASE_LOG_FOLDER tilde_imported = ''~/logs'' \<and>
   home_a_environ ''HOME'' = (home_a_environ(''PATH'' \<mapsto> ''/usr/bin'')) ''HOME'' \<and>
   home_a_environ ''PATH'' \<noteq> (home_a_environ(''PATH'' \<mapsto> ''/usr/bin'')) ''PATH'' \<and>
   run_module tilde_imported home_a_environ = Inr (home_config ''/home/a/logs'') \<and>
   run_module tilde_imported (home_a_environ(''PATH'' \<mapsto> ''/usr/bin'')) =
     Inr (home_config ''/home/a/logs'') \<and>
   run_module tilde_imported (home_a_environ |` (set consulted_variables \<union> {''HOME''})) =
     Inr (home_config ''/home/a/logs'') \<and>
   list_all (\<lambda>v. task_environ v = home_b_environ v) consulted_variables \<and>
   BASE_LOG_FOLDER example_imported = ''/usr/local/airflow/logs'' \<and>
   task_environ ''HOME'' \<noteq> home_b_environ ''HOME'' \<and>
   run_module example_imported task_environ = Inr task_config \<and>
   run_module example_imported home_b_environ = Inr task_config \<and>
   run_module example_imported (task_environ |` set consulted_variables) = Inr task_config"
proof -
  let ?p = "home_a_environ(''PATH'' \<mapsto> ''/usr/bin'')"
  have a1: "\<forall>v \<in> set consulted_variables. home_a_environ v = ?p v"
    by (simp add: consulted_variables_literal)
  have arn: "home_a_environ ''MWAA__LOGGING__AIRFLOW_TASK_LOG_GROUP_ARN'' = Some ''arn:task''"
    by (simp add: home_a_environ_def task_environ_def)
  have f1: "BASE_LOG_FOLDER tilde_imported = ''~/logs''"
    by (simp add: tilde_imported_def)
  have h1: "home_a_environ ''HOME'' = ?p ''HOME''"
    by simp
  have p1: "home_a_environ ''PATH'' \<noteq> ?p ''PATH''"
    by (simp add: home_a_environ_def task_environ_def)
  have a2: "\<forall>v \<in> set consulted_variables. task_environ v = home_b_environ v"
    by (simp add: consulted_variables_literal home_b_environ_def)
  have f2: "BASE_LOG_FOLDER example_imported = ''/usr/local/airflow/logs''"
    by (simp add: example_imported_def)
  have n2: "\<not> (BASE_LOG_FOLDER example_imported = ''~'' \<or>
      take 2 (BASE_LOG_FOLDER example_imported) = ''~/'')"
    by (simp add: f2)
  have h2: "task_environ ''HOME'' \<noteq> home_b_environ ''HOME''"
    by (simp add: home_b_environ_def task_environ_def)
  note t = configuration_determined_by_consulted_variables_and_home
  from a1 h1 have hyp1: "(\<forall>v \<in> set consulted_variables. home_a_environ v = ?p v) \<and>
      ((\<exists>arn. home_a_environ ''MWAA__LOGGING__AIRFLOW_TASK_LOG_GROUP_ARN'' = Some arn \<and> arn \<noteq> []) \<and>
       (BASE_LOG_FOLDER tilde_imported = ''~'' \<or> take 2 (BASE_LOG_FOLDER tilde_imported) = ''~/'') \<longrightarrow>
         home_a_environ ''HOME'' = ?p ''HOME'')"
    by blast
  have "run_module tilde_imported home_a_environ = run_module tilde_imported ?p"
    by (rule t [where env = home_a_environ and env' = ?p and imp = tilde_imported,
          THEN conjunct1, THEN mp, OF hyp1])
  then have r1: "run_module tilde_imported ?p = Inr (home_config ''/home/a/logs'')"
    by (simp add: more_example_runs(2))
  have r2: "run_module tilde_imported (home_a_environ |` (set consulted_variables \<union> {''HOME''}))
      = Inr (home_config ''/home/a/logs'')"
    using t [where env = home_a_environ and imp = tilde_imported,
        THEN conjunct2, THEN conjunct1]
    by (simp only: more_example_runs(2))
  from a2 n2 have hyp2: "(\<forall>v \<in> set consulted_variables. task_environ v = home_b_environ v) \<and>
      ((\<exists>arn. task_environ ''MWAA__LOGGING__AIRFLOW_TASK_LOG_GROUP_ARN'' = Some arn \<and> arn \<noteq> []) \<and>
       (BASE_LOG_FOLDER example_imported = ''~'' \<or>
        take 2 (BASE_LOG_FOLDER example_imported) = ''~/'') \<longrightarrow>
         task_environ ''HOME'' = home_b_environ ''HOME'')"
    by blast
  have "run_module example_imported task_environ = run_module example_imported home_b_environ"
    by (rule t [where env = task_environ and env' = home_b_environ and imp = example_imported,
          THEN conjunct1, THEN mp, OF hyp2])
  then have r3: "run_module example_imported home_b_environ = Inr task_config"
    by (simp add: example_runs(1))
  have r4: "run_module example_imported (task_environ |` set consulted_variables) =
      Inr task_config"
    using t [where env = task_environ and imp = example_imported,
        THEN conjunct2, THEN conjunct2, THEN conjunct1, rule_format, OF n2]
    by (simp only: example_runs(1))
  from a1 have l1: "list_all (\<lambda>v. home_a_environ v = ?p v) consulted_variables"
    by (simp only: list_all_iff)
  from a2 have l2: "list_all (\<lambda>v. task_environ v = home_b_environ v) consulted_variables"
    by (simp only: list_all_iff)
  from l1 arn f1 h1 p1 more_example_runs(2) r1 r2 l2 f2 h2 example_runs(1) r3 r4
  show ?thesis
    by (intro conjI)
qed

section \<open>No entry is removed\<close>

text \<open>
  Claim C7. After a run of the module that completes, every top-level key, every
  handler key and every logger key of the default configuration is a key of the
  configuration built: the run adds and overwrites entries and removes none. The
  top-level keys are the same as before.
\<close>

theorem no_entry_removed:
  assumes "run_module imp env = Inr cfg"
  shows "fst ` set (DEFAULT_LOGGING_CONFIG imp) \<subseteq> dom (entries cfg) \<and>
         dom (handlers_of (PyDict (DEFAULT_LOGGING_CONFIG imp))) \<subseteq> dom (handlers_of cfg) \<and>
         dom (loggers_of (PyDict (DEFAULT_LOGGING_CONFIG imp))) \<subseteq> dom (loggers_of cfg) \<and>
         dom (entries cfg) = fst ` set (DEFAULT_LOGGING_CONFIG imp)"
proof -
  have t: "dom (entries cfg) = fst ` set (DEFAULT_LOGGING_CONFIG imp)"
    using assms by (rule run_module_top_keys)
  have h: "dom (handlers_of (PyDict (DEFAULT_LOGGING_CONFIG imp))) \<subseteq> dom (handlers_of cfg)"
  proof
    fix k assume "k \<in> dom (handlers_of (PyDict (DEFAULT_LOGGING_CONFIG imp)))"
    then obtain y where y: "handlers_of (PyDict (DEFAULT_LOGGING_CONFIG imp)) k = Some y"
      by blast
    from H_all_mono [where imp = imp and env = env and k = k and y = y
        and H = "handlers_of (PyDict (DEFAULT_LOGGING_CONFIG imp))", OF y] show "k \<in> dom (handlers_of cfg)"
      by (auto simp: run_module_handlers [OF assms])
  qed
  have l: "dom (loggers_of (PyDict (DEFAULT_LOGGING_CONFIG imp))) \<subseteq> dom (loggers_of cfg)"
  proof
    fix k assume "k \<in> dom (loggers_of (PyDict (DEFAULT_LOGGING_CONFIG imp)))"
    then obtain y where y: "loggers_of (PyDict (DEFAULT_LOGGING_CONFIG imp)) k = Some y"
      by blast
    from L_all_mono [where env = env and k = k and y = y
        and L = "loggers_of (PyDict (DEFAULT_LOGGING_CONFIG imp))", OF y] show "k \<in> dom (loggers_of cfg)"
      by (auto simp: run_module_loggers [OF assms])
  qed
  from t h l show ?thesis by simp
qed

theorem no_entry_removed_witness:
  "run_module example_imported task_environ = Inr task_config \<and>
   ''version'' \<in> dom (entries task_config) \<and>
   ''task'' \<in> dom (handlers_of task_config) \<and>
   ''console'' \<in> dom (handlers_of task_config) \<and>
   ''airflow.task'' \<in> dom (loggers_of task_config)"
proof -
  note c = no_entry_removed [OF example_runs(1)]
  have "''version'' \<in> fst ` set (DEFAULT_LOGGING_CONFIG example_imported)"
    by (simp add: example_imported_def)
  with c have 1: "''version'' \<in> dom (entries task_config)" by blast
  have "''task'' \<in> dom (handlers_of (PyDict (DEFAULT_LOGGING_CONFIG example_imported)))"
    "''console'' \<in> dom (handlers_of (PyDict (DEFAULT_LOGGING_CONFIG example_imported)))"
    by (simp_all add: example_imported_def handlers_of_def section_of_def)
  with c have 2: "''task'' \<in> dom (handlers_of task_config)"
    and 3: "''console'' \<in> dom (handlers_of task_config)" by blast+
  have "''airflow.task'' \<in> dom (loggers_of (PyDict (DEFAULT_LOGGING_CONFIG example_imported)))"
    by (simp add: example_imported_def loggers_of_def section_of_def)
  with c have 4: "''airflow.task'' \<in> dom (loggers_of task_config)" by blast
  from example_runs(1) 1 2 3 4 show ?thesis by simp
qed

section \<open>The log group ARN alone decides whether entries are written\<close>

text \<open>
  Claim C8. For every log source (task, dagprocessor, Worker, Scheduler, WebServer,
  Triggerer) with its handler keys and logger keys, after a run of the module that
  completes: if the source's \<^verbatim>\<open>LOG_GROUP_ARN\<close> variable is set to a non-empty value
  while its \<^verbatim>\<open>LOGS_ENABLED\<close> variable is absent or is not \<^verbatim>\<open>true\<close> in any mix of
  upper and lower case, each of its handlers is there with \<^verbatim>\<open>enabled\<close> false and
  that log group ARN, and each of its loggers is there with the level of its
  \<^verbatim>\<open>LOG_LEVEL\<close> variable; if the ARN variable is unset or empty, its handler keys
  and logger keys hold what the default configuration holds, whatever
  \<^verbatim>\<open>LOGS_ENABLED\<close> is.
\<close>

theorem entries_gated_by_log_group_arn:
  assumes "run_module imp env = Inr cfg" and "(S, hs, ls) \<in> set source_entries"
  shows "(\<forall>arn. env (''MWAA__LOGGING__AIRFLOW_'' @ upper S @ ''_LOG_GROUP_ARN'') = Some arn \<and>
            arn \<noteq> [] \<and>
            lower (environ_get env
              (''MWAA__LOGGING__AIRFLOW_'' @ upper S @ ''_LOGS_ENABLED'') ''false'') \<noteq> ''true'' \<longrightarrow>
            (\<forall>h \<in> set hs. \<exists>d. handlers_of cfg h = Some (PyDict d) \<and>
               map_of d ''enabled'' = Some (PyBool False) \<and>
               map_of d ''log_group_arn'' = Some (PyStr arn)) \<and>
            (\<forall>l \<in> set ls. \<exists>d. loggers_of cfg l = Some (PyDict d) \<and>
               map_of d ''level'' = Some (PyStr (environ_get env
                 (''MWAA__LOGGING__AIRFLOW_'' @ upper S @ ''_LOG_LEVEL'') ''INFO'')))) \<and>
         (env (''MWAA__LOGGING__AIRFLOW_'' @ upper S @ ''_LOG_GROUP_ARN'') = None \<or>
          env (''MWAA__LOGGING__AIRFLOW_'' @ upper S @ ''_LOG_GROUP_ARN'') = Some [] \<longrightarrow>
            (\<forall>h \<in> set hs.
               handlers_of cfg h = handlers_of (PyDict (DEFAULT_LOGGING_CONFIG imp)) h) \<and>
            (\<forall>l \<in> set ls.
               loggers_of cfg l = loggers_of (PyDict (DEFAULT_LOGGING_CONFIG imp)) l))"
proof -
  note after = run_module_handlers [OF assms(1)] run_module_loggers [OF assms(1)]
    H_all_apply L_all_apply
  from assms(2) show ?thesis
  proof (cases rule: source_entries_cases)
    case task
    show ?thesis
    proof (cases "truthy (env ''MWAA__LOGGING__AIRFLOW_TASK_LOG_GROUP_ARN'')")
      case True
      then have ne: "env ''MWAA__LOGGING__AIRFLOW_TASK_LOG_GROUP_ARN'' \<noteq> None"
        "env ''MWAA__LOGGING__AIRFLOW_TASK_LOG_GROUP_ARN'' \<noteq> Some []"
        by (auto simp: truthy_def split: option.splits)
      from True run_module_task_logger [OF assms(1)] obtain e where
        e: "loggers_of (PyDict (DEFAULT_LOGGING_CONFIG imp)) ''airflow.task'' = Some (PyDict e)"
        by (auto simp: get_mwaa_logging_env_vars_def name_simps)
      have entries:
        "handlers_of cfg ''task'' = Some (task_handler imp env)"
        "loggers_of cfg ''airflow.task'' = Some (PyDict (dict_store ''level''
           (PyStr (environ_get env ''MWAA__LOGGING__AIRFLOW_TASK_LOG_LEVEL'' ''INFO'')) e))"
        by (simp_all add: after True e)
      show ?thesis unfolding task
        by (simp add: entries ne entry_defs name_simps str_or_none_def map_of_dict_store)
    next
      case False
      then have vac: "(env ''MWAA__LOGGING__AIRFLOW_TASK_LOG_GROUP_ARN'' = Some arn \<and> arn \<noteq> [] \<and> P) = False"
        for arn P
        by (auto simp: truthy_def split: option.splits)
      have entries:
        "handlers_of cfg ''task'' = handlers_of (PyDict (DEFAULT_LOGGING_CONFIG imp)) ''task''"
        "loggers_of cfg ''airflow.task'' = loggers_of (PyDict (DEFAULT_LOGGING_CONFIG imp)) ''airflow.task''"
        by (simp_all add: after False)
      show ?thesis unfolding task
        by (simp add: entries vac name_simps)
    qed
  next
    case dag
    show ?thesis
    proof (cases "truthy (env ''MWAA__LOGGING__AIRFLOW_DAGPROCESSOR_LOG_GROUP_ARN'')")
      case True
      then have ne: "env ''MWAA__LOGGING__AIRFLOW_DAGPROCESSOR_LOG_GROUP_ARN'' \<noteq> None"
        "env ''MWAA__LOGGING__AIRFLOW_DAGPROCESSOR_LOG_GROUP_ARN'' \<noteq> Some []"
        by (auto simp: truthy_def split: option.splits)
      have entries:
        "handlers_of cfg ''processor_manager'' = Some (processor_manager_handler imp env)"
        "handlers_of cfg ''processor'' = Some (processor_handler imp env)"
        "loggers_of cfg ''airflow.processor_manager'' =
          Some (subprocess_logger env ''dagprocessor'' ''processor_manager'')"
        "loggers_of cfg ''airflow.processor'' =
          Some (subprocess_logger env ''dagprocessor'' ''processor'')"
        by (simp_all add: after True)
      show ?thesis unfolding dag
        by (simp add: entries ne entry_defs name_simps str_or_none_def map_of_dict_store)
    next
      case False
      then have vac: "(env ''MWAA__LOGGING__AIRFLOW_DAGPROCESSOR_LOG_GROUP_ARN'' = Some arn \<and> arn \<noteq> [] \<and> P) = False"
        for arn P
        by (auto simp: truthy_def split: option.splits)
      have entries:
        "handlers_of cfg ''processor_manager'' = handlers_of (PyDict (DEFAULT_LOGGING_CONFIG imp)) ''processor_manager''"
        "handlers_of cfg ''processor'' = handlers_of (PyDict (DEFAULT_LOGGING_CONFIG imp)) ''processor''"
        "loggers_of cfg ''airflow.processor_manager'' = loggers_of (PyDict (DEFAULT_LOGGING_CONFIG imp)) ''airflow.processor_manager''"
        "loggers_of cfg ''airflow.processor'' = loggers_of (PyDict (DEFAULT_LOGGING_CONFIG imp)) ''airflow.processor''"
        by (simp_all add: after False)
      show ?thesis unfolding dag
        by (simp add: entries vac name_simps)
    qed
  next
    case worker
    show ?thesis
    proof (cases "truthy (env ''MWAA__LOGGING__AIRFLOW_WORKER_LOG_GROUP_ARN'')")
      case True
      then have ne: "env ''MWAA__LOGGING__AIRFLOW_WORKER_LOG_GROUP_ARN'' \<noteq> None"
        "env ''MWAA__LOGGING__AIRFLOW_WORKER_LOG_GROUP_ARN'' \<noteq> Some []"
        by (auto simp: truthy_def split: option.splits)
      have entries:
        "handlers_of cfg ''mwaa_worker'' = Some (subprocess_handler imp env ''Worker'' ''Worker'')"
        "handlers_of cfg ''mwaa_worker_requirements'' = Some (subprocess_handler imp env ''Worker'' ''Worker_requirements'')"
        "loggers_of cfg ''mwaa.worker'' =
          Some (subprocess_logger env ''Worker'' ''mwaa_worker'')"
        "loggers_of cfg ''mwaa.worker_requirements'' =
          Some (subprocess_logger env ''Worker'' ''mwaa_worker_requirements'')"
        by (simp_all add: after True)
      show ?thesis unfolding worker
        by (simp add: entries ne entry_defs name_simps str_or_none_def map_of_dict_store)
    next
      case False
      then have vac: "(env ''MWAA__LOGGING__AIRFLOW_WORKER_LOG_GROUP_ARN'' = Some arn \<and> arn \<noteq> [] \<and> P) = False"
        for arn P
        by (auto simp: truthy_def split: option.splits)
      have entries:
        "handlers_of cfg ''mwaa_worker'' = handlers_of (PyDict (DEFAULT_LOGGING_CONFIG imp)) ''mwaa_worker''"
        "handlers_of cfg ''mwaa_worker_requirements'' = handlers_of (PyDict (DEFAULT_LOGGING_CONFIG imp)) ''mwaa_worker_requirements''"
        "loggers_of cfg ''mwaa.worker'' = loggers_of (PyDict (DEFAULT_LOGGING_CONFIG imp)) ''mwaa.worker''"
        "loggers_of cfg ''mwaa.worker_requirements'' = loggers_of (PyDict (DEFAULT_LOGGING_CONFIG imp)) ''mwaa.worker_requirements''"
        by (simp_all add: after False)
      show ?thesis unfolding worker
        by (simp add: entries vac name_simps)
    qed
  next
    case scheduler
    show ?thesis
    proof (cases "truthy (env ''MWAA__LOGGING__AIRFLOW_SCHEDULER_LOG_GROUP_ARN'')")
      case True
      then have ne: "env ''MWAA__LOGGING__AIRFLOW_SCHEDULER_LOG_GROUP_ARN'' \<noteq> None"
        "env ''MWAA__LOGGING__AIRFLOW_SCHEDULER_LOG_GROUP_ARN'' \<noteq> Some []"
        by (auto simp: truthy_def split: option.splits)
      have entries:
        "handlers_of cfg ''mwaa_scheduler'' = Some (subprocess_handler imp env ''Scheduler'' ''Scheduler'')"
        "handlers_of cfg ''mwaa_scheduler_requirements'' = Some (subprocess_handler imp env ''Scheduler'' ''Scheduler_requirements'')"
        "loggers_of cfg ''mwaa.scheduler'' =
          Some (subprocess_logger env ''Scheduler'' ''mwaa_scheduler'')"
        "loggers_of cfg ''mwaa.scheduler_requirements'' =
          Some (subprocess_logger env ''Scheduler'' ''mwaa_scheduler_requirements'')"
        by (simp_all add: after True)
      show ?thesis unfolding scheduler
        by (simp add: entries ne entry_defs name_simps str_or_none_def map_of_dict_store)
    next
      case False
      then have vac: "(env ''MWAA__LOGGING__AIRFLOW_SCHEDULER_LOG_GROUP_ARN'' = Some arn \<and> arn \<noteq> [] \<and> P) = False"
        for arn P
        by (auto simp: truthy_def split: option.splits)
      have entries:
        "handlers_of cfg ''mwaa_scheduler'' = handlers_of (PyDict (DEFAULT_LOGGING_CONFIG imp)) ''mwaa_scheduler''"
        "handlers_of cfg ''mwaa_scheduler_requirements'' = handlers_of (PyDict (DEFAULT_LOGGING_CONFIG imp)) ''mwaa_scheduler_requirements''"
        "loggers_of cfg ''mwaa.scheduler'' = loggers_of (PyDict (DEFAULT_LOGGING_CONFIG imp)) ''mwaa.scheduler''"
        "loggers_of cfg ''mwaa.scheduler_requirements'' = loggers_of (PyDict (DEFAULT_LOGGING_CONFIG imp)) ''mwaa.scheduler_requirements''"
        by (simp_all add: after False)
      show ?thesis unfolding scheduler
        by (simp add: entries vac name_simps)
    qed
  next
    case webserver
    show ?thesis
    proof (cases "truthy (env ''MWAA__LOGGING__AIRFLOW_WEBSERVER_LOG_GROUP_ARN'')")
      case True
      then have ne: "env ''MWAA__LOGGING__AIRFLOW_WEBSERVER_LOG_GROUP_ARN'' \<noteq> None"
        "env ''MWAA__LOGGING__AIRFLOW_WEBSERVER_LOG_GROUP_ARN'' \<noteq> Some []"
        by (auto simp: truthy_def split: option.splits)
      have entries:
        "handlers_of cfg ''mwaa_webserver'' = Some (subprocess_handler imp env ''WebServer'' ''WebServer'')"
        "handlers_of cfg ''mwaa_webserver_requirements'' = Some (subprocess_handler imp env ''WebServer'' ''WebServer_requirements'')"
        "loggers_of cfg ''mwaa.webserver'' =
          Some (subprocess_logger env ''WebServer'' ''mwaa_webserver'')"
        "loggers_of cfg ''mwaa.webserver_requirements'' =
          Some (subprocess_logger env ''WebServer'' ''mwaa_webserver_requirements'')"
        by (simp_all add: after True)
      show ?thesis unfolding webserver
        by (simp add: entries ne entry_defs name_simps str_or_none_def map_of_dict_store)
    next
      case False
      then have vac: "(env ''MWAA__LOGGING__AIRFLOW_WEBSERVER_LOG_GROUP_ARN'' = Some arn \<and> arn \<noteq> [] \<and> P) = False"
        for arn P
        by (auto simp: truthy_def split: option.splits)
      have entries:
        "handlers_of cfg ''mwaa_webserver'' = handlers_of (PyDict (DEFAULT_LOGGING_CONFIG imp)) ''mwaa_webserver''"
        "handlers_of cfg ''mwaa_webserver_requirements'' = handlers_of (PyDict (DEFAULT_LOGGING_CONFIG imp)) ''mwaa_webserver_requirements''"
        "loggers_of cfg ''mwaa.webserver'' = loggers_of (PyDict (DEFAULT_LOGGING_CONFIG imp)) ''mwaa.webserver''"
        "loggers_of cfg ''mwaa.webserver_requirements'' = loggers_of (PyDict (DEFAULT_LOGGING_CONFIG imp)) ''mwaa.webserver_requirements''"
        by (simp_all add: after False)
      show ?thesis unfolding webserver
        by (simp add: entries vac name_simps)
    qed
  next
    case triggerer
    show ?thesis
    proof (cases "truthy (env ''MWAA__LOGGING__AIRFLOW_TRIGGERER_LOG_GROUP_ARN'')")
      case True
      then have ne: "env ''MWAA__LOGGING__AIRFLOW_TRIGGERER_LOG_GROUP_ARN'' \<noteq> None"
        "env ''MWAA__LOGGING__AIRFLOW_TRIGGERER_LOG_GROUP_ARN'' \<noteq> Some []"
        by (auto simp: truthy_def split: option.splits)
      have entries:
        "handlers_of cfg ''mwaa_triggerer'' = Some (subprocess_handler imp env ''Triggerer'' ''Triggerer'')"
        "handlers_of cfg ''mwaa_triggerer_requirements'' = Some (subprocess_handler imp env ''Triggerer'' ''Triggerer_requirements'')"
        "loggers_of cfg ''mwaa.triggerer'' =
          Some (subprocess_logger env ''Triggerer'' ''mwaa_triggerer'')"
        "loggers_of cfg ''mwaa.triggerer_requirements'' =
          Some (subprocess_logger env ''Triggerer'' ''mwaa_triggerer_requirements'')"
        by (simp_all add: after True)
      show ?thesis unfolding triggerer
        by (simp add: entries ne entry_defs name_simps str_or_none_def map_of_dict_store)
    next
      case False
      then have vac: "(env ''MWAA__LOGGING__AIRFLOW_TRIGGERER_LOG_GROUP_ARN'' = Some arn \<and> arn \<noteq> [] \<and> P) = False"
        for arn P
        by (auto simp: truthy_def split: option.splits)
      have entries:
        "handlers_of cfg ''mwaa_triggerer'' = handlers_of (PyDict (DEFAULT_LOGGING_CONFIG imp)) ''mwaa_triggerer''"
        "handlers_of cfg ''mwaa_triggerer_requirements'' = handlers_of (PyDict (DEFAULT_LOGGING_CONFIG imp)) ''mwaa_triggerer_requirements''"
        "loggers_of cfg ''mwaa.triggerer'' = loggers_of (PyDict (DEFAULT_LOGGING_CONFIG imp)) ''mwaa.triggerer''"
        "loggers_of cfg ''mwaa.triggerer_requirements'' = loggers_of (PyDict (DEFAULT_LOGGING_CONFIG imp)) ''mwaa.triggerer_requirements''"
        by (simp_all add: after False)
      show ?thesis unfolding triggerer
        by (simp add: entries vac name_simps)
    qed
  qed
qed

theorem entries_gated_by_log_group_arn_witness:
  "run_module example_imported worker_environ = Inr worker_config \<and>
   worker_environ ''MWAA__LOGGING__AIRFLOW_WORKER_LOG_GROUP_ARN'' = Some ''arn:worker'' \<and>
   worker_environ ''MWAA__LOGGING__AIRFLOW_WORKER_LOGS_ENABLED'' = Some ''yes'' \<and>
   (\<exists>d. handlers_of worker_config ''mwaa_worker'' = Some (PyDict d) \<and>
      map_of d ''enabled'' = Some (PyBool False) \<and>
      map_of d ''log_group_arn'' = Some (PyStr ''arn:worker'')) \<and>
   (\<exists>d. loggers_of worker_config ''mwaa.worker_requirements'' = Some (PyDict d) \<and>
      map_of d ''level'' = Some (PyStr ''ERROR'')) \<and>
   worker_environ ''MWAA__LOGGING__AIRFLOW_SCHEDULER_LOG_GROUP_ARN'' = None \<and>
   worker_environ ''MWAA__LOGGING__AIRFLOW_SCHEDULER_LOGS_ENABLED'' = Some ''true'' \<and>
   handlers_of worker_config ''mwaa_scheduler'' = None \<and>
   loggers_of worker_config ''mwaa.scheduler_requirements'' = None"
proof -
  have w: "(''Worker'', [''mwaa_worker'', ''mwaa_worker_requirements''],
      [''mwaa.worker'', ''mwaa.worker_requirements'']) \<in> set source_entries"
    and s: "(''Scheduler'', [''mwaa_scheduler'', ''mwaa_scheduler_requirements''],
      [''mwaa.scheduler'', ''mwaa.scheduler_requirements'']) \<in> set source_entries"
    by (simp_all add: source_entries_def)
  have env:
    "worker_environ ''MWAA__LOGGING__AIRFLOW_WORKER_LOG_GROUP_ARN'' = Some ''arn:worker''"
    "worker_environ ''MWAA__LOGGING__AIRFLOW_WORKER_LOGS_ENABLED'' = Some ''yes''"
    "worker_environ ''MWAA__LOGGING__AIRFLOW_WORKER_LOG_LEVEL'' = Some ''ERROR''"
    "worker_environ ''MWAA__LOGGING__AIRFLOW_SCHEDULER_LOG_GROUP_ARN'' = None"
    "worker_environ ''MWAA__LOGGING__AIRFLOW_SCHEDULER_LOGS_ENABLED'' = Some ''true''"
    by (simp_all add: worker_environ_def)
  have p: "worker_environ (''MWAA__LOGGING__AIRFLOW_'' @ upper ''Worker'' @ ''_LOG_GROUP_ARN'') =
        Some ''arn:worker'' \<and> ''arn:worker'' \<noteq> [] \<and>
      lower (environ_get worker_environ
        (''MWAA__LOGGING__AIRFLOW_'' @ upper ''Worker'' @ ''_LOGS_ENABLED'') ''false'') \<noteq> ''true''"
    by (simp add: name_simps env environ_get_def lower_def lower_char_def)
  have q: "worker_environ (''MWAA__LOGGING__AIRFLOW_'' @ upper ''Scheduler'' @ ''_LOG_GROUP_ARN'')
        = None \<or>
      worker_environ (''MWAA__LOGGING__AIRFLOW_'' @ upper ''Scheduler'' @ ''_LOG_GROUP_ARN'')
        = Some []"
    by (simp add: name_simps env)
  note cw = entries_gated_by_log_group_arn [OF example_runs(3) w, THEN conjunct1,
      rule_format, OF p]
  note cs = entries_gated_by_log_group_arn [OF example_runs(3) s, THEN conjunct2,
      rule_format, OF q]
  have lvl: "environ_get worker_environ
      (''MWAA__LOGGING__AIRFLOW_'' @ upper ''Worker'' @ ''_LOG_LEVEL'') ''INFO'' = ''ERROR''"
    by (simp add: name_simps env environ_get_def)
  have none: "handlers_of (PyDict (DEFAULT_LOGGING_CONFIG example_imported)) ''mwaa_scheduler'' = None"
    "loggers_of (PyDict (DEFAULT_LOGGING_CONFIG example_imported))
       ''mwaa.scheduler_requirements'' = None"
    by (simp_all add: example_imported_def handlers_of_def loggers_of_def section_of_def)
  from cw have 1: "\<exists>d. handlers_of worker_config ''mwaa_worker'' = Some (PyDict d) \<and>
      map_of d ''enabled'' = Some (PyBool False) \<and>
      map_of d ''log_group_arn'' = Some (PyStr ''arn:worker'')"
    by simp
  from cw have 2: "\<exists>d. loggers_of worker_config ''mwaa.worker_requirements'' = Some (PyDict d) \<and>
      map_of d ''level'' = Some (PyStr ''ERROR'')"
    unfolding lvl by simp
  from cs none have 3: "handlers_of worker_config ''mwaa_scheduler'' = None"
    and 4: "loggers_of worker_config ''mwaa.scheduler_requirements'' = None"
    by simp_all
  from example_runs(3) env 1 2 3 4 show ?thesis
    by (intro conjI)
qed

section \<open>A component and its requirements logger\<close>

text \<open>
  Claim C9. For each component \<open>C\<close> among Worker, Scheduler, WebServer and
  Triggerer, after a run of the module that completes with the \<open>C\<close> log group
  variable set to a non-empty value: the handlers \<^verbatim>\<open>mwaa_<c>\<close> and
  \<^verbatim>\<open>mwaa_<c>_requirements\<close> carry the same log group ARN, KMS key and enabled flag,
  those of \<open>C\<close>, and differ only in the stream name prefix and the logs source; the
  loggers \<^verbatim>\<open>mwaa.<c>\<close> and \<^verbatim>\<open>mwaa.<c>_requirements\<close> carry the same level, that of
  \<open>C\<close>, each naming its own handler. With the variable unset or empty none of the
  four entries is written. There are no variables of the requirements logger:
  setting or unsetting \<^verbatim>\<open>MWAA__LOGGING__AIRFLOW_<C>_REQUIREMENTS_LOG_GROUP_ARN\<close>,
  \<^verbatim>\<open>..._LOG_LEVEL\<close> or \<^verbatim>\<open>..._LOGS_ENABLED\<close> does not change the outcome.
\<close>

theorem requirements_logger_shares_component_settings:
  assumes "component \<in> set [''Worker'', ''Scheduler'', ''WebServer'', ''Triggerer'']"
  shows "(\<forall>cfg arn. run_module imp env = Inr cfg \<and>
            env (''MWAA__LOGGING__AIRFLOW_'' @ upper component @ ''_LOG_GROUP_ARN'') = Some arn \<and>
            arn \<noteq> [] \<longrightarrow>
            handlers_of cfg (''mwaa_'' @ lower component) = Some (PyDict
              [(''class'', PyStr (qualified_name imp SubprocessLogHandler)),
               (''formatter'', PyStr ''airflow''),
               (''filters'', PyList [PyStr ''mask_secrets'']),
               (''log_group_arn'', PyStr arn),
               (''kms_key_arn'', str_or_none (env ''MWAA__CORE__KMS_KEY_ARN'')),
               (''stream_name_prefix'', PyStr (lower component)),
               (''logs_source'', PyStr component),
               (''enabled'', PyBool (lower (environ_get env
                   (''MWAA__LOGGING__AIRFLOW_'' @ upper component @ ''_LOGS_ENABLED'') ''false'')
                   = ''true''))]) \<and>
            handlers_of cfg (''mwaa_'' @ lower component @ ''_requirements'') = Some (PyDict
              [(''class'', PyStr (qualified_name imp SubprocessLogHandler)),
               (''formatter'', PyStr ''airflow''),
               (''filters'', PyList [PyStr ''mask_secrets'']),
               (''log_group_arn'', PyStr arn),
               (''kms_key_arn'', str_or_none (env ''MWAA__CORE__KMS_KEY_ARN'')),
               (''stream_name_prefix'', PyStr (lower component @ ''_requirements'')),
               (''logs_source'', PyStr (component @ ''_requirements'')),
               (''enabled'', PyBool (lower (environ_get env
                   (''MWAA__LOGGING__AIRFLOW_'' @ upper component @ ''_LOGS_ENABLED'') ''false'')
                   = ''true''))]) \<and>
            loggers_of cfg (''mwaa.'' @ lower component) = Some (PyDict
              [(''handlers'', PyList [PyStr (''mwaa_'' @ lower component)]),
               (''level'', PyStr (environ_get env
                   (''MWAA__LOGGING__AIRFLOW_'' @ upper component @ ''_LOG_LEVEL'') ''INFO'')),
               (''propagate'', PyBool False)]) \<and>
            loggers_of cfg (''mwaa.'' @ lower component @ ''_requirements'') = Some (PyDict
              [(''handlers'', PyList [PyStr (''mwaa_'' @ lower component @ ''_requirements'')]),
               (''level'', PyStr (environ_get env
                   (''MWAA__LOGGING__AIRFLOW_'' @ upper component @ ''_LOG_LEVEL'') ''INFO'')),
               (''propagate'', PyBool False)])) \<and>
         (\<forall>cfg. run_module imp env = Inr cfg \<and>
            \<not> truthy (env (''MWAA__LOGGING__AIRFLOW_'' @ upper component @ ''_LOG_GROUP_ARN'')) \<longrightarrow>
            handlers_of cfg (''mwaa_'' @ lower component) =
              handlers_of (PyDict (DEFAULT_LOGGING_CONFIG imp)) (''mwaa_'' @ lower component) \<and>
            handlers_of cfg (''mwaa_'' @ lower component @ ''_requirements'') =
              handlers_of (PyDict (DEFAULT_LOGGING_CONFIG imp))
                (''mwaa_'' @ lower component @ ''_requirements'') \<and>
            loggers_of cfg (''mwaa.'' @ lower component) =
              loggers_of (PyDict (DEFAULT_LOGGING_CONFIG imp)) (''mwaa.'' @ lower component) \<and>
            loggers_of cfg (''mwaa.'' @ lower component @ ''_requirements'') =
              loggers_of (PyDict (DEFAULT_LOGGING_CONFIG imp))
                (''mwaa.'' @ lower component @ ''_requirements'')) \<and>
         (\<forall>v x. v \<in> {''MWAA__LOGGING__AIRFLOW_'' @ upper component @ ''_REQUIREMENTS_LOG_GROUP_ARN'',
                      ''MWAA__LOGGING__AIRFLOW_'' @ upper component @ ''_REQUIREMENTS_LOG_LEVEL'',
                      ''MWAA__LOGGING__AIRFLOW_'' @ upper component @ ''_REQUIREMENTS_LOGS_ENABLED''}
            \<longrightarrow> run_module imp (env(v := x)) = run_module imp env)"
proof (intro conjI allI impI)
  fix v x
  assume v: "v \<in> {''MWAA__LOGGING__AIRFLOW_'' @ upper component @ ''_REQUIREMENTS_LOG_GROUP_ARN'',
                   ''MWAA__LOGGING__AIRFLOW_'' @ upper component @ ''_REQUIREMENTS_LOG_LEVEL'',
                   ''MWAA__LOGGING__AIRFLOW_'' @ upper component @ ''_REQUIREMENTS_LOGS_ENABLED''}"
  from assms v have "v \<notin> set consulted_variables"
    unfolding consulted_variables_literal by (auto simp: name_simps)
  then have c: "\<forall>w \<in> set consulted_variables. (env(v := x)) w = env w"
    by auto
  from assms v have "v \<noteq> ''HOME''"
    by (auto simp: name_simps)
  then have h: "(env(v := x)) ''HOME'' = env ''HOME''"
    by simp
  show "run_module imp (env(v := x)) = run_module imp env"
    by (rule run_module_cong [OF c]) (simp only: h simp_thms)
next
  fix cfg arn
  assume a: "run_module imp env = Inr cfg \<and>
      env (''MWAA__LOGGING__AIRFLOW_'' @ upper component @ ''_LOG_GROUP_ARN'') = Some arn \<and>
      arn \<noteq> []"
  then have run: "run_module imp env = Inr cfg" by simp
  from a have tr: "truthy (env (''MWAA__LOGGING__AIRFLOW_'' @ upper component @ ''_LOG_GROUP_ARN''))"
    and arn: "str_or_none (env (''MWAA__LOGGING__AIRFLOW_'' @ upper component @ ''_LOG_GROUP_ARN''))
        = PyStr arn"
    by (simp_all add: truthy_def str_or_none_def)
  have req: "lower (component @ ''_requirements'') = lower component @ ''_requirements''"
    by (simp add: lower_def lower_char_def)
  from component_entries [OF run assms] tr have
    h1: "handlers_of cfg (''mwaa_'' @ lower component) =
          Some (subprocess_handler imp env component component)" and
    h2: "handlers_of cfg (''mwaa_'' @ lower component @ ''_requirements'') =
          Some (subprocess_handler imp env component (component @ ''_requirements''))" and
    l1: "loggers_of cfg (''mwaa.'' @ lower component) =
          Some (subprocess_logger env component (''mwaa_'' @ lower component))" and
    l2: "loggers_of cfg (''mwaa.'' @ lower component @ ''_requirements'') =
          Some (subprocess_logger env component (''mwaa_'' @ lower component @ ''_requirements''))"
    by simp_all
  show "handlers_of cfg (''mwaa_'' @ lower component) = Some (PyDict
              [(''class'', PyStr (qualified_name imp SubprocessLogHandler)),
               (''formatter'', PyStr ''airflow''),
               (''filters'', PyList [PyStr ''mask_secrets'']),
               (''log_group_arn'', PyStr arn),
               (''kms_key_arn'', str_or_none (env ''MWAA__CORE__KMS_KEY_ARN'')),
               (''stream_name_prefix'', PyStr (lower component)),
               (''logs_source'', PyStr component),
               (''enabled'', PyBool (lower (environ_get env
                   (''MWAA__LOGGING__AIRFLOW_'' @ upper component @ ''_LOGS_ENABLED'') ''false'')
                   = ''true''))])"
    unfolding h1 subprocess_handler_def arn ..
  show "handlers_of cfg (''mwaa_'' @ lower component @ ''_requirements'') = Some (PyDict
              [(''class'', PyStr (qualified_name imp SubprocessLogHandler)),
               (''formatter'', PyStr ''airflow''),
               (''filters'', PyList [PyStr ''mask_secrets'']),
               (''log_group_arn'', PyStr arn),
               (''kms_key_arn'', str_or_none (env ''MWAA__CORE__KMS_KEY_ARN'')),
               (''stream_name_prefix'', PyStr (lower component @ ''_requirements'')),
               (''logs_source'', PyStr (component @ ''_requirements'')),
               (''enabled'', PyBool (lower (environ_get env
                   (''MWAA__LOGGING__AIRFLOW_'' @ upper component @ ''_LOGS_ENABLED'') ''false'')
                   = ''true''))])"
    unfolding h2 subprocess_handler_def arn req ..
  show "loggers_of cfg (''mwaa.'' @ lower component) = Some (PyDict
              [(''handlers'', PyList [PyStr (''mwaa_'' @ lower component)]),
               (''level'', PyStr (environ_get env
                   (''MWAA__LOGGING__AIRFLOW_'' @ upper component @ ''_LOG_LEVEL'') ''INFO'')),
               (''propagate'', PyBool False)])"
    unfolding l1 subprocess_logger_def ..
  show "loggers_of cfg (''mwaa.'' @ lower component @ ''_requirements'') = Some (PyDict
              [(''handlers'', PyList [PyStr (''mwaa_'' @ lower component @ ''_requirements'')]),
               (''level'', PyStr (environ_get env
                   (''MWAA__LOGGING__AIRFLOW_'' @ upper component @ ''_LOG_LEVEL'') ''INFO'')),
               (''propagate'', PyBool False)])"
    unfolding l2 subprocess_logger_def ..
next
  fix cfg
  assume a: "run_module imp env = Inr cfg \<and>
      \<not> truthy (env (''MWAA__LOGGING__AIRFLOW_'' @ upper component @ ''_LOG_GROUP_ARN''))"
  then have run: "run_module imp env = Inr cfg" by simp
  from a have ntr: "\<not> truthy (env (''MWAA__LOGGING__AIRFLOW_'' @ upper component @ ''_LOG_GROUP_ARN''))"
    by simp
  note e = component_entries [OF run assms]
  from ntr e show "handlers_of cfg (''mwaa_'' @ lower component) =
      handlers_of (PyDict (DEFAULT_LOGGING_CONFIG imp)) (''mwaa_'' @ lower component)"
    by simp
  from ntr e show "handlers_of cfg (''mwaa_'' @ lower component @ ''_requirements'') =
      handlers_of (PyDict (DEFAULT_LOGGING_CONFIG imp))
        (''mwaa_'' @ lower component @ ''_requirements'')"
    by simp
  from ntr e show "loggers_of cfg (''mwaa.'' @ lower component) =
      loggers_of (PyDict (DEFAULT_LOGGING_CONFIG imp)) (''mwaa.'' @ lower component)"
    by simp
  from ntr e show "loggers_of cfg (''mwaa.'' @ lower component @ ''_requirements'') =
      loggers_of (PyDict (DEFAULT_LOGGING_CONFIG imp))
        (''mwaa.'' @ lower component @ ''_requirements'')"
    by simp
qed

theorem requirements_logger_shares_component_settings_witness:
  "''Worker'' \<in> set [''Worker'', ''Scheduler'', ''WebServer'', ''Triggerer''] \<and>
   run_module example_imported worker_environ = Inr worker_config \<and>
   worker_environ ''MWAA__LOGGING__AIRFLOW_WORKER_LOG_GROUP_ARN'' = Some ''arn:worker'' \<and>
   handlers_of worker_config ''mwaa_worker'' = Some (PyDict
     [(''class'', PyStr ''SubprocessLogHandler''),
      (''formatter'', PyStr ''airflow''),
      (''filters'', PyList [PyStr ''mask_secrets'']),
      (''log_group_arn'', PyStr ''arn:worker''),
      (''kms_key_arn'', PyNone),
      (''stream_name_prefix'', PyStr ''worker''),
      (''logs_source'', PyStr ''Worker''),
      (''enabled'', PyBool False)]) \<and>
   handlers_of worker_config ''mwaa_worker_requirements'' = Some (PyDict
     [(''class'', PyStr ''SubprocessLogHandler''),
      (''formatter'', PyStr ''airflow''),
      (''filters'', PyList [PyStr ''mask_secrets'']),
      (''log_group_arn'', PyStr ''arn:worker''),
      (''kms_key_arn'', PyNone),
      (''stream_name_prefix'', PyStr ''worker_requirements''),
      (''logs_source'', PyStr ''Worker_requirements''),
      (''enabled'', PyBool False)]) \<and>
   loggers_of worker_config ''mwaa.worker'' = Some (PyDict
     [(''handlers'', PyList [PyStr ''mwaa_worker'']),
      (''level'', PyStr ''ERROR''),
      (''propagate'', PyBool False)]) \<and>
   loggers_of worker_config ''mwaa.worker_requirements'' = Some (PyDict
     [(''handlers'', PyList [PyStr ''mwaa_worker_requirements'']),
      (''level'', PyStr ''ERROR''),
      (''propagate'', PyBool False)]) \<and>
   handlers_of worker_config ''mwaa_scheduler_requirements'' = None \<and>
   run_module example_imported
     (worker_environ(''MWAA__LOGGING__AIRFLOW_WORKER_REQUIREMENTS_LOG_LEVEL'' := Some ''DEBUG'')) =
     Inr worker_config"
proof -
  have w: "''Worker'' \<in> set [''Worker'', ''Scheduler'', ''WebServer'', ''Triggerer'']"
    and s: "''Scheduler'' \<in> set [''Worker'', ''Scheduler'', ''WebServer'', ''Triggerer'']"
    by simp_all
  have arn: "worker_environ ''MWAA__LOGGING__AIRFLOW_WORKER_LOG_GROUP_ARN'' = Some ''arn:worker''"
    by (simp add: worker_environ_def)
  have p: "run_module example_imported worker_environ = Inr worker_config \<and>
      worker_environ (''MWAA__LOGGING__AIRFLOW_'' @ upper ''Worker'' @ ''_LOG_GROUP_ARN'') =
        Some ''arn:worker'' \<and> ''arn:worker'' \<noteq> []"
    using example_runs(3) arn by (simp add: name_simps)
  have q: "run_module example_imported worker_environ = Inr worker_config \<and>
      \<not> truthy (worker_environ
        (''MWAA__LOGGING__AIRFLOW_'' @ upper ''Scheduler'' @ ''_LOG_GROUP_ARN''))"
    using example_runs(3) by (simp add: name_simps worker_environ_def truthy_def)
  have r: "''MWAA__LOGGING__AIRFLOW_WORKER_REQUIREMENTS_LOG_LEVEL'' \<in>
      {''MWAA__LOGGING__AIRFLOW_'' @ upper ''Worker'' @ ''_REQUIREMENTS_LOG_GROUP_ARN'',
       ''MWAA__LOGGING__AIRFLOW_'' @ upper ''Worker'' @ ''_REQUIREMENTS_LOG_LEVEL'',
       ''MWAA__LOGGING__AIRFLOW_'' @ upper ''Worker'' @ ''_REQUIREMENTS_LOGS_ENABLED''}"
    by (simp add: name_simps)
  note c = requirements_logger_shares_component_settings
    [OF w, of example_imported worker_environ]
  note d = requirements_logger_shares_component_settings
    [OF s, of example_imported worker_environ]
  note c1 = c [THEN conjunct1, rule_format, OF p]
  note d2 = d [THEN conjunct2, THEN conjunct1, rule_format, OF q]
  note c3 = c [THEN conjunct2, THEN conjunct2, rule_format, OF r, of "Some ''DEBUG''"]
  have ev: "qualified_name example_imported SubprocessLogHandler = ''SubprocessLogHandler''"
    "str_or_none (worker_environ ''MWAA__CORE__KMS_KEY_ARN'') = PyNone"
    "lower (environ_get worker_environ
       ''MWAA__LOGGING__AIRFLOW_WORKER_LOGS_ENABLED'' ''false'') \<noteq> ''true''"
    "environ_get worker_environ ''MWAA__LOGGING__AIRFLOW_WORKER_LOG_LEVEL'' ''INFO'' = ''ERROR''"
    by (simp_all add: example_imported_def worker_environ_def str_or_none_def environ_get_def
        name_simps lower_def lower_char_def)
  have none: "handlers_of (PyDict (DEFAULT_LOGGING_CONFIG example_imported))
      ''mwaa_scheduler_requirements'' = None"
    by (simp add: example_imported_def handlers_of_def section_of_def)
  from c1 have 1: "handlers_of worker_config ''mwaa_worker'' = Some (PyDict
     [(''class'', PyStr ''SubprocessLogHandler''),
      (''formatter'', PyStr ''airflow''),
      (''filters'', PyList [PyStr ''mask_secrets'']),
      (''log_group_arn'', PyStr ''arn:worker''),
      (''kms_key_arn'', PyNone),
      (''stream_name_prefix'', PyStr ''worker''),
      (''logs_source'', PyStr ''Worker''),
      (''enabled'', PyBool False)])"
    by (simp add: ev name_simps)
  from c1 have 2: "handlers_of worker_config ''mwaa_worker_requirements'' = Some (PyDict
     [(''class'', PyStr ''SubprocessLogHandler''),
      (''formatter'', PyStr ''airflow''),
      (''filters'', PyList [PyStr ''mask_secrets'']),
      (''log_group_arn'', PyStr ''arn:worker''),
      (''kms_key_arn'', PyNone),
      (''stream_name_prefix'', PyStr ''worker_requirements''),
      (''logs_source'', PyStr ''Worker_requirements''),
      (''enabled'', PyBool False)])"
    by (simp add: ev name_simps)
  from c1 have 3: "loggers_of worker_config ''mwaa.worker'' = Some (PyDict
     [(''handlers'', PyList [PyStr ''mwaa_worker'']),
      (''level'', PyStr ''ERROR''),
      (''propagate'', PyBool False)])"
    by (simp add: ev name_simps)
  from c1 have 4: "loggers_of worker_config ''mwaa.worker_requirements'' = Some (PyDict
     [(''handlers'', PyList [PyStr ''mwaa_worker_requirements'']),
      (''level'', PyStr ''ERROR''),
      (''propagate'', PyBool False)])"
    by (simp add: ev name_simps)
  from d2 none have 5: "handlers_of worker_config ''mwaa_scheduler_requirements'' = None"
    by (simp add: name_simps)
  from c3 example_runs(3) have 6: "run_module example_imported
     (worker_environ(''MWAA__LOGGING__AIRFLOW_WORKER_REQUIREMENTS_LOG_LEVEL'' := Some ''DEBUG'')) =
     Inr worker_config"
    by simp
  from w example_runs(3) arn 1 2 3 4 5 6 show ?thesis
    by (intro conjI)
qed

section \<open>The loggers the run adds\<close>

text \<open>
  Claim C10. After a run of the module that completes, every logger other than
  \<^verbatim>\<open>airflow.task\<close> that is not what the default configuration has under its key
  (so that the run wrote it) consists of a \<^verbatim>\<open>handlers\<close> list of one name, a
  \<^verbatim>\<open>level\<close> and \<^verbatim>\<open>propagate\<close> false, and the name in the list is a key of the
  handlers of the result. The same holds of each logger key of a source other than
  \<^verbatim>\<open>task\<close> whose log group variable is set to a non-empty value: the run writes
  such an entry there.
\<close>

theorem added_loggers_name_existing_handlers:
  assumes "run_module imp env = Inr cfg"
  shows "(\<forall>k e. k \<noteq> ''airflow.task'' \<and> loggers_of cfg k = Some e \<and>
            loggers_of (PyDict (DEFAULT_LOGGING_CONFIG imp)) k \<noteq> Some e \<longrightarrow>
            (\<exists>h lvl. e = PyDict [(''handlers'', PyList [PyStr h]), (''level'', PyStr lvl),
                                  (''propagate'', PyBool False)] \<and>
               h \<in> dom (handlers_of cfg))) \<and>
         (\<forall>(S, hs, ls) \<in> set source_entries.
            S \<noteq> ''task'' \<and>
            truthy (env (''MWAA__LOGGING__AIRFLOW_'' @ upper S @ ''_LOG_GROUP_ARN'')) \<longrightarrow>
            (\<forall>l \<in> set ls. \<exists>h lvl.
               loggers_of cfg l = Some (PyDict [(''handlers'', PyList [PyStr h]),
                 (''level'', PyStr lvl), (''propagate'', PyBool False)]) \<and>
               h \<in> dom (handlers_of cfg)))"
proof -
  note after = run_module_handlers [OF assms] run_module_loggers [OF assms]
    H_all_apply L_all_apply
  have written:
    "truthy (env ''MWAA__LOGGING__AIRFLOW_DAGPROCESSOR_LOG_GROUP_ARN'') \<Longrightarrow>
       loggers_of cfg ''airflow.processor_manager'' = Some (subprocess_logger env ''dagprocessor'' ''processor_manager'')"
    "truthy (env ''MWAA__LOGGING__AIRFLOW_DAGPROCESSOR_LOG_GROUP_ARN'') \<Longrightarrow>
       loggers_of cfg ''airflow.processor'' = Some (subprocess_logger env ''dagprocessor'' ''processor'')"
    "truthy (env ''MWAA__LOGGING__AIRFLOW_WORKER_LOG_GROUP_ARN'') \<Longrightarrow>
       loggers_of cfg ''mwaa.worker'' = Some (subprocess_logger env ''Worker'' ''mwaa_worker'')"
    "truthy (env ''MWAA__LOGGING__AIRFLOW_WORKER_LOG_GROUP_ARN'') \<Longrightarrow>
       loggers_of cfg ''mwaa.worker_requirements'' = Some (subprocess_logger env ''Worker'' ''mwaa_worker_requirements'')"
    "truthy (env ''MWAA__LOGGING__AIRFLOW_SCHEDULER_LOG_GROUP_ARN'') \<Longrightarrow>
       loggers_of cfg ''mwaa.scheduler'' = Some (subprocess_logger env ''Scheduler'' ''mwaa_scheduler'')"
    "truthy (env ''MWAA__LOGGING__AIRFLOW_SCHEDULER_LOG_GROUP_ARN'') \<Longrightarrow>
       loggers_of cfg ''mwaa.scheduler_requirements'' = Some (subprocess_logger env ''Scheduler'' ''mwaa_scheduler_requirements'')"
    "truthy (env ''MWAA__LOGGING__AIRFLOW_WEBSERVER_LOG_GROUP_ARN'') \<Longrightarrow>
       loggers_of cfg ''mwaa.webserver'' = Some (subprocess_logger env ''WebServer'' ''mwaa_webserver'')"
    "truthy (env ''MWAA__LOGGING__AIRFLOW_WEBSERVER_LOG_GROUP_ARN'') \<Longrightarrow>
       loggers_of cfg ''mwaa.webserver_requirements'' = Some (subprocess_logger env ''WebServer'' ''mwaa_webserver_requirements'')"
    "truthy (env ''MWAA__LOGGING__AIRFLOW_TRIGGERER_LOG_GROUP_ARN'') \<Longrightarrow>
       loggers_of cfg ''mwaa.triggerer'' = Some (subprocess_logger env ''Triggerer'' ''mwaa_triggerer'')"
    "truthy (env ''MWAA__LOGGING__AIRFLOW_TRIGGERER_LOG_GROUP_ARN'') \<Longrightarrow>
       loggers_of cfg ''mwaa.triggerer_requirements'' = Some (subprocess_logger env ''Triggerer'' ''mwaa_triggerer_requirements'')"
    by (simp_all add: after)
  have handler:
    "truthy (env ''MWAA__LOGGING__AIRFLOW_DAGPROCESSOR_LOG_GROUP_ARN'') \<Longrightarrow>
       ''processor_manager'' \<in> dom (handlers_of cfg)"
    "truthy (env ''MWAA__LOGGING__AIRFLOW_DAGPROCESSOR_LOG_GROUP_ARN'') \<Longrightarrow>
       ''processor'' \<in> dom (handlers_of cfg)"
    "truthy (env ''MWAA__LOGGING__AIRFLOW_WORKER_LOG_GROUP_ARN'') \<Longrightarrow>
       ''mwaa_worker'' \<in> dom (handlers_of cfg)"
    "truthy (env ''MWAA__LOGGING__AIRFLOW_WORKER_LOG_GROUP_ARN'') \<Longrightarrow>
       ''mwaa_worker_requirements'' \<in> dom (handlers_of cfg)"
    "truthy (env ''MWAA__LOGGING__AIRFLOW_SCHEDULER_LOG_GROUP_ARN'') \<Longrightarrow>
       ''mwaa_scheduler'' \<in> dom (handlers_of cfg)"
    "truthy (env ''MWAA__LOGGING__AIRFLOW_SCHEDULER_LOG_GROUP_ARN'') \<Longrightarrow>
       ''mwaa_scheduler_requirements'' \<in> dom (handlers_of cfg)"
    "truthy (env ''MWAA__LOGGING__AIRFLOW_WEBSERVER_LOG_GROUP_ARN'') \<Longrightarrow>
       ''mwaa_webserver'' \<in> dom (handlers_of cfg)"
    "truthy (env ''MWAA__LOGGING__AIRFLOW_WEBSERVER_LOG_GROUP_ARN'') \<Longrightarrow>
       ''mwaa_webserver_requirements'' \<in> dom (handlers_of cfg)"
    "truthy (env ''MWAA__LOGGING__AIRFLOW_TRIGGERER_LOG_GROUP_ARN'') \<Longrightarrow>
       ''mwaa_triggerer'' \<in> dom (handlers_of cfg)"
    "truthy (env ''MWAA__LOGGING__AIRFLOW_TRIGGERER_LOG_GROUP_ARN'') \<Longrightarrow>
       ''mwaa_triggerer_requirements'' \<in> dom (handlers_of cfg)"
    by (simp_all add: after domIff)
  have kept:
    "\<not> truthy (env ''MWAA__LOGGING__AIRFLOW_DAGPROCESSOR_LOG_GROUP_ARN'') \<Longrightarrow>
       loggers_of cfg ''airflow.processor_manager'' = loggers_of (PyDict (DEFAULT_LOGGING_CONFIG imp)) ''airflow.processor_manager''"
    "\<not> truthy (env ''MWAA__LOGGING__AIRFLOW_DAGPROCESSOR_LOG_GROUP_ARN'') \<Longrightarrow>
       loggers_of cfg ''airflow.processor'' = loggers_of (PyDict (DEFAULT_LOGGING_CONFIG imp)) ''airflow.processor''"
    "\<not> truthy (env ''MWAA__LOGGING__AIRFLOW_WORKER_LOG_GROUP_ARN'') \<Longrightarrow>
       loggers_of cfg ''mwaa.worker'' = loggers_of (PyDict (DEFAULT_LOGGING_CONFIG imp)) ''mwaa.worker''"
    "\<not> truthy (env ''MWAA__LOGGING__AIRFLOW_WORKER_LOG_GROUP_ARN'') \<Longrightarrow>
       loggers_of cfg ''mwaa.worker_requirements'' = loggers_of (PyDict (DEFAULT_LOGGING_CONFIG imp)) ''mwaa.worker_requirements''"
    "\<not> truthy (env ''MWAA__LOGGING__AIRFLOW_SCHEDULER_LOG_GROUP_ARN'') \<Longrightarrow>
       loggers_of cfg ''mwaa.scheduler'' = loggers_of (PyDict (DEFAULT_LOGGING_CONFIG imp)) ''mwaa.scheduler''"
    "\<not> truthy (env ''MWAA__LOGGING__AIRFLOW_SCHEDULER_LOG_GROUP_ARN'') \<Longrightarrow>
       loggers_of cfg ''mwaa.scheduler_requirements'' = loggers_of (PyDict (DEFAULT_LOGGING_CONFIG imp)) ''mwaa.scheduler_requirements''"
    "\<not> truthy (env ''MWAA__LOGGING__AIRFLOW_WEBSERVER_LOG_GROUP_ARN'') \<Longrightarrow>
       loggers_of cfg ''mwaa.webserver'' = loggers_of (PyDict (DEFAULT_LOGGING_CONFIG imp)) ''mwaa.webserver''"
    "\<not> truthy (env ''MWAA__LOGGING__AIRFLOW_WEBSERVER_LOG_GROUP_ARN'') \<Longrightarrow>
       loggers_of cfg ''mwaa.webserver_requirements'' = loggers_of (PyDict (DEFAULT_LOGGING_CONFIG imp)) ''mwaa.webserver_requirements''"
    "\<not> truthy (env ''MWAA__LOGGING__AIRFLOW_TRIGGERER_LOG_GROUP_ARN'') \<Longrightarrow>
       loggers_of cfg ''mwaa.triggerer'' = loggers_of (PyDict (DEFAULT_LOGGING_CONFIG imp)) ''mwaa.triggerer''"
    "\<not> truthy (env ''MWAA__LOGGING__AIRFLOW_TRIGGERER_LOG_GROUP_ARN'') \<Longrightarrow>
       loggers_of cfg ''mwaa.triggerer_requirements'' = loggers_of (PyDict (DEFAULT_LOGGING_CONFIG imp)) ''mwaa.triggerer_requirements''"
    by (simp_all add: after)
  have other: "loggers_of cfg k = loggers_of (PyDict (DEFAULT_LOGGING_CONFIG imp)) k"
    if "k \<noteq> ''airflow.task''" and "k \<notin> {''airflow.processor_manager'',
        ''airflow.processor'',
        ''mwaa.worker'',
        ''mwaa.worker_requirements'',
        ''mwaa.scheduler'',
        ''mwaa.scheduler_requirements'',
        ''mwaa.webserver'',
        ''mwaa.webserver_requirements'',
        ''mwaa.triggerer'',
        ''mwaa.triggerer_requirements''}" for k
    using that by (simp add: after)
  have 1: "\<exists>h lvl. e = PyDict [(''handlers'', PyList [PyStr h]), (''level'', PyStr lvl),
                               (''propagate'', PyBool False)] \<and> h \<in> dom (handlers_of cfg)"
    if k: "k \<noteq> ''airflow.task''" and e: "loggers_of cfg k = Some e"
      and d: "loggers_of (PyDict (DEFAULT_LOGGING_CONFIG imp)) k \<noteq> Some e" for k e
  proof (cases "k \<in> {''airflow.processor_manager'',
        ''airflow.processor'',
        ''mwaa.worker'',
        ''mwaa.worker_requirements'',
        ''mwaa.scheduler'',
        ''mwaa.scheduler_requirements'',
        ''mwaa.webserver'',
        ''mwaa.webserver_requirements'',
        ''mwaa.triggerer'',
        ''mwaa.triggerer_requirements''}")
    case False
    from other [OF k False] e d show ?thesis by simp
  next
    case True
    then have "k = ''airflow.processor_manager'' \<or>
      k = ''airflow.processor'' \<or>
      k = ''mwaa.worker'' \<or>
      k = ''mwaa.worker_requirements'' \<or>
      k = ''mwaa.scheduler'' \<or>
      k = ''mwaa.scheduler_requirements'' \<or>
      k = ''mwaa.webserver'' \<or>
      k = ''mwaa.webserver_requirements'' \<or>
      k = ''mwaa.triggerer'' \<or>
      k = ''mwaa.triggerer_requirements''"
      by simp
    then show ?thesis
    proof (elim disjE)
      assume kn: "k = ''airflow.processor_manager''"
      show ?thesis
      proof (cases "truthy (env ''MWAA__LOGGING__AIRFLOW_DAGPROCESSOR_LOG_GROUP_ARN'')")
        case True
        from written(1) [OF True] handler(1) [OF True] e show ?thesis
          unfolding kn by (simp add: subprocess_logger_def)
      next
        case False
        from kept(1) [OF False] e d show ?thesis
          unfolding kn by simp
      qed
    next
      assume kn: "k = ''airflow.processor''"
      show ?thesis
      proof (cases "truthy (env ''MWAA__LOGGING__AIRFLOW_DAGPROCESSOR_LOG_GROUP_ARN'')")
        case True
        from written(2) [OF True] handler(2) [OF True] e show ?thesis
          unfolding kn by (simp add: subprocess_logger_def)
      next
        case False
        from kept(2) [OF False] e d show ?thesis
          unfolding kn by simp
      qed
    next
      assume kn: "k = ''mwaa.worker''"
      show ?thesis
      proof (cases "truthy (env ''MWAA__LOGGING__AIRFLOW_WORKER_LOG_GROUP_ARN'')")
        case True
        from written(3) [OF True] handler(3) [OF True] e show ?thesis
          unfolding kn by (simp add: subprocess_logger_def)
      next
        case False
        from kept(3) [OF False] e d show ?thesis
          unfolding kn by simp
      qed
    next
      assume kn: "k = ''mwaa.worker_requirements''"
      show ?thesis
      proof (cases "truthy (env ''MWAA__LOGGING__AIRFLOW_WORKER_LOG_GROUP_ARN'')")
        case True
        from written(4) [OF True] handler(4) [OF True] e show ?thesis
          unfolding kn by (simp add: subprocess_logger_def)
      next
        case False
        from kept(4) [OF False] e d show ?thesis
          unfolding kn by simp
      qed
    next
      assume kn: "k = ''mwaa.scheduler''"
      show ?thesis
      proof (cases "truthy (env ''MWAA__LOGGING__AIRFLOW_SCHEDULER_LOG_GROUP_ARN'')")
        case True
        from written(5) [OF True] handler(5) [OF True] e show ?thesis
          unfolding kn by (simp add: subprocess_logger_def)
      next
        case False
        from kept(5) [OF False] e d show ?thesis
          unfolding kn by simp
      qed
    next
      assume kn: "k = ''mwaa.scheduler_requirements''"
      show ?thesis
      proof (cases "truthy (env ''MWAA__LOGGING__AIRFLOW_SCHEDULER_LOG_GROUP_ARN'')")
        case True
        from written(6) [OF True] handler(6) [OF True] e show ?thesis
          unfolding kn by (simp add: subprocess_logger_def)
      next
        case False
        from kept(6) [OF False] e d show ?thesis
          unfolding kn by simp
      qed
    next
      assume kn: "k = ''mwaa.webserver''"
      show ?thesis
      proof (cases "truthy (env ''MWAA__LOGGING__AIRFLOW_WEBSERVER_LOG_GROUP_ARN'')")
        case True
        from written(7) [OF True] handler(7) [OF True] e show ?thesis
          unfolding kn by (simp add: subprocess_logger_def)
      next
        case False
        from kept(7) [OF False] e d show ?thesis
          unfolding kn by simp
      qed
    next
      assume kn: "k = ''mwaa.webserver_requirements''"
      show ?thesis
      proof (cases "truthy (env ''MWAA__LOGGING__AIRFLOW_WEBSERVER_LOG_GROUP_ARN'')")
        case True
        from written(8) [OF True] handler(8) [OF True] e show ?thesis
          unfolding kn by (simp add: subprocess_logger_def)
      next
        case False
        from kept(8) [OF False] e d show ?thesis
          unfolding kn by simp
      qed
    next
      assume kn: "k = ''mwaa.triggerer''"
      show ?thesis
      proof (cases "truthy (env ''MWAA__LOGGING__AIRFLOW_TRIGGERER_LOG_GROUP_ARN'')")
        case True
        from written(9) [OF True] handler(9) [OF True] e show ?thesis
          unfolding kn by (simp add: subprocess_logger_def)
      next
        case False
        from kept(9) [OF False] e d show ?thesis
          unfolding kn by simp
      qed
    next
      assume kn: "k = ''mwaa.triggerer_requirements''"
      show ?thesis
      proof (cases "truthy (env ''MWAA__LOGGING__AIRFLOW_TRIGGERER_LOG_GROUP_ARN'')")
        case True
        from written(10) [OF True] handler(10) [OF True] e show ?thesis
          unfolding kn by (simp add: subprocess_logger_def)
      next
        case False
        from kept(10) [OF False] e d show ?thesis
          unfolding kn by simp
      qed
    qed
  qed
  have 2: "\<forall>(S, hs, ls) \<in> set source_entries.
            S \<noteq> ''task'' \<and>
            truthy (env (''MWAA__LOGGING__AIRFLOW_'' @ upper S @ ''_LOG_GROUP_ARN'')) \<longrightarrow>
            (\<forall>l \<in> set ls. \<exists>h lvl.
               loggers_of cfg l = Some (PyDict [(''handlers'', PyList [PyStr h]),
                 (''level'', PyStr lvl), (''propagate'', PyBool False)]) \<and>
               h \<in> dom (handlers_of cfg))"
    by (simp add: source_entries_def name_simps written handler subprocess_logger_def)
  show ?thesis
  proof (intro conjI allI impI)
    fix k e
    assume "k \<noteq> ''airflow.task'' \<and> loggers_of cfg k = Some e \<and>
      loggers_of (PyDict (DEFAULT_LOGGING_CONFIG imp)) k \<noteq> Some e"
    then have "k \<noteq> ''airflow.task''" "loggers_of cfg k = Some e"
      "loggers_of (PyDict (DEFAULT_LOGGING_CONFIG imp)) k \<noteq> Some e"
      by blast+
    then show "\<exists>h lvl. e = PyDict [(''handlers'', PyList [PyStr h]), (''level'', PyStr lvl),
                               (''propagate'', PyBool False)] \<and> h \<in> dom (handlers_of cfg)"
      by (rule 1)
  next
    show "\<forall>(S, hs, ls) \<in> set source_entries.
            S \<noteq> ''task'' \<and>
            truthy (env (''MWAA__LOGGING__AIRFLOW_'' @ upper S @ ''_LOG_GROUP_ARN'')) \<longrightarrow>
            (\<forall>l \<in> set ls. \<exists>h lvl.
               loggers_of cfg l = Some (PyDict [(''handlers'', PyList [PyStr h]),
                 (''level'', PyStr lvl), (''propagate'', PyBool False)]) \<and>
               h \<in> dom (handlers_of cfg))"
      by (rule 2)
  qed
qed

theorem added_loggers_name_existing_handlers_witness:
  "run_module example_imported dag_environ = Inr dag_config \<and>
   loggers_of dag_config ''airflow.processor'' = Some (PyDict
     [(''handlers'', PyList [PyStr ''processor'']), (''level'', PyStr ''INFO''),
      (''propagate'', PyBool False)]) \<and>
   loggers_of (PyDict (DEFAULT_LOGGING_CONFIG example_imported)) ''airflow.processor'' = None \<and>
   ''processor'' \<in> dom (handlers_of dag_config)"
proof -
  let ?e = "PyDict [(''handlers'', PyList [PyStr ''processor'']), (''level'', PyStr ''INFO''),
      (''propagate'', PyBool False)]"
  have a: "loggers_of dag_config ''airflow.processor'' = Some ?e"
    by (simp add: dag_config_def loggers_of_def section_of_def)
  have b: "loggers_of (PyDict (DEFAULT_LOGGING_CONFIG example_imported)) ''airflow.processor'' = None"
    by (simp add: example_imported_def loggers_of_def section_of_def)
  have p: "''airflow.processor'' \<noteq> ''airflow.task'' \<and>
      loggers_of dag_config ''airflow.processor'' = Some ?e \<and>
      loggers_of (PyDict (DEFAULT_LOGGING_CONFIG example_imported)) ''airflow.processor'' \<noteq> Some ?e"
    using a b by simp
  note c = added_loggers_name_existing_handlers [OF example_runs(2), THEN conjunct1,
      rule_format, OF p]
  then have "''processor'' \<in> dom (handlers_of dag_config)"
    by simp
  with example_runs(2) a b show ?thesis by simp
qed

end
